theory Spec2Isabelle
  imports Main "HOL-Library.Sublist"
begin

section \<open>JavaScript strings and the runtime functions the engine calls\<close>

text \<open>
  The engine is the TypeScript function \<open>improveIdea(raw, hints)\<close> of the API route
  \<open>app/api/improve/route.ts\<close>. A JavaScript string is a sequence of UTF-16 code units;
  it is modelled as a list of natural numbers, one per code unit, so that \<open>length\<close>,
  \<open>slice\<close> and the regular expressions count what the program counts. Text in basic
  Latin is written \<open>S ''...''\<close>; the Arabic keywords and labels of the source are
  written as their code units in hexadecimal (\<open>0x645\<close> is U+0645).
\<close>

type_synonym jstring = "nat list"

definition S :: "string \<Rightarrow> jstring" where
  "S cs = map of_char cs"

text \<open>
  \<open>WhiteSpace\<close> and \<open>LineTerminator\<close> of ECMAScript: what \<open>String.prototype.trim\<close>
  strips and what \<open>\s\<close> matches.
\<close>

definition isWhiteSpace :: "nat \<Rightarrow> bool" where
  "isWhiteSpace c \<longleftrightarrow>
     c \<in> set [0x9, 0xA, 0xB, 0xC, 0xD, 0x20, 0xA0, 0x1680, 0x2000, 0x2001, 0x2002, 0x2003,
       0x2004,
       0x2005, 0x2006, 0x2007, 0x2008, 0x2009, 0x200A, 0x2028, 0x2029, 0x202F, 0x205F, 0x3000,
       0xFEFF]"

definition trim :: "jstring \<Rightarrow> jstring" where
  "trim s = rev (dropWhile isWhiteSpace (rev (dropWhile isWhiteSpace s)))"

text \<open>
  \<open>String.prototype.toLowerCase\<close>, unit by unit. The letters A to Z become a to z.
  Two units outside basic Latin lower-case into it: the Kelvin sign U+212A becomes \<open>k\<close>,
  and the dotted capital I U+0130 becomes \<open>i\<close> followed by the combining dot U+0307.
  Every other unit is left as it is. That is what the runtime does on the Arabic block,
  which has no case; a cased letter of another script becomes, in the runtime, another
  unit outside basic Latin, which the patterns of the engine (basic Latin and Arabic)
  treat alike.
\<close>

definition toLowerUnit :: "nat \<Rightarrow> jstring" where
  "toLowerUnit c =
     (if 0x41 \<le> c \<and> c \<le> 0x5A then [c + 0x20]
      else if c = 0x212A then [0x6B]
      else if c = 0x130 then [0x69, 0x307]
      else [c])"

definition toLowerCase :: "jstring \<Rightarrow> jstring" where
  "toLowerCase s = concat (map toLowerUnit s)"

text \<open>\<open>String.prototype.includes\<close>: the argument occurs as a contiguous substring.\<close>

fun str_includes :: "jstring \<Rightarrow> jstring \<Rightarrow> bool" where
  "str_includes [] w = (w = [])"
| "str_includes (c # cs) w = (prefix w (c # cs) \<or> str_includes cs w)"

text \<open>\<open>Array.prototype.join\<close> on an array of strings.\<close>

fun join :: "jstring \<Rightarrow> jstring list \<Rightarrow> jstring" where
  "join sep [] = []"
| "join sep [x] = x"
| "join sep (x # y # ys) = x @ sep @ join sep (y # ys)"

text \<open>
  \<open>s.replace(/C+/g, rep)\<close> for a character class \<open>C\<close>: every maximal run of units of
  the class becomes one \<open>rep\<close>. The flag says whether the previous unit belonged to the
  run being replaced.
\<close>

fun replaceRunsFrom :: "bool \<Rightarrow> (nat \<Rightarrow> bool) \<Rightarrow> nat \<Rightarrow> jstring \<Rightarrow> jstring" where
  "replaceRunsFrom inRun C rep [] = []"
| "replaceRunsFrom inRun C rep (c # cs) =
     (if C c then (if inRun then replaceRunsFrom True C rep cs
                   else rep # replaceRunsFrom True C rep cs)
      else c # replaceRunsFrom False C rep cs)"

definition replaceRuns :: "(nat \<Rightarrow> bool) \<Rightarrow> nat \<Rightarrow> jstring \<Rightarrow> jstring" where
  "replaceRuns C rep s = replaceRunsFrom False C rep s"

text \<open>
  \<open>s.split(/\s+/).filter(Boolean)\<close>: the maximal runs of units that are not white space
  (the empty pieces that \<open>split\<close> yields at the ends are the ones \<open>filter\<close> drops).
  The first argument is the piece being read.
\<close>

fun splitSpaces :: "jstring \<Rightarrow> jstring \<Rightarrow> jstring list" where
  "splitSpaces cur [] = (if cur = [] then [] else [cur])"
| "splitSpaces cur (c # cs) =
     (if isWhiteSpace c then (if cur = [] then splitSpaces [] cs else cur # splitSpaces [] cs)
      else splitSpaces (cur @ [c]) cs)"

text \<open>
  \<open>Array.from(new Set(xs))\<close>: a Set keeps insertion order and ignores a value it already
  holds, so the first occurrence of each value survives. The first argument is the set so
  far.
\<close>

fun setInsertAll :: "'a list \<Rightarrow> 'a list \<Rightarrow> 'a list" where
  "setInsertAll acc [] = acc"
| "setInsertAll acc (x # xs) = setInsertAll (if x \<in> set acc then acc else acc @ [x]) xs"

definition fromSet :: "'a list \<Rightarrow> 'a list" where
  "fromSet xs = setInsertAll [] xs"

text \<open>\<open>if (c) arr.push(x)\<close>, and \<open>if (!arr.includes(x)) arr.push(x)\<close>.\<close>

definition pushIf :: "bool \<Rightarrow> 'a \<Rightarrow> 'a list \<Rightarrow> 'a list" where
  "pushIf c x arr = (if c then arr @ [x] else arr)"

definition pushNew :: "'a \<Rightarrow> 'a list \<Rightarrow> 'a list" where
  "pushNew x arr = pushIf (x \<notin> set arr) x arr"

text \<open>
  A sequence of statements \<open>if (c) arr.push(x);\<close> whose conditions do not read the array:
  one pair per statement, in the order of the source.
\<close>

fun pushEach :: "(bool \<times> 'a) list \<Rightarrow> 'a list \<Rightarrow> 'a list" where
  "pushEach [] arr = arr"
| "pushEach ((c, x) # rest) arr = pushEach rest (pushIf c x arr)"

text \<open>
  The hint loop that the source repeats for every set-valued field (lines 142-146 for
  \<open>audience\<close>):
  \<^verbatim>\<open>if (hints?.audience?.length) {
    for (const a of hints.audience) { if (a && !audience.includes(a)) audience.push(a); } }\<close>
  An empty string is falsy, so it is never pushed. An absent array and an empty one both
  leave the field as it is.
\<close>

fun pushHints :: "jstring list \<Rightarrow> jstring list \<Rightarrow> jstring list" where
  "pushHints arr [] = arr"
| "pushHints arr (a # as) = pushHints (pushIf (a \<noteq> [] \<and> a \<notin> set arr) a arr) as"

definition mergeHint :: "jstring list \<Rightarrow> jstring list option \<Rightarrow> jstring list" where
  "mergeHint arr h = (case h of None \<Rightarrow> arr | Some hs \<Rightarrow> pushHints arr hs)"

section \<open>Regular expressions\<close>

text \<open>
  The expressions of the source use literals, alternation, groups, \<open>?\<close>, \<open>\s\<close>, \<open>\s*\<close>
  and \<open>\b\<close>, and no flags. A match state is the unit before the current position (for
  \<open>\b\<close>) and the rest of the text; \<open>rmatch\<close> returns every state a match of the
  expression can end in, and \<open>RegExp.prototype.test\<close> looks for a match from every
  start position.
\<close>

datatype regex =
    Lit jstring
  | Space
  | SpaceStar
  | Boundary
  | Opt regex
  | Cat "regex list"
  | Alt "regex list"

type_synonym mstate = "nat option \<times> jstring"

definition isWordChar :: "nat \<Rightarrow> bool" where
  "isWordChar c \<longleftrightarrow>
     (0x61 \<le> c \<and> c \<le> 0x7A) \<or> (0x41 \<le> c \<and> c \<le> 0x5A) \<or> (0x30 \<le> c \<and> c \<le> 0x39) \<or>
     c = 0x5F"

definition wordBefore :: "nat option \<Rightarrow> bool" where
  "wordBefore p = (case p of None \<Rightarrow> False | Some c \<Rightarrow> isWordChar c)"

definition wordAfter :: "jstring \<Rightarrow> bool" where
  "wordAfter s = (case s of [] \<Rightarrow> False | c # _ \<Rightarrow> isWordChar c)"

fun matchLit :: "jstring \<Rightarrow> mstate \<Rightarrow> mstate list" where
  "matchLit [] st = [st]"
| "matchLit (w # ws) (p, []) = []"
| "matchLit (w # ws) (p, c # cs) = (if w = c then matchLit ws (Some c, cs) else [])"

fun matchSpaces :: "mstate \<Rightarrow> mstate list" where
  "matchSpaces (p, []) = [(p, [])]"
| "matchSpaces (p, c # cs) =
     (if isWhiteSpace c then matchSpaces (Some c, cs) @ [(p, c # cs)] else [(p, c # cs)])"

fun rmatch :: "regex \<Rightarrow> mstate \<Rightarrow> mstate list" where
  "rmatch (Lit w) st = matchLit w st"
| "rmatch Space (p, s) =
     (case s of [] \<Rightarrow> [] | c # cs \<Rightarrow> if isWhiteSpace c then [(Some c, cs)] else [])"
| "rmatch SpaceStar st = matchSpaces st"
| "rmatch Boundary (p, s) = (if wordBefore p \<noteq> wordAfter s then [(p, s)] else [])"
| "rmatch (Opt r) st = rmatch r st @ [st]"
| "rmatch (Cat []) st = [st]"
| "rmatch (Cat (r # rs)) st = concat (map (rmatch (Cat rs)) (rmatch r st))"
| "rmatch (Alt rs) st = concat (map (\<lambda>r. rmatch r st) rs)"

fun search :: "regex \<Rightarrow> nat option \<Rightarrow> jstring \<Rightarrow> bool" where
  "search r p [] = (rmatch r (p, []) \<noteq> [])"
| "search r p (c # cs) = (rmatch r (p, c # cs) \<noteq> [] \<or> search r (Some c) cs)"

definition test :: "regex \<Rightarrow> jstring \<Rightarrow> bool" where
  "test r s = search r None s"

text \<open>
  Line 84:
  \<^verbatim>\<open>const contains = (w: string | RegExp) =>
    typeof w === "string" ? lower.includes(w) : w.test(lower);\<close>
\<close>

datatype pattern = Str jstring | Re regex

fun contains :: "jstring \<Rightarrow> pattern \<Rightarrow> bool" where
  "contains lower (Str w) = str_includes lower w"
| "contains lower (Re r) = test r lower"

section \<open>The hints and the site types\<close>

text \<open>
  \<open>ImproveHints\<close> (lines 21-41): every field is optional. The site type and the output
  language arrive as strings and are checked by the engine itself (lines 81, 167-173), so
  they are strings here. The engine reads every hint as \<open>hints?.field\<close>: absent hints
  behave as hints with no field (\<open>noHints\<close>).
\<close>

record ImproveHints =
  h_audience :: "jstring list option"
  h_siteType :: "jstring option"
  h_tone :: "jstring list option"
  h_features :: "jstring list option"
  h_industries :: "jstring list option"
  h_regions :: "jstring list option"
  h_languages :: "jstring list option"
  h_currency :: "jstring option"
  h_pages :: "jstring list option"
  h_requiresPayments :: "bool option"
  h_compliance :: "jstring list option"
  h_kpis :: "jstring list option"
  h_userStories :: "jstring list option"
  h_tech :: "jstring list option"
  h_contentChecklist :: "jstring list option"
  h_milestones :: "jstring list option"
  h_personas :: "jstring list option"
  h_projectMode :: "bool option"
  h_outputLang :: "jstring option"

definition noHints :: ImproveHints where
  "noHints = \<lparr>h_audience = None, h_siteType = None, h_tone = None, h_features = None,
     h_industries = None, h_regions = None, h_languages = None, h_currency = None,
     h_pages = None, h_requiresPayments = None, h_compliance = None, h_kpis = None,
     h_userStories = None, h_tech = None, h_contentChecklist = None, h_milestones = None,
     h_personas = None, h_projectMode = None, h_outputLang = None\<rparr>"

definition hintsOf :: "ImproveHints option \<Rightarrow> ImproveHints" where
  "hintsOf ho = (case ho of None \<Rightarrow> noHints | Some h \<Rightarrow> h)"

datatype SiteType = Saas | Ecommerce | Portfolio | Restaurant | Blog | Event | Booking | Generic

fun siteTypeName :: "SiteType \<Rightarrow> jstring" where
  "siteTypeName Saas = S ''saas''"
| "siteTypeName Ecommerce = S ''ecommerce''"
| "siteTypeName Portfolio = S ''portfolio''"
| "siteTypeName Restaurant = S ''restaurant''"
| "siteTypeName Blog = S ''blog''"
| "siteTypeName Event = S ''event''"
| "siteTypeName Booking = S ''booking''"
| "siteTypeName Generic = S ''generic''"

definition siteTypeOfName :: "jstring \<Rightarrow> SiteType option" where
  "siteTypeOfName t =
     find (\<lambda>x. siteTypeName x = t)
       [Saas, Ecommerce, Portfolio, Restaurant, Blog, Event, Booking, Generic]"

datatype Lang = En | Ar

text \<open>Line 81: \<^verbatim>\<open>const lang = (hints?.outputLang === "ar" ? "ar" : "en")\<close>\<close>

definition lang :: "ImproveHints \<Rightarrow> Lang" where
  "lang hints = (if h_outputLang hints = Some (S ''ar'') then Ar else En)"

section \<open>Audience (lines 87-146)\<close>

definition audienceHints :: "(jstring \<times> jstring) list" where
  "audienceHints =
    [(S ''designer'', S ''Designers''),
     (S ''designers'', S ''Designers''),
     ([0x645, 0x635, 0x645, 0x645], S ''Designers''),
     ([0x645, 0x635, 0x645, 0x645, 0x64A, 0x646], S ''Designers''),
     (S ''developer'', S ''Developers''),
     (S ''developers'', S ''Developers''),
     ([0x645, 0x637, 0x648, 0x631], S ''Developers''),
     ([0x627, 0x644, 0x645, 0x637, 0x648, 0x631, 0x64A, 0x646], S ''Developers''),
     (S ''student'', S ''Students''),
     (S ''students'', S ''Students''),
     ([0x637, 0x627, 0x644, 0x628], S ''Students''),
     ([0x637, 0x644, 0x627, 0x628], S ''Students''),
     (S ''photographer'', S ''Photographers''),
     (S ''photographers'', S ''Photographers''),
     ([0x645, 0x635, 0x648, 0x631], S ''Photographers''),
     ([0x627, 0x644, 0x645, 0x635, 0x648, 0x631, 0x64A, 0x646], S ''Photographers''),
     (S ''restaurant'', S ''Local diners and food lovers''),
     (S ''restaurants'', S ''Local diners and food lovers''),
     ([0x645, 0x637, 0x639, 0x645], S ''Local diners and food lovers''),
     ([0x645, 0x637, 0x627, 0x639, 0x645], S ''Local diners and food lovers''),
     (S ''nonprofit'', S ''Donors and volunteers''),
     (S ''nonprofits'', S ''Donors and volunteers''),
     ([0x62C, 0x645, 0x639, 0x64A, 0x629], S ''Donors and volunteers''),
     ([0x62C, 0x645, 0x639, 0x64A, 0x627, 0x62A], S ''Donors and volunteers''),
     (S ''startup'', S ''Early adopters and investors''),
     (S ''startups'', S ''Early adopters and investors''),
     ([0x646, 0x627, 0x634, 0x626, 0x629], S ''Early adopters and investors''),
     ([0x633, 0x62A, 0x627, 0x631, 0x62A, 0x20, 0x627, 0x628],
       S ''Early adopters and investors''),
     (S ''ecommerce'', S ''Online shoppers''),
     (S ''shop'', S ''Online shoppers''),
     (S ''shoppers'', S ''Online shoppers''),
     ([0x645, 0x62A, 0x62C, 0x631], S ''Online shoppers''),
     ([0x645, 0x62A, 0x633, 0x648, 0x642, 0x64A, 0x646], S ''Online shoppers''),
     (S ''parents'', S ''Parents''),
     ([0x623, 0x648, 0x644, 0x64A, 0x627, 0x621, 0x20, 0x627, 0x644, 0x623, 0x645, 0x648, 0x631],
       S ''Parents''),
     (S ''teachers'', S ''Teachers''),
     ([0x645, 0x639, 0x644, 0x645, 0x64A, 0x646], S ''Teachers''),
     (S ''fitness'', S ''Fitness enthusiasts''),
     ([0x644, 0x64A, 0x627, 0x642, 0x629], S ''Fitness enthusiasts''),
     (S ''realty'', S ''Home buyers and sellers''),
     (S ''realestate'', S ''Home buyers and sellers''),
     (S ''realtor'', S ''Home buyers and sellers''),
     ([0x639, 0x642, 0x627, 0x631, 0x627, 0x62A], S ''Home buyers and sellers''),
     (S ''b2b'', S ''Business decision-makers''),
     (S ''small'', S ''Small business owners''),
     ([0x645, 0x634, 0x631, 0x648, 0x639, 0x20, 0x635, 0x63A, 0x64A, 0x631],
       S ''Small business owners'')]"

text \<open>
  Lines 137-141: every key the text contains pushes its label, in the order of the
  table; none gives the sentinel; then the array goes through a Set.
\<close>

definition audience_classified :: "jstring \<Rightarrow> jstring list" where
  "audience_classified lower =
     (let audience = map snd (filter (\<lambda>(k, v). contains lower (Str k)) audienceHints);
          audience = (if length audience = 0 then [S ''Prospective customers and early adopters'']
                      else audience)
      in fromSet audience)"

definition audience_merged :: "ImproveHints \<Rightarrow> jstring \<Rightarrow> jstring list" where
  "audience_merged hints lower = mergeHint (audience_classified lower) (h_audience hints)"

section \<open>Site type and project mode (lines 148-176)\<close>

definition saasRe :: regex where
  "saasRe =
    Alt [Lit (S ''saas''), Lit (S ''subscription''), Lit (S ''b2b''), Lit (S ''b2c''),
      Cat [Lit [0x633, 0x648, 0x641, 0x62A], Opt Space, Lit [0x648, 0x64A, 0x631]],
      Cat [Lit [0x62E, 0x62F, 0x645, 0x629], Opt Space, Lit [0x633, 0x62D, 0x627, 0x628, 0x64A,
      0x629]]]"

definition ecommerceRe :: regex where
  "ecommerceRe =
    Alt [Lit (S ''shop''), Lit (S ''store''), Lit (S ''ecommerce''), Lit (S ''checkout''),
      Lit (S ''cart''), Lit (S ''sell''), Lit (S ''buy''), Lit (S ''product''), Lit [0x645, 0x62A,
      0x62C, 0x631], Lit [0x633, 0x644, 0x629], Lit [0x639, 0x631, 0x628, 0x629], Lit [0x634,
      0x631, 0x627, 0x621], Lit [0x628, 0x64A, 0x639], Lit [0x645, 0x646, 0x62A, 0x62C],
      Lit [0x627, 0x644, 0x62F, 0x641, 0x639], Lit [0x62A, 0x633, 0x648, 0x642]]"

definition portfolioRe :: regex where
  "portfolioRe =
    Alt [Lit (S ''portfolio''), Lit (S ''case study''), Lit (S ''case studies''),
      Lit (S ''work''), Lit (S ''dribbble''), Lit (S ''behance''), Lit (S ''photograph''),
      Lit [0x623, 0x639, 0x645, 0x627, 0x644], Lit [0x645, 0x639, 0x631, 0x636], Lit [0x627,
      0x639, 0x645, 0x627, 0x644, 0x64A], Lit [0x633, 0x64A, 0x631, 0x629]]"

definition restaurantRe :: regex where
  "restaurantRe =
    Alt [Lit (S ''restaurant''), Lit (S ''cafe''), Lit (S ''menu''), Lit (S ''reservation''),
      Lit (S ''reservations''), Lit (S ''booking''), Lit [0x645, 0x637, 0x639, 0x645], Lit [0x642,
      0x627, 0x626, 0x645, 0x629], Lit [0x62D, 0x62C, 0x632], Lit [0x62D, 0x62C, 0x648, 0x632,
      0x627, 0x62A]]"

definition blogRe :: regex where
  "blogRe =
    Alt [Lit (S ''blog''), Lit (S ''articles''), Lit (S ''news''), Lit (S ''magazine''),
      Cat [Lit (S ''post''), Boundary], Lit [0x645, 0x62F, 0x648, 0x646, 0x629], Lit [0x645,
      0x642, 0x627, 0x644, 0x627, 0x62A], Lit [0x623, 0x62E, 0x628, 0x627, 0x631]]"

definition eventRe :: regex where
  "eventRe =
    Alt [Lit (S ''event''), Lit (S ''conference''), Lit (S ''meetup''), Lit (S ''summit''),
      Lit (S ''webinar''), Lit (S ''launch''), Lit [0x641, 0x639, 0x627, 0x644, 0x64A, 0x629],
      Lit [0x645, 0x624, 0x62A, 0x645, 0x631], Lit [0x646, 0x62F, 0x648, 0x629], Lit [0x642,
      0x645, 0x629], Lit [0x648, 0x631, 0x634, 0x629]]"

definition bookingRe :: regex where
  "bookingRe =
    Alt [Cat [Lit (S ''book''), Opt (Lit (S ''ing''))], Lit (S ''schedule''),
      Lit (S ''calendar''), Lit (S ''appointment''), Lit [0x62D, 0x62C, 0x632], Lit [0x645, 0x648,
      0x639, 0x62F], Lit [0x62C, 0x62F, 0x648, 0x644, 0x629], Lit [0x62A, 0x642, 0x648, 0x64A,
      0x645]]"

definition projectRe :: regex where
  "projectRe =
    Alt [Lit (S ''project''), Lit [0x645, 0x634, 0x631, 0x648, 0x639], Lit (S ''mvp''),
      Lit (S ''scope''), Cat [Lit (S ''requirement''), Opt (Lit (S ''s''))], Lit (S ''spec''),
      Lit (S ''brief''), Lit (S ''proposal''), Lit (S ''plan''), Lit (S ''timeline''),
      Cat [Lit (S ''milestone''), Opt (Lit (S ''s''))], Cat [Lit (S ''deliverable''),
      Opt (Lit (S ''s''))]]"

text \<open>Lines 158-165: a chain of conditional expressions, the first test that holds wins.\<close>

definition siteType_classified :: "jstring \<Rightarrow> SiteType" where
  "siteType_classified lower =
     (if contains lower (Re saasRe) then Saas
      else if contains lower (Re ecommerceRe) then Ecommerce
      else if contains lower (Re portfolioRe) then Portfolio
      else if contains lower (Re restaurantRe) then Restaurant
      else if contains lower (Re blogRe) then Blog
      else if contains lower (Re eventRe) then Event
      else if contains lower (Re bookingRe) then Booking
      else Generic)"

definition projectMode_classified :: "jstring \<Rightarrow> bool" where
  "projectMode_classified lower = contains lower (Re projectRe)"

definition allowed :: "jstring list" where
  "allowed = [S ''saas'', S ''ecommerce'', S ''portfolio'', S ''restaurant'', S ''blog'',
                S ''event'', S ''booking'', S ''generic'']"

text \<open>
  Lines 167-173: a hint that is a non-empty string is lower-cased and taken when it is
  one of the \<open>allowed\<close> names; any other hint leaves the classified type.
\<close>

definition siteType_merged :: "ImproveHints \<Rightarrow> jstring \<Rightarrow> SiteType" where
  "siteType_merged hints lower =
     (case h_siteType hints of
        None \<Rightarrow> siteType_classified lower
      | Some s \<Rightarrow>
          if s = [] then siteType_classified lower
          else (let t = toLowerCase s in
                if t \<in> set allowed
                then (case siteTypeOfName t of Some x \<Rightarrow> x | None \<Rightarrow> siteType_classified lower)
                else siteType_classified lower))"

text \<open>
  Lines 174-176:
  \<^verbatim>\<open>if (typeof hints?.projectMode === "boolean" && hints.projectMode) { projectMode = true; }\<close>
\<close>

definition projectMode_merged :: "ImproveHints \<Rightarrow> jstring \<Rightarrow> bool" where
  "projectMode_merged hints lower =
     (if h_projectMode hints = Some True then True else projectMode_classified lower)"

section \<open>Tone (lines 178-192)\<close>

definition playfulRe :: regex where
  "playfulRe =
    Alt [Lit (S ''playful''), Lit [0x645, 0x631, 0x62D], Lit [0x645, 0x631, 0x650, 0x62D]]"

definition minimalRe :: regex where
  "minimalRe =
    Alt [Lit (S ''minimal''), Lit [0x628, 0x633, 0x64A, 0x637], Lit [0x645, 0x628, 0x633, 0x651,
      0x637]]"

definition premiumRe :: regex where
  "premiumRe =
    Alt [Lit (S ''luxury''), Lit (S ''premium''), Lit [0x641, 0x627, 0x62E, 0x631], Lit [0x641,
      0x62E, 0x645]]"

definition boldRe :: regex where
  "boldRe =
    Alt [Lit (S ''bold''), Lit [0x62C, 0x631, 0x64A, 0x621]]"

definition friendlyRe :: regex where
  "friendlyRe =
    Alt [Lit (S ''friendly''), Lit [0x648, 0x62F, 0x648, 0x62F], Lit [0x644, 0x637, 0x64A,
      0x641]]"

definition confidentRe :: regex where
  "confidentRe =
    Alt [Lit (S ''confident''), Lit [0x648, 0x627, 0x62B, 0x642]]"

definition conciseRe :: regex where
  "conciseRe =
    Alt [Lit (S ''concise''), Lit [0x645, 0x648, 0x62C, 0x632]]"

text \<open>
  Lines 179-187: every tone pattern that matches pushes its word; none gives the three
  defaults.
\<close>

definition toneWords_classified :: "jstring \<Rightarrow> jstring list" where
  "toneWords_classified lower =
     (let toneWords = pushEach
            [(contains lower (Re playfulRe), S ''playful''),
             (contains lower (Re minimalRe), S ''minimal''),
             (contains lower (Re premiumRe), S ''premium''),
             (contains lower (Re boldRe), S ''bold''),
             (contains lower (Re friendlyRe), S ''friendly''),
             (contains lower (Re confidentRe), S ''confident''),
             (contains lower (Re conciseRe), S ''concise'')] []
      in if length toneWords = 0 then [S ''friendly'', S ''confident'', S ''concise'']
         else toneWords)"

definition toneWords_merged :: "ImproveHints \<Rightarrow> jstring \<Rightarrow> jstring list" where
  "toneWords_merged hints lower = mergeHint (toneWords_classified lower) (h_tone hints)"

section \<open>Features (lines 194-219, 306-309)\<close>

definition featureMap :: "(regex \<times> jstring) list" where
  "featureMap =
    [(Alt [Lit (S ''pricing''), Lit (S ''plans''), Lit (S ''tiers''), Lit [0x633, 0x639,
         0x631], Lit [0x627, 0x644, 0x623, 0x633, 0x639, 0x627, 0x631], Lit [0x627, 0x644, 0x62E,
         0x637, 0x637]],
       S ''Pricing with clear plan comparison''),
     (Alt [Lit (S ''faq''), Lit (S ''questions''), Lit [0x623, 0x633, 0x626, 0x644, 0x629],
         Cat [Lit [0x627, 0x644, 0x623, 0x633, 0x626, 0x644, 0x629], SpaceStar, Lit [0x627, 0x644,
         0x634, 0x627, 0x626, 0x639, 0x629]]],
       S ''FAQ''),
     (Alt [Lit (S ''blog''), Lit (S ''article''), Lit (S ''news''), Lit [0x645, 0x62F, 0x648,
         0x646, 0x629], Lit [0x645, 0x642, 0x627, 0x644], Lit [0x623, 0x62E, 0x628, 0x627,
           0x631]],
       S ''Blog''),
     (Alt [Lit (S ''newsletter''), Lit (S ''subscribe''), Lit (S ''email list''), Lit [0x627,
         0x644, 0x646, 0x634, 0x631, 0x629], Lit [0x627, 0x634, 0x62A, 0x631, 0x643],
         Cat [Lit [0x642, 0x627, 0x626, 0x645, 0x629], SpaceStar, Lit [0x628, 0x631, 0x64A,
         0x62F]]],
       S ''Newsletter signup''),
     (Alt [Lit (S ''testimonials''), Lit (S ''reviews''), Lit (S ''quotes''), Lit [0x622,
         0x631, 0x627, 0x621], Lit [0x62A, 0x642, 0x64A, 0x64A, 0x645, 0x627, 0x62A], Lit [0x634,
         0x647, 0x627, 0x62F, 0x627, 0x62A]],
       S ''Testimonials''),
     (Alt [Lit (S ''contact''), Lit (S ''support''), Lit (S ''help''), Lit [0x627, 0x62A,
         0x635, 0x644], Lit [0x62F, 0x639, 0x645], Lit [0x645, 0x633, 0x627, 0x639, 0x62F,
           0x629]],
       S ''Contact form''),
     (Alt [Lit (S ''demo''), Lit (S ''trial''), Lit (S ''free trial''), Lit [0x62A, 0x62C,
         0x631, 0x628, 0x629], Lit [0x639, 0x631, 0x636]],
       S ''Free trial / demo request''),
     (Alt [Lit (S ''login''), Lit (S ''signup''), Lit (S ''account''), Lit [0x62F, 0x62E,
         0x648, 0x644], Lit [0x62A, 0x633, 0x62C, 0x64A, 0x644], Lit [0x62D, 0x633, 0x627,
           0x628]],
       S ''Authentication (sign up / log in)''),
     (Alt [Lit (S ''checkout''), Lit (S ''cart''), Lit (S ''buy''), Lit (S ''sell''),
         Lit (S ''product''), Lit [0x627, 0x644, 0x62F, 0x641, 0x639], Lit [0x633, 0x644, 0x629],
         Lit [0x634, 0x631, 0x627, 0x621], Lit [0x628, 0x64A, 0x639], Lit [0x645, 0x646, 0x62A,
         0x62C]],
       S ''E-commerce checkout''),
     (Alt [Lit (S ''booking''), Lit (S ''schedule''), Lit (S ''calendar''),
         Lit (S ''appointment''), Lit (S ''reservation''), Lit [0x62D, 0x62C, 0x632], Lit [0x645,
         0x648, 0x639, 0x62F], Lit [0x62C, 0x62F, 0x648, 0x644, 0x629], Lit [0x62A, 0x642, 0x648,
         0x64A, 0x645]],
       S ''Booking / scheduling''),
     (Alt [Lit (S ''search''), Lit [0x628, 0x62D, 0x62B]],
       S ''Site search'')]"

definition features_classified :: "jstring \<Rightarrow> jstring list" where
  "features_classified lower =
     fromSet (map snd (filter (\<lambda>(k, v). contains lower (Re k)) featureMap))"

text \<open>
  Lines 215-219: the hinted features are pushed onto the same array \<open>features\<close>, which
  is what \<open>detectedFeatures\<close> reports and what every later \<open>features.includes\<close> reads.
\<close>

definition features_merged :: "ImproveHints \<Rightarrow> jstring \<Rightarrow> jstring list" where
  "features_merged hints lower = mergeHint (features_classified lower) (h_features hints)"

fun defaultFeaturesByType :: "SiteType \<Rightarrow> jstring list" where
  "defaultFeaturesByType Saas =
     [S ''Hero with value proposition and primary CTA'', S ''Feature highlights'',
       S ''Social proof and testimonials'', S ''Pricing plans'', S ''FAQ'',
       S ''Footer with legal links'']"
| "defaultFeaturesByType Ecommerce =
     [S ''Featured products grid'', S ''Product detail pages'', S ''Cart and checkout'',
       S ''Trust badges and reviews'', S ''Newsletter signup'']"
| "defaultFeaturesByType Portfolio =
     [S ''Selected work/gallery'', S ''About and services'', S ''Testimonials'',
       S ''Contact form'', S ''Simple blog (optional)'']"
| "defaultFeaturesByType Restaurant =
     [S ''Hero with signature dish'', S ''Menu'', S ''Reservations / booking'',
       S ''Location, hours, and map'', S ''Photo gallery'']"
| "defaultFeaturesByType Blog =
     [S ''Latest posts'', S ''Categories and tags'', S ''Author bio'', S ''Newsletter signup'',
       S ''Search'']"
| "defaultFeaturesByType Event =
     [S ''Event overview'', S ''Agenda / schedule'', S ''Speakers'',
       S ''Tickets / registration'', S ''FAQ'']"
| "defaultFeaturesByType Booking =
     [S ''Service overview'', S ''Calendar and availability'', S ''Pricing'',
       S ''Testimonials'', S ''Contact'']"
| "defaultFeaturesByType Generic =
     [S ''Hero with value proposition'', S ''Problem / solution'', S ''Key features'',
       S ''Social proof'', S ''Primary CTA'']"

fun sectionsByType :: "SiteType \<Rightarrow> jstring list" where
  "sectionsByType Saas =
     [S ''Hero'', S ''Problem'', S ''Solution'', S ''Features'', S ''Testimonials'',
       S ''Pricing'', S ''FAQ'', S ''Footer'']"
| "sectionsByType Ecommerce =
     [S ''Hero'', S ''Featured Products'', S ''Collections'', S ''Product Detail'',
       S ''Cart / Checkout'', S ''Footer'']"
| "sectionsByType Portfolio =
     [S ''Hero'', S ''Selected Work'', S ''About'', S ''Services'', S ''Testimonials'',
       S ''Contact'']"
| "sectionsByType Restaurant =
     [S ''Hero'', S ''Menu'', S ''Gallery'', S ''Reservations'', S ''Location & Hours'',
       S ''Contact'']"
| "sectionsByType Blog =
     [S ''Hero'', S ''Latest Posts'', S ''Categories'', S ''Featured Post'', S ''About'',
       S ''Newsletter'']"
| "sectionsByType Event =
     [S ''Hero'', S ''About Event'', S ''Agenda'', S ''Speakers'', S ''Tickets'', S ''FAQ'']"
| "sectionsByType Booking =
     [S ''Hero'', S ''Services'', S ''Availability'', S ''Pricing'', S ''Testimonials'',
       S ''Contact'']"
| "sectionsByType Generic =
     [S ''Hero'', S ''Benefits'', S ''Features'', S ''Social Proof'', S ''CTA'']"

fun typeLabel :: "SiteType \<Rightarrow> jstring" where
  "typeLabel Saas = S ''SaaS marketing site''"
| "typeLabel Ecommerce = (S ''E'' @ [0x2011] @ S ''commerce store'')"
| "typeLabel Portfolio = S ''Portfolio site''"
| "typeLabel Restaurant = S ''Restaurant site''"
| "typeLabel Blog = S ''Blog / content hub''"
| "typeLabel Event = S ''Event landing page''"
| "typeLabel Booking = S ''Booking site''"
| "typeLabel Generic = S ''Landing page''"

text \<open>
  Line 304: \<^verbatim>\<open>idea.length > 0 ? idea.replace(/\s+/g, " ").slice(0, 280) : ""\<close>
\<close>

definition statedGoal_of :: "jstring \<Rightarrow> jstring" where
  "statedGoal_of idea =
     (if length idea > 0 then take 280 (replaceRuns isWhiteSpace 0x20 idea) else [])"

definition selectedFeatures_of :: "ImproveHints \<Rightarrow> jstring \<Rightarrow> jstring list" where
  "selectedFeatures_of hints lower =
     fromSet (defaultFeaturesByType (siteType_merged hints lower) @ features_merged hints lower)"

section \<open>The improved prompt (lines 311-483)\<close>

fun typeLabelAr :: "SiteType \<Rightarrow> jstring" where
  "typeLabelAr Saas = [0x645, 0x648, 0x642, 0x639, 0x20, 0x62A, 0x633, 0x648, 0x64A, 0x642,
    0x64A, 0x20, 0x644, 0x62E, 0x62F, 0x645, 0x629, 0x20, 0x633, 0x62D, 0x627, 0x628, 0x64A,
    0x629]"
| "typeLabelAr Ecommerce = [0x645, 0x62A, 0x62C, 0x631, 0x20, 0x625, 0x644, 0x643, 0x62A, 0x631,
  0x648, 0x646, 0x64A]"
| "typeLabelAr Portfolio = ([0x645, 0x648, 0x642, 0x639, 0x20, 0x623, 0x639, 0x645, 0x627, 0x644]
  @ S ''/'' @ [0x645, 0x639, 0x631, 0x636])"
| "typeLabelAr Restaurant = [0x645, 0x648, 0x642, 0x639, 0x20, 0x645, 0x637, 0x639, 0x645]"
| "typeLabelAr Blog = ([0x645, 0x62F, 0x648, 0x646, 0x629] @ S '' / '' @ [0x645, 0x631, 0x643,
  0x632, 0x20, 0x645, 0x62D, 0x62A, 0x648, 0x649])"
| "typeLabelAr Event = [0x635, 0x641, 0x62D, 0x629, 0x20, 0x647, 0x628, 0x648, 0x637, 0x20,
  0x644, 0x641, 0x639, 0x627, 0x644, 0x64A, 0x629]"
| "typeLabelAr Booking = [0x645, 0x648, 0x642, 0x639, 0x20, 0x62D, 0x62C, 0x648, 0x632, 0x627,
  0x62A]"
| "typeLabelAr Generic = [0x635, 0x641, 0x62D, 0x629, 0x20, 0x647, 0x628, 0x648, 0x637]"

definition secAr :: "(jstring \<times> jstring) list" where
  "secAr =
    [(S ''Hero'', [0x627, 0x644, 0x631, 0x626, 0x64A, 0x633, 0x64A, 0x629]),
     (S ''Problem'', [0x627, 0x644, 0x645, 0x634, 0x643, 0x644, 0x629]),
     (S ''Solution'', [0x627, 0x644, 0x62D, 0x644]),
     (S ''Features'', [0x627, 0x644, 0x645, 0x64A, 0x632, 0x627, 0x62A]),
     (S ''Testimonials'', [0x622, 0x631, 0x627, 0x621, 0x20, 0x627, 0x644, 0x639, 0x645, 0x644,
       0x627, 0x621]),
     (S ''Pricing'', [0x627, 0x644, 0x623, 0x633, 0x639, 0x627, 0x631]),
     (S ''FAQ'', [0x627, 0x644, 0x623, 0x633, 0x626, 0x644, 0x629, 0x20, 0x627, 0x644, 0x634,
       0x627, 0x626, 0x639, 0x629]),
     (S ''Footer'', [0x627, 0x644, 0x62A, 0x630, 0x64A, 0x64A, 0x644]),
     (S ''Featured Products'', [0x645, 0x646, 0x62A, 0x62C, 0x627, 0x62A, 0x20, 0x645, 0x645,
       0x64A, 0x632, 0x629]),
     (S ''Collections'', [0x627, 0x644, 0x62A, 0x635, 0x646, 0x64A, 0x641, 0x627, 0x62A]),
     (S ''Product Detail'', [0x62A, 0x641, 0x627, 0x635, 0x64A, 0x644, 0x20, 0x627, 0x644, 0x645,
       0x646, 0x62A, 0x62C]),
     (S ''Cart / Checkout'', ([0x627, 0x644, 0x633, 0x644, 0x629] @ S '' / '' @ [0x627, 0x644,
       0x62F, 0x641, 0x639])),
     (S ''Selected Work'', [0x623, 0x639, 0x645, 0x627, 0x644, 0x20, 0x645, 0x62E, 0x62A, 0x627,
       0x631, 0x629]),
     (S ''About'', [0x645, 0x646, 0x20, 0x646, 0x62D, 0x646]),
     (S ''Services'', [0x627, 0x644, 0x62E, 0x62F, 0x645, 0x627, 0x62A]),
     (S ''Contact'', [0x627, 0x62A, 0x635, 0x644, 0x20, 0x628, 0x646, 0x627]),
     (S ''Menu'', [0x627, 0x644, 0x642, 0x627, 0x626, 0x645, 0x629]),
     (S ''Gallery'', [0x645, 0x639, 0x631, 0x636, 0x20, 0x627, 0x644, 0x635, 0x648, 0x631]),
     (S ''Reservations'', [0x627, 0x644, 0x62D, 0x62C, 0x648, 0x632, 0x627, 0x62A]),
     (S ''Location & Hours'', [0x627, 0x644, 0x645, 0x648, 0x642, 0x639, 0x20, 0x648, 0x633,
       0x627, 0x639, 0x627, 0x62A, 0x20, 0x627, 0x644, 0x639, 0x645, 0x644]),
     (S ''Latest Posts'', [0x623, 0x62D, 0x62F, 0x62B, 0x20, 0x627, 0x644, 0x645, 0x642, 0x627,
       0x644, 0x627, 0x62A]),
     (S ''Categories'', [0x627, 0x644, 0x62A, 0x635, 0x646, 0x64A, 0x641, 0x627, 0x62A]),
     (S ''Featured Post'', [0x645, 0x642, 0x627, 0x644, 0x20, 0x645, 0x645, 0x64A, 0x632]),
     (S ''Newsletter'', [0x627, 0x644, 0x646, 0x634, 0x631, 0x629, 0x20, 0x627, 0x644, 0x628,
       0x631, 0x64A, 0x62F, 0x64A, 0x629]),
     (S ''About Event'', [0x639, 0x646, 0x20, 0x627, 0x644, 0x641, 0x639, 0x627, 0x644, 0x64A,
       0x629]),
     (S ''Agenda'', [0x627, 0x644, 0x62C, 0x62F, 0x648, 0x644]),
     (S ''Speakers'', [0x627, 0x644, 0x645, 0x62A, 0x62D, 0x62F, 0x62B, 0x648, 0x646]),
     (S ''Tickets'', [0x627, 0x644, 0x62A, 0x630, 0x627, 0x643, 0x631]),
     (S ''Benefits'', [0x627, 0x644, 0x641, 0x648, 0x627, 0x626, 0x62F]),
     (S ''CTA'', [0x62F, 0x639, 0x648, 0x629, 0x20, 0x644, 0x644, 0x625, 0x62C, 0x631, 0x627,
       0x621])]"

definition audienceAr :: "(jstring \<times> jstring) list" where
  "audienceAr =
    [(S ''Designers'', [0x627, 0x644, 0x645, 0x635, 0x645, 0x645, 0x648, 0x646]),
     (S ''Developers'', [0x627, 0x644, 0x645, 0x637, 0x648, 0x631, 0x648, 0x646]),
     (S ''Students'', [0x627, 0x644, 0x637, 0x644, 0x627, 0x628]),
     (S ''Photographers'', [0x627, 0x644, 0x645, 0x635, 0x648, 0x631, 0x648, 0x646]),
     (S ''Local diners and food lovers'', [0x639, 0x634, 0x627, 0x642, 0x20, 0x627, 0x644, 0x637,
       0x639, 0x627, 0x645, 0x20, 0x648, 0x631, 0x648, 0x627, 0x62F, 0x20, 0x627, 0x644, 0x645,
       0x637, 0x627, 0x639, 0x645]),
     (S ''Donors and volunteers'', [0x627, 0x644, 0x645, 0x62A, 0x628, 0x631, 0x639, 0x648,
       0x646, 0x20, 0x648, 0x627, 0x644, 0x645, 0x62A, 0x637, 0x648, 0x639, 0x648, 0x646]),
     (S ''Early adopters and investors'', [0x627, 0x644, 0x645, 0x62A, 0x628, 0x646, 0x648,
       0x646, 0x20, 0x627, 0x644, 0x623, 0x648, 0x627, 0x626, 0x644, 0x20, 0x648, 0x627, 0x644,
       0x645, 0x633, 0x62A, 0x62B, 0x645, 0x631, 0x648, 0x646]),
     (S ''Online shoppers'', [0x627, 0x644, 0x645, 0x62A, 0x633, 0x648, 0x642, 0x648, 0x646,
       0x20, 0x639, 0x628, 0x631, 0x20, 0x627, 0x644, 0x625, 0x646, 0x62A, 0x631, 0x646, 0x62A]),
     (S ''Parents'', [0x623, 0x648, 0x644, 0x64A, 0x627, 0x621, 0x20, 0x627, 0x644, 0x623, 0x645,
       0x648, 0x631]),
     (S ''Teachers'', [0x627, 0x644, 0x645, 0x639, 0x644, 0x645, 0x648, 0x646]),
     (S ''Fitness enthusiasts'', [0x645, 0x647, 0x62A, 0x645, 0x648, 0x20, 0x627, 0x644, 0x644,
       0x64A, 0x627, 0x642, 0x629]),
     (S ''Home buyers and sellers'', [0x627, 0x644, 0x628, 0x627, 0x626, 0x639, 0x648, 0x646,
       0x20, 0x648, 0x627, 0x644, 0x645, 0x634, 0x62A, 0x631, 0x648, 0x646, 0x20, 0x644, 0x644,
       0x639, 0x642, 0x627, 0x631, 0x627, 0x62A]),
     (S ''Business decision-makers'', [0x635, 0x646, 0x651, 0x627, 0x639, 0x20, 0x627, 0x644,
       0x642, 0x631, 0x627, 0x631, 0x20, 0x641, 0x64A, 0x20, 0x627, 0x644, 0x623, 0x639, 0x645,
       0x627, 0x644]),
     (S ''Small business owners'', [0x623, 0x635, 0x62D, 0x627, 0x628, 0x20, 0x627, 0x644, 0x645,
       0x634, 0x627, 0x631, 0x64A, 0x639, 0x20, 0x627, 0x644, 0x635, 0x63A, 0x64A, 0x631, 0x629]),
     (S ''Prospective customers and early adopters'', [0x627, 0x644, 0x639, 0x645, 0x644, 0x627,
       0x621, 0x20, 0x627, 0x644, 0x645, 0x62D, 0x62A, 0x645, 0x644, 0x648, 0x646, 0x20, 0x648,
       0x627, 0x644, 0x645, 0x628, 0x643, 0x631, 0x648, 0x646])]"

definition toneAr :: "(jstring \<times> jstring) list" where
  "toneAr =
    [(S ''playful'', [0x645, 0x631, 0x62D]),
     (S ''minimal'', [0x628, 0x633, 0x64A, 0x637]),
     (S ''premium'', [0x641, 0x627, 0x62E, 0x631]),
     (S ''bold'', [0x62C, 0x631, 0x64A, 0x621]),
     (S ''friendly'', [0x648, 0x62F, 0x648, 0x62F]),
     (S ''confident'', [0x648, 0x627, 0x62B, 0x642]),
     (S ''concise'', [0x645, 0x648, 0x62C, 0x632])]"

definition headingsAr :: "(jstring \<times> jstring) list" where
  "headingsAr =
    [(S ''Project overview'', [0x646, 0x638, 0x631, 0x629, 0x20, 0x639, 0x627, 0x645, 0x629,
      0x20, 0x639, 0x644, 0x649, 0x20, 0x627, 0x644, 0x645, 0x634, 0x631, 0x648, 0x639]),
     (S ''Target audience'', [0x627, 0x644, 0x62C, 0x645, 0x647, 0x648, 0x631, 0x20, 0x627,
       0x644, 0x645, 0x633, 0x62A, 0x647, 0x62F, 0x641]),
     (S ''Primary goals'', [0x627, 0x644, 0x623, 0x647, 0x62F, 0x627, 0x641, 0x20, 0x627, 0x644,
       0x631, 0x626, 0x64A, 0x633, 0x64A, 0x629]),
     (S ''Tone & voice'', [0x627, 0x644, 0x646, 0x628, 0x631, 0x629, 0x20, 0x648, 0x627, 0x644,
       0x623, 0x633, 0x644, 0x648, 0x628]),
     (S ''Suggested site structure'', [0x647, 0x64A, 0x643, 0x644, 0x20, 0x627, 0x644, 0x645,
       0x648, 0x642, 0x639, 0x20, 0x627, 0x644, 0x645, 0x642, 0x62A, 0x631, 0x62D]),
     (S ''Key features'', [0x627, 0x644, 0x645, 0x64A, 0x632, 0x627, 0x62A, 0x20, 0x627, 0x644,
       0x623, 0x633, 0x627, 0x633, 0x64A, 0x629]),
     (S ''Content & CTAs'', [0x627, 0x644, 0x645, 0x62D, 0x62A, 0x648, 0x649, 0x20, 0x648, 0x627,
       0x644, 0x62F, 0x639, 0x648, 0x627, 0x62A, 0x20, 0x644, 0x644, 0x625, 0x62C, 0x631, 0x627,
       0x621]),
     (S ''Visual style'', [0x627, 0x644, 0x623, 0x633, 0x644, 0x648, 0x628, 0x20, 0x627, 0x644,
       0x628, 0x635, 0x631, 0x64A]),
     (S ''Notes from the original idea'', [0x645, 0x644, 0x627, 0x62D, 0x638, 0x627, 0x62A, 0x20,
       0x645, 0x646, 0x20, 0x627, 0x644, 0x641, 0x643, 0x631, 0x629, 0x20, 0x627, 0x644, 0x623,
       0x635, 0x644, 0x64A, 0x629]),
     (S ''Project blueprint'', [0x645, 0x62E, 0x637, 0x637, 0x20, 0x627, 0x644, 0x645, 0x634,
       0x631, 0x648, 0x639]),
     (S ''Scope'', [0x627, 0x644, 0x646, 0x637, 0x627, 0x642]),
     (S ''Pages & sitemap'', [0x627, 0x644, 0x635, 0x641, 0x62D, 0x627, 0x62A, 0x20, 0x648,
       0x62E, 0x631, 0x64A, 0x637, 0x629, 0x20, 0x627, 0x644, 0x645, 0x648, 0x642, 0x639]),
     (S ''User stories'', [0x642, 0x635, 0x635, 0x20, 0x627, 0x644, 0x645, 0x633, 0x62A, 0x62E,
       0x62F, 0x645]),
     (S ''Non-functional requirements'', [0x645, 0x62A, 0x637, 0x644, 0x628, 0x627, 0x62A, 0x20,
       0x63A, 0x64A, 0x631, 0x20, 0x648, 0x638, 0x64A, 0x641, 0x64A, 0x629]),
     (S ''KPIs'', [0x627, 0x644, 0x645, 0x624, 0x634, 0x631, 0x627, 0x62A, 0x20, 0x627, 0x644,
       0x631, 0x626, 0x64A, 0x633, 0x64A, 0x629]),
     (S ''Tech stack suggestions'', [0x627, 0x642, 0x62A, 0x631, 0x627, 0x62D, 0x20, 0x627,
       0x644, 0x62A, 0x643, 0x62F, 0x64A, 0x633, 0x20, 0x627, 0x644, 0x62A, 0x642, 0x646, 0x64A]),
     (S ''Content checklist'', [0x642, 0x627, 0x626, 0x645, 0x629, 0x20, 0x627, 0x644, 0x645,
       0x62D, 0x62A, 0x648, 0x649]),
     (S ''Milestones'', [0x627, 0x644, 0x645, 0x639, 0x627, 0x644, 0x645]),
     (S ''Questions to clarify'', [0x623, 0x633, 0x626, 0x644, 0x629, 0x20, 0x62A, 0x648, 0x636,
       0x64A, 0x62D, 0x64A, 0x629])]"

text \<open>
  \<open>table[k] || k\<close> on one of the translation tables above. The tables are object
  literals, so a key is looked up among the table's own keys first and, when it is not
  one of them, in \<open>Object.prototype\<close>. An own entry is taken unless it is the empty
  string. Every member of \<open>Object.prototype\<close> is truthy (a built-in function, or, for
  the accessor \<open>__proto__\<close>, the prototype object itself), so it is what \<open>||\<close> yields for
  a key that names one. The engine puts the result into a template literal or joins it,
  which converts it to a string: \<open>Function.prototype.toString\<close> for a built-in function,
  as the Node runtime of the route prints it, and \<open>[object Object]\<close> for the prototype
  object. \<open>objectPrototype\<close> gives that string for each member.
\<close>

definition nativeFunction :: "jstring \<Rightarrow> jstring" where
  "nativeFunction f = S ''function '' @ f @ S ''() { [native code] }''"

definition objectPrototype :: "(jstring \<times> jstring) list" where
  "objectPrototype =
     [(S ''constructor'', nativeFunction (S ''Object'')),
      (S ''__defineGetter__'', nativeFunction (S ''__defineGetter__'')),
      (S ''__defineSetter__'', nativeFunction (S ''__defineSetter__'')),
      (S ''hasOwnProperty'', nativeFunction (S ''hasOwnProperty'')),
      (S ''__lookupGetter__'', nativeFunction (S ''__lookupGetter__'')),
      (S ''__lookupSetter__'', nativeFunction (S ''__lookupSetter__'')),
      (S ''isPrototypeOf'', nativeFunction (S ''isPrototypeOf'')),
      (S ''propertyIsEnumerable'', nativeFunction (S ''propertyIsEnumerable'')),
      (S ''toString'', nativeFunction (S ''toString'')),
      (S ''valueOf'', nativeFunction (S ''valueOf'')),
      (S ''__proto__'', S ''[object Object]''),
      (S ''toLocaleString'', nativeFunction (S ''toLocaleString''))]"

definition orKey :: "(jstring \<times> jstring) list \<Rightarrow> jstring \<Rightarrow> jstring" where
  "orKey table k =
     (case map_of table k of
        Some v \<Rightarrow> if v = [] then k else v
      | None \<Rightarrow> (case map_of objectPrototype k of Some m \<Rightarrow> m | None \<Rightarrow> k))"

definition H :: "Lang \<Rightarrow> jstring \<Rightarrow> jstring" where
  "H l k = (if l = Ar then orKey headingsAr k else k)"

definition mapSection :: "Lang \<Rightarrow> jstring \<Rightarrow> jstring" where
  "mapSection l s = (if l = Ar then orKey secAr s else s)"

definition mapAudienceOut :: "Lang \<Rightarrow> jstring list \<Rightarrow> jstring list" where
  "mapAudienceOut l arr = (if l = Ar then map (orKey audienceAr) arr else arr)"

definition mapToneOut :: "Lang \<Rightarrow> jstring list \<Rightarrow> jstring list" where
  "mapToneOut l arr = (if l = Ar then map (orKey toneAr) arr else arr)"

definition nl :: jstring where
  "nl = [0xA]"

definition primaryGoalsBullets :: "Lang \<Rightarrow> jstring" where
  "primaryGoalsBullets l =
     (if l = Ar
      then join nl
        [(S ''- '' @ [0x634, 0x631, 0x62D, 0x20, 0x627, 0x644, 0x645, 0x646, 0x62A, 0x62C]
          @ S ''/'' @ [0x627, 0x644, 0x62E, 0x62F, 0x645, 0x629, 0x20, 0x628, 0x644, 0x63A,
          0x629, 0x20, 0x628, 0x633, 0x64A, 0x637, 0x629]),
         (S ''- '' @ [0x628, 0x646, 0x627, 0x621, 0x20, 0x627, 0x644, 0x62B, 0x642, 0x629, 0x20,
           0x639, 0x628, 0x631, 0x20, 0x627, 0x644, 0x623, 0x62F, 0x644, 0x629]),
         (S ''- '' @ [0x62A, 0x648, 0x62C, 0x64A, 0x647, 0x20, 0x627, 0x644, 0x632, 0x627, 0x626,
           0x631, 0x20, 0x625, 0x644, 0x649, 0x20, 0x62F, 0x639, 0x648, 0x629, 0x20, 0x625,
           0x62C, 0x631, 0x627, 0x621, 0x20, 0x645, 0x631, 0x643, 0x651, 0x632, 0x629] @ S '' (''
           @ [0x645, 0x62B, 0x644, 0x20, 0x627, 0x644, 0x62A, 0x633, 0x62C, 0x64A, 0x644, 0x60C,
           0x20, 0x627, 0x644, 0x62D, 0x62C, 0x632, 0x60C, 0x20, 0x627, 0x644, 0x634, 0x631,
           0x627, 0x621] @ S '')'')]
      else join nl
        [S ''- Explain the product/service in plain language'',
         S ''- Establish trust with proof'',
         S ''- Guide visitors to a focused CTA (e.g., sign up, book, buy)''])"

definition contentCtasBullets :: "Lang \<Rightarrow> jstring" where
  "contentCtasBullets l =
     (if l = Ar
      then join nl
        [(S ''- '' @ [0x639, 0x646, 0x648, 0x627, 0x646, 0x20, 0x648, 0x627, 0x636, 0x62D, 0x20,
          0x64A, 0x634, 0x631, 0x62D, 0x20, 0x627, 0x644, 0x642, 0x64A, 0x645, 0x629]),
         (S ''- '' @ [0x639, 0x646, 0x648, 0x627, 0x646, 0x20, 0x641, 0x631, 0x639, 0x64A, 0x20,
           0x64A, 0x648, 0x636, 0x62D, 0x20, 0x645, 0x627, 0x630, 0x627, 0x20, 0x648, 0x645,
           0x646, 0x20, 0x648, 0x644, 0x623, 0x64A, 0x20, 0x646, 0x62A, 0x64A, 0x62C, 0x629]),
         (S ''- '' @ [0x62F, 0x639, 0x648, 0x629, 0x20, 0x625, 0x62C, 0x631, 0x627, 0x621, 0x20,
           0x623, 0x633, 0x627, 0x633, 0x64A, 0x629, 0x20, 0x623, 0x639, 0x644, 0x649, 0x20,
           0x627, 0x644, 0x635, 0x641, 0x62D, 0x629] @ S '' ('' @ [0x648, 0x62B, 0x627, 0x628,
           0x62A, 0x629, 0x20, 0x639, 0x644, 0x649, 0x20, 0x627, 0x644, 0x62C, 0x648, 0x627,
           0x644] @ S '')''),
         (S ''- '' @ [0x62F, 0x639, 0x648, 0x629, 0x20, 0x625, 0x62C, 0x631, 0x627, 0x621, 0x20,
           0x62B, 0x627, 0x646, 0x648, 0x64A, 0x629, 0x20, 0x644, 0x644, 0x62A, 0x642, 0x64A,
           0x64A, 0x645] @ S '' ('' @ [0x645, 0x62B, 0x644] @ S '': '' @ [0x627, 0x639, 0x631,
           0x641, 0x20, 0x627, 0x644, 0x645, 0x632, 0x64A, 0x62F] @ S '')''),
         (S ''- '' @ [0x645, 0x624, 0x634, 0x631, 0x627, 0x62A, 0x20, 0x627, 0x644, 0x62B, 0x642,
           0x629] @ S '': '' @ [0x634, 0x639, 0x627, 0x631, 0x627, 0x62A, 0x60C, 0x20, 0x622,
           0x631, 0x627, 0x621, 0x60C, 0x20, 0x62A, 0x642, 0x64A, 0x64A, 0x645, 0x627, 0x62A])]
      else join nl
        [S ''- Clear headline that states the value'',
         S ''- Subheadline that clarifies what, who, and outcome'',
         S ''- Primary CTA above the fold (sticky on mobile)'',
         S ''- Secondary CTA for evaluation (e.g., Learn more)'',
         S ''- Trust signals: logos, testimonials, ratings''])"

definition visualStyleBullets :: "Lang \<Rightarrow> jstring" where
  "visualStyleBullets l =
     (if l = Ar
      then join nl
        [(S ''- '' @ [0x62A, 0x635, 0x645, 0x64A, 0x645, 0x20, 0x646, 0x638, 0x64A, 0x641, 0x20,
          0x648, 0x62D, 0x62F, 0x64A, 0x62B, 0x20, 0x648, 0x642, 0x627, 0x628, 0x644, 0x20,
          0x644, 0x644, 0x648, 0x635, 0x648, 0x644]),
         (S ''- '' @ [0x62A, 0x628, 0x627, 0x64A, 0x646, 0x20, 0x639, 0x627, 0x644, 0x64D, 0x20,
           0x648, 0x645, 0x633, 0x627, 0x641, 0x627, 0x62A, 0x20, 0x645, 0x631, 0x64A, 0x62D,
           0x629, 0x20, 0x648, 0x62A, 0x635, 0x645, 0x64A, 0x645, 0x20, 0x645, 0x62A, 0x62C,
           0x627, 0x648, 0x628]),
         (S ''- '' @ [0x627, 0x633, 0x62A, 0x62E, 0x62F, 0x627, 0x645, 0x20, 0x644, 0x648, 0x646,
           0x20, 0x625, 0x628, 0x631, 0x627, 0x632, 0x20, 0x648, 0x627, 0x62D, 0x62F, 0x20,
           0x648, 0x62A, 0x646, 0x627, 0x633, 0x642, 0x20, 0x627, 0x644, 0x639, 0x646, 0x627,
           0x635, 0x631])]
      else join nl
        [S ''- Clean, modern, accessible'',
         S ''- High contrast, generous spacing, responsive layout'',
         S ''- Use one accent color, consistent component styles''])"

text \<open>\<open>.filter(Boolean)\<close> on an array of strings and \<open>undefined\<close>: both \<open>undefined\<close> and
  the empty string are dropped.\<close>

fun filterBoolean :: "jstring option list \<Rightarrow> jstring list" where
  "filterBoolean [] = []"
| "filterBoolean (None # xs) = filterBoolean xs"
| "filterBoolean (Some s # xs) = (if s = [] then filterBoolean xs else s # filterBoolean xs)"

definition overviewLine :: "Lang \<Rightarrow> jstring \<Rightarrow> jstring list \<Rightarrow> jstring" where
  "overviewLine l typeLabelOut audienceOut =
     (if l = Ar
      then [0x628, 0x646, 0x627, 0x621] @ S '' '' @ typeLabelOut @ S '' '' @ [0x645, 0x648,
        0x62C, 0x647, 0x20, 0x644, 0x640] @ S '' '' @ join (S '', '') audienceOut @ S ''. ''
        @ [0x627, 0x644, 0x647, 0x62F, 0x641, 0x20, 0x647, 0x648, 0x20, 0x62A, 0x648, 0x635,
        0x64A, 0x644, 0x20, 0x627, 0x644, 0x642, 0x64A, 0x645, 0x629, 0x20, 0x628, 0x648, 0x636,
        0x648, 0x62D, 0x20, 0x648, 0x632, 0x64A, 0x627, 0x62F, 0x629, 0x20, 0x627, 0x644, 0x62A,
        0x62D, 0x648, 0x64A, 0x644, 0x627, 0x62A] @ S ''.''
      else S ''Build a '' @ typeLabelOut @ S '' for '' @ join (S '', '') audienceOut
        @ S ''. The purpose is to clearly communicate value and drive conversions.'')"

text \<open>
  Lines 456-483: the array of headings and bodies, its empty strings and undefined
  entries filtered out, joined by line feeds.
\<close>

definition improvedParts :: "ImproveHints \<Rightarrow> jstring \<Rightarrow> jstring \<Rightarrow> jstring option list" where
  "improvedParts hints idea lower =
     (let l = lang hints;
          siteType = siteType_merged hints lower;
          audienceOut = mapAudienceOut l (audience_merged hints lower);
          toneOut = mapToneOut l (toneWords_merged hints lower);
          typeLabelOut = (if l = Ar then typeLabelAr siteType else typeLabel siteType);
          sectionsOut = join nl (map (\<lambda>s. S ''- ''
            @ mapSection l s) (sectionsByType siteType));
          statedGoal = statedGoal_of idea
      in [Some (H l (S ''Project overview'')),
          Some (overviewLine l typeLabelOut audienceOut),
          Some [],
          Some (H l (S ''Target audience'')),
          Some (S ''- '' @ join (nl @ S ''- '') audienceOut),
          Some [],
          Some (H l (S ''Primary goals'')),
          Some (primaryGoalsBullets l),
          Some [],
          Some (H l (S ''Tone & voice'')),
          Some (S ''- '' @ join (S '', '') toneOut),
          Some [],
          Some (H l (S ''Suggested site structure'')),
          Some sectionsOut,
          Some [],
          Some (H l (S ''Key features'')),
          Some (join nl (map (\<lambda>f. S ''- '' @ f) (selectedFeatures_of hints lower))),
          Some [],
          Some (H l (S ''Content & CTAs'')),
          Some (contentCtasBullets l),
          Some [],
          Some (H l (S ''Visual style'')),
          Some (visualStyleBullets l),
          Some [],
          (if statedGoal \<noteq> [] then Some (H l (S ''Notes from the original idea'')) else None),
          (if statedGoal \<noteq> [] then Some (S ''- '' @ statedGoal) else None)])"

definition improved_of :: "ImproveHints \<Rightarrow> jstring \<Rightarrow> jstring \<Rightarrow> jstring" where
  "improved_of hints idea lower = join nl (filterBoolean (improvedParts hints idea lower))"

section \<open>Industries, languages, regions, currency, payments, compliance (lines 485-567)\<close>

definition industryMap :: "(regex \<times> jstring) list" where
  "industryMap =
    [(Alt [Lit (S ''health''), Lit (S ''clinic''), Lit (S ''hospital''), Lit (S ''medic''),
         Lit (S ''pharma'')],
       S ''Healthcare''),
     (Alt [Lit (S ''fintech''), Lit (S ''bank''), Lit (S ''payment''), Lit (S ''wallet''),
         Lit (S ''loan''), Lit (S ''finance''), Cat [Lit (S ''insur''), Opt (Lit (S ''tech''))]],
       S ''Fintech''),
     (Alt [Lit (S ''education''), Lit (S ''school''), Lit (S ''university''),
         Lit (S ''course''), Lit (S ''learning''), Lit (S ''edtech''), Lit (S ''teacher''),
         Lit (S ''student'')],
       S ''Education''),
     (Alt [Cat [Lit (S ''real''), Opt (Space), Lit (S ''estate'')], Cat [Lit (S ''realt''),
         Alt [Lit (S ''y''), Lit (S ''or'')]], Lit (S ''property'')],
       S ''Real Estate''),
     (Alt [Lit (S ''travel''), Lit (S ''tour''), Lit (S ''flight''), Lit (S ''hotel''),
         Lit (S ''booking''), Lit (S ''trip''), Lit (S ''tourism'')],
       S ''Travel''),
     (Alt [Lit (S ''ngo''), Lit (S ''nonprofit''), Lit (S ''charity''), Lit (S ''donor''),
         Lit (S ''volunteer'')],
       S ''Nonprofit''),
     (Alt [Lit (S ''food''), Lit (S ''restaurant''), Lit (S ''cafe''), Lit (S ''menu''),
         Lit (S ''delivery''), Lit (S ''kitchen'')],
       S ''Food & Beverage''),
     (Alt [Lit (S ''photograph''), Lit (S ''photo''), Lit (S ''gallery''), Lit (S ''camera'')],
       S ''Photography''),
     (Alt [Lit (S ''ecommerce''), Lit (S ''shop''), Lit (S ''store''), Lit (S ''product''),
         Lit (S ''cart''), Lit (S ''checkout'')],
       (S ''E'' @ [0x2011] @ S ''commerce'')),
     (Alt [Lit (S ''saas''), Lit (S ''software''), Lit (S ''b2b''), Lit (S ''b2c'')],
       S ''Software''),
     (Alt [Lit (S ''event''), Lit (S ''conference''), Lit (S ''webinar''), Lit (S ''summit'')],
       S ''Events'')]"

definition industries_classified :: "jstring \<Rightarrow> jstring list" where
  "industries_classified lower =
     (let industries = fromSet (map snd (filter (\<lambda>(k, v). contains lower (Re k)) industryMap))
      in pushIf (length industries = 0) (S ''General'') industries)"

definition industries_merged :: "ImproveHints \<Rightarrow> jstring \<Rightarrow> jstring list" where
  "industries_merged hints lower = mergeHint (industries_classified lower) (h_industries hints)"

definition arabicRe :: regex where
  "arabicRe =
    Alt [Lit (S ''arabic''), Lit [0x639, 0x631, 0x628], Lit [0x639, 0x631, 0x628, 0x64A],
      Lit (S ''rtl''), Cat [Boundary, Lit (S ''ar''), Boundary]]"

definition usesArabic :: "jstring \<Rightarrow> bool" where
  "usesArabic lower = contains lower (Re arabicRe)"

definition languages_classified :: "jstring \<Rightarrow> jstring list" where
  "languages_classified lower =
     fromSet (if usesArabic lower then [S ''Arabic'', S ''English'']
              else [S ''English''])"

definition languages_merged :: "ImproveHints \<Rightarrow> jstring \<Rightarrow> jstring list" where
  "languages_merged hints lower = mergeHint (languages_classified lower) (h_languages hints)"

definition regionMap :: "(regex \<times> jstring) list" where
  "regionMap =
    [(Alt [Lit (S ''egypt''), Lit (S ''egy''), Cat [Lit (S ''eg''), Boundary],
         Lit (S ''cairo''), Lit (S ''giza''), Lit (S ''alex'')],
       S ''Egypt''),
     (Alt [Lit (S ''ksa''), Lit (S ''saudi''), Lit (S ''riyadh''), Cat [Lit (S ''jed''),
         Opt (Lit (S ''d'')), Lit (S ''ah'')], Cat [Lit (S ''sa''), Boundary]],
       S ''Saudi Arabia''),
     (Alt [Lit (S ''uae''), Lit (S ''dubai''), Cat [Lit (S ''abu''), Opt Space,
         Lit (S ''dhabi'')], Cat [Lit (S ''ae''), Boundary], Lit (S ''emirates'')],
       S ''UAE''),
     (Alt [Lit (S ''morocco''), Cat [Lit (S ''ma''), Boundary], Lit (S ''casablanca''),
         Lit (S ''rabat'')],
       S ''Morocco''),
     (Alt [Lit (S ''tunisia''), Cat [Lit (S ''tn''), Boundary], Lit (S ''tunis'')],
       S ''Tunisia''),
     (Alt [Lit (S ''algeria''), Cat [Lit (S ''dz''), Boundary], Lit (S ''algiers'')],
       S ''Algeria''),
     (Alt [Lit (S ''jordan''), Cat [Lit (S ''jo''), Boundary], Lit (S ''amman'')],
       S ''Jordan''),
     (Alt [Lit (S ''iraq''), Cat [Lit (S ''iq''), Boundary], Lit (S ''baghdad'')],
       S ''Iraq''),
     (Alt [Lit (S ''usa''), Lit (S ''united states''), Cat [Lit (S ''us''), Boundary],
         Lit (S ''america'')],
       S ''USA''),
     (Alt [Lit (S ''uk''), Lit (S ''united kingdom''), Lit (S ''london''), Cat [Lit (S ''gb''),
         Boundary], Lit (S ''great britain'')],
       S ''UK''),
     (Alt [Lit (S ''europe''), Cat [Lit (S ''eu''), Boundary]],
       S ''Europe''),
     (Alt [Lit (S ''global''), Lit (S ''worldwide''), Lit (S ''international'')],
       S ''Global'')]"

definition regions_classified :: "jstring \<Rightarrow> jstring list" where
  "regions_classified lower =
     (let regions = fromSet (map snd (filter (\<lambda>(k, v). contains lower (Re k)) regionMap))
      in pushIf (length regions = 0) (S ''Global'') regions)"

definition regions_merged :: "ImproveHints \<Rightarrow> jstring \<Rightarrow> jstring list" where
  "regions_merged hints lower = mergeHint (regions_classified lower) (h_regions hints)"

definition currencyHints :: "(regex \<times> jstring) list" where
  "currencyHints =
    [(Alt [Lit (S ''egp''), Lit [0x62C, 0x646, 0x64A, 0x647], Lit (S ''egypt''),
         Lit (S ''egy'')],
       S ''EGP''),
     (Alt [Lit (S ''sar''), Lit [0x631, 0x64A, 0x627, 0x644], Lit (S ''ksa''),
         Lit (S ''saudi'')],
       S ''SAR''),
     (Alt [Lit (S ''aed''), Lit [0x62F, 0x631, 0x647, 0x645], Lit (S ''uae''),
         Lit (S ''dubai'')],
       S ''AED''),
     (Alt [Lit (S ''usd''), Lit (S ''dollar''), Lit (S ''usa''), Cat [Lit (S ''us''),
         Boundary]],
       S ''USD''),
     (Alt [Lit (S ''eur''), Lit (S ''euro'')],
       S ''EUR''),
     (Alt [Lit (S ''gbp''), Lit (S ''pound''), Lit (S ''uk''), Lit (S ''sterling'')],
       S ''GBP'')]"

text \<open>Lines 545-550: the loop over \<open>currencyHints\<close> stops at the first pattern that matches.\<close>

fun currencyLoop :: "jstring \<Rightarrow> (regex \<times> jstring) list \<Rightarrow> jstring \<Rightarrow> jstring" where
  "currencyLoop lower [] currency = currency"
| "currencyLoop lower ((k, v) # rest) currency =
     (if contains lower (Re k) then v else currencyLoop lower rest currency)"

definition currency_classified :: "jstring \<Rightarrow> jstring" where
  "currency_classified lower = currencyLoop lower currencyHints (S ''USD'')"

text \<open>Lines 551-553: \<^verbatim>\<open>if (hints?.currency) { currency = String(hints.currency); }\<close>\<close>

definition currency_merged :: "ImproveHints \<Rightarrow> jstring \<Rightarrow> jstring" where
  "currency_merged hints lower =
     (case h_currency hints of
        None \<Rightarrow> currency_classified lower
      | Some c \<Rightarrow> if c = [] then currency_classified lower else c)"

definition paymentRe :: regex where
  "paymentRe =
    Alt [Lit (S ''payment''), Cat [Lit (S ''pay''), Boundary], Lit (S ''checkout''),
      Lit (S ''stripe''), Lit (S ''paypal''), Lit (S ''paymob''), Lit (S ''fawry''),
      Lit (S ''mada''), Lit (S ''tabby''), Lit (S ''tamara'')]"

text \<open>
  Lines 555-556:
  \<^verbatim>\<open>const requiresPayments =
    features.includes("E-commerce checkout") || contains(/payment|pay\b|checkout|.../);
  const requiresPaymentsFinal = Boolean(hints?.requiresPayments ?? requiresPayments);\<close>
\<close>

definition requiresPayments_of :: "ImproveHints \<Rightarrow> jstring \<Rightarrow> bool" where
  "requiresPayments_of hints lower \<longleftrightarrow>
     S ''E-commerce checkout'' \<in> set (features_merged hints lower) \<or> contains lower (Re paymentRe)"

definition requiresPaymentsFinal :: "ImproveHints \<Rightarrow> jstring \<Rightarrow> bool" where
  "requiresPaymentsFinal hints lower =
     (case h_requiresPayments hints of
        None \<Rightarrow> requiresPayments_of hints lower
      | Some b \<Rightarrow> b)"

definition gdprRe :: regex where
  "gdprRe = Lit (S ''gdpr'')"

definition hipaaRe :: regex where
  "hipaaRe = Lit (S ''hipaa'')"

definition pciRe :: regex where
  "pciRe = Lit (S ''pci'')"

definition soc2Re :: regex where
  "soc2Re = Alt [Cat [Lit (S ''soc''), SpaceStar, Lit (S ''2'')], Lit (S ''soc2'')]"

definition compliance_classified :: "jstring \<Rightarrow> jstring list" where
  "compliance_classified lower =
     pushEach
       [(contains lower (Re gdprRe), S ''GDPR''),
        (contains lower (Re hipaaRe), S ''HIPAA''),
        (contains lower (Re pciRe), S ''PCI DSS''),
        (contains lower (Re soc2Re), S ''SOC 2'')] []"

definition compliance_merged :: "ImproveHints \<Rightarrow> jstring \<Rightarrow> jstring list" where
  "compliance_merged hints lower = mergeHint (compliance_classified lower) (h_compliance hints)"

section \<open>Pages and sitemap (lines 569-590)\<close>

fun pagesByType :: "SiteType \<Rightarrow> jstring list" where
  "pagesByType Saas =
     [S ''Home'', S ''Features'', S ''Pricing'', S ''Docs'', S ''Changelog'', S ''Blog'',
       S ''About'', S ''Contact'', S ''Login'', S ''Sign up'', S ''Dashboard'']"
| "pagesByType Ecommerce =
     [S ''Home'', S ''Shop'', S ''Collections'', S ''Product'', S ''Cart'', S ''Checkout'',
       S ''Account'', S ''Orders'', S ''Wishlist'', S ''Support'', S ''Blog'']"
| "pagesByType Portfolio =
     [S ''Home'', S ''Work'', S ''About'', S ''Services'', S ''Testimonials'', S ''Contact'',
       S ''Blog'']"
| "pagesByType Restaurant =
     [S ''Home'', S ''Menu'', S ''Reservations'', S ''Gallery'', S ''Location & Hours'',
       S ''About'', S ''Contact'']"
| "pagesByType Blog =
     [S ''Home'', S ''Blog'', S ''Post'', S ''Categories'', S ''About'', S ''Contact'',
       S ''Newsletter'']"
| "pagesByType Event =
     [S ''Home'', S ''About Event'', S ''Agenda'', S ''Speakers'', S ''Tickets'', S ''FAQ'',
       S ''Venue'', S ''Contact'']"
| "pagesByType Booking =
     [S ''Home'', S ''Services'', S ''Availability'', S ''Pricing'', S ''Book'', S ''Account'',
       S ''Contact'', S ''FAQ'']"
| "pagesByType Generic =
     [S ''Home'', S ''About'', S ''Features'', S ''Pricing'', S ''Contact'', S ''Blog'']"

text \<open>Lines 579-580: the default pages of the site type, and Blog when that feature is there.\<close>

definition pages_classified :: "ImproveHints \<Rightarrow> jstring \<Rightarrow> jstring list" where
  "pages_classified hints lower =
     (let pages = fromSet (pagesByType (siteType_merged hints lower))
      in pushIf (S ''Blog'' \<in> set (features_merged hints lower) \<and> S ''Blog'' \<notin> set pages)
           (S ''Blog'') pages)"

text \<open>Lines 581-588: the hinted pages, and after them the two payment pages.\<close>

definition pages_merged :: "ImproveHints \<Rightarrow> jstring \<Rightarrow> jstring list" where
  "pages_merged hints lower =
     (let pages = mergeHint (pages_classified hints lower) (h_pages hints)
      in if requiresPaymentsFinal hints lower
         then pushNew (S ''Checkout'') (pushNew (S ''Billing'') pages)
         else pages)"

text \<open>
  Line 589:
  \<^verbatim>\<open>const slugify = (s) =>
    "/" + s.toLowerCase().replace(/[^a-z0-9]+/g, "-").replace(/^-+|-+$/g, "");\<close>
\<close>

definition isAlnum :: "nat \<Rightarrow> bool" where
  "isAlnum c \<longleftrightarrow> (0x61 \<le> c \<and> c \<le> 0x7A) \<or> (0x30 \<le> c \<and> c \<le> 0x39)"

definition isHyphen :: "nat \<Rightarrow> bool" where
  "isHyphen c \<longleftrightarrow> c = 0x2D"

definition stripHyphens :: "jstring \<Rightarrow> jstring" where
  "stripHyphens s = rev (dropWhile isHyphen (rev (dropWhile isHyphen s)))"

definition slugify :: "jstring \<Rightarrow> jstring" where
  "slugify s = S ''/''
    @ stripHyphens (replaceRuns (\<lambda>c. \<not> isAlnum c) 0x2D (toLowerCase s))"

record SitemapEntry =
  name :: jstring
  path :: jstring

definition sitemap_of :: "jstring list \<Rightarrow> SitemapEntry list" where
  "sitemap_of pages = map (\<lambda>n. \<lparr>name = n, path = slugify n\<rparr>) pages"

section \<open>Blueprint lists (lines 592-701)\<close>

definition userStoriesBase :: "jstring list" where
  "userStoriesBase =
     [S ''As a visitor, I understand the value within 5 seconds'',
       S ''As a visitor, I can complete the primary CTA easily'',
       S ''As a visitor, I can trust the product via social proof'']"

fun userStoriesByType :: "SiteType \<Rightarrow> jstring list" where
  "userStoriesByType Saas =
     [S ''As a user, I can start a free trial'',
       S ''As a user, I can manage my plan and billing'',
       S ''As a user, I can reset my password'',
       S ''As an admin, I can see key metrics in the dashboard'']"
| "userStoriesByType Ecommerce =
     [S ''As a shopper, I can browse and filter products'',
       S ''As a shopper, I can add items to cart'',
       S ''As a shopper, I can checkout and pay securely'',
         S ''As a user, I can view my orders'']"
| "userStoriesByType Portfolio =
     [S ''As a client, I can view selected work'', S ''As a client, I can contact for a quote'']"
| "userStoriesByType Restaurant =
     [S ''As a guest, I can view the menu'', S ''As a guest, I can book a table'',
       S ''As a guest, I can see location and hours'']"
| "userStoriesByType Blog =
     [S ''As a reader, I can read and search posts'',
       S ''As a reader, I can subscribe to the newsletter'']"
| "userStoriesByType Event =
     [S ''As an attendee, I can view agenda and speakers'',
       S ''As an attendee, I can buy tickets and receive confirmation'']"
| "userStoriesByType Booking =
     [S ''As a client, I can view availability'',
       S ''As a client, I can book, reschedule, or cancel appointments'']"
| "userStoriesByType Generic = []"

definition userStories_classified :: "ImproveHints \<Rightarrow> jstring \<Rightarrow> jstring list" where
  "userStories_classified hints lower =
     fromSet (userStoriesBase @ userStoriesByType (siteType_merged hints lower))"

definition userStories_merged :: "ImproveHints \<Rightarrow> jstring \<Rightarrow> jstring list" where
  "userStories_merged hints lower =
     mergeHint (userStories_classified hints lower) (h_userStories hints)"

definition techBase :: "jstring list" where
  "techBase =
     [S ''Next.js 14+'', S ''React'', S ''TypeScript'', S ''Tailwind CSS'', S ''shadcn/ui'',
       S ''Prisma + PostgreSQL'', S ''NextAuth or similar'', S ''Vercel or similar hosting'']"

text \<open>Lines 614-618.\<close>

definition techSuggestions_classified :: "ImproveHints \<Rightarrow> jstring \<Rightarrow> jstring list" where
  "techSuggestions_classified hints lower =
     fromSet (pushEach
       [(requiresPaymentsFinal hints lower, S ''Stripe (or regional: Paymob/Fawry/MADA)''),
        (usesArabic lower, S ''i18n with Arabic + RTL support''),
        (S ''Blog'' \<in> set (features_merged hints lower),
          S ''MDX or headless CMS (e.g., Sanity)'')]
       techBase)"

definition techSuggestions_merged :: "ImproveHints \<Rightarrow> jstring \<Rightarrow> jstring list" where
  "techSuggestions_merged hints lower =
     mergeHint (techSuggestions_classified hints lower) (h_tech hints)"

text \<open>Lines 625-632: the last entry is \<open>undefined\<close>, and filtered out, without Arabic.\<close>

definition nonFunctional_of :: "jstring \<Rightarrow> jstring list" where
  "nonFunctional_of lower =
     filterBoolean
       [Some (S ''Performance: LCP < 2.5s, TTI < 3.5s''),
        Some (S ''Accessibility: WCAG 2.1 AA''),
        Some (S ''SEO: title/description, sitemap.xml, robots.txt, Open Graph''),
        Some (S ''Security: HTTPS, CSP, secrets management''),
        Some (S ''Analytics: conversion events and funnels''),
        (if usesArabic lower then Some (S ''Internationalization: RTL and Arabic typography'') else None)]"

fun kpisByType :: "SiteType \<Rightarrow> jstring list" where
  "kpisByType Saas =
     [S ''Signup conversion rate'', S ''Activation rate'', S ''Upgrade rate'']"
| "kpisByType Ecommerce =
     [S ''Add-to-cart rate'', S ''Checkout completion rate'', S ''Average order value'']"
| "kpisByType Portfolio =
     [S ''Contact inquiries'', S ''Proposal acceptance rate'']"
| "kpisByType Restaurant =
     [S ''Reservation completion rate'', S ''Menu views'']"
| "kpisByType Blog =
     [S ''Newsletter signups'', S ''Time on page'']"
| "kpisByType Event =
     [S ''Ticket sales'', S ''Registration conversion'']"
| "kpisByType Booking =
     [S ''Booking completion rate'', S ''No-show rate'']"
| "kpisByType Generic =
     [S ''Primary CTA conversion'']"

text \<open>
  Lines 644-649. The hint loop pushes onto the array of the table itself; the table is
  built afresh by every call of the engine, so nothing of it outlives the call.
\<close>

definition kpis_merged :: "ImproveHints \<Rightarrow> jstring \<Rightarrow> jstring list" where
  "kpis_merged hints lower = mergeHint (kpisByType (siteType_merged hints lower)) (h_kpis hints)"

definition contentChecklistBase :: "jstring list" where
  "contentChecklistBase =
     [S ''Clear headline and subheadline'', S ''Value proposition and benefits'',
       S ''High-quality visuals or screenshots'',
       S ''Social proof: logos, testimonials, ratings'', S ''Pricing and plans (if applicable)'',
       S ''FAQ and contact methods'']"

definition contentChecklist_merged :: "ImproveHints \<Rightarrow> jstring list" where
  "contentChecklist_merged hints = mergeHint contentChecklistBase (h_contentChecklist hints)"

definition milestonesBase :: "jstring list" where
  "milestonesBase =
     [S ''MVP skeleton (layout, navigation, theming)'', S ''Core flows implemented'',
       S ''Content integration and SEO'', S ''QA: accessibility and performance'',
       S ''Launch and analytics instrumentation'']"

definition milestones_merged :: "ImproveHints \<Rightarrow> jstring list" where
  "milestones_merged hints = mergeHint milestonesBase (h_milestones hints)"

definition personasBase :: "jstring list" where
  "personasBase =
     [S ''Visitor/Evaluator'', S ''Buyer/Decision-maker'', S ''Admin/Owner'']"

definition personas_merged :: "ImproveHints \<Rightarrow> jstring list" where
  "personas_merged hints = mergeHint personasBase (h_personas hints)"

definition clarifyingQuestionsBase :: "jstring list" where
  "clarifyingQuestionsBase =
     [S ''What is the brand/product name?'', S ''What is the one-line value proposition?'',
       S ''Who is the primary audience and which market/region?'',
       S ''What is the primary CTA (e.g., sign up, book, buy)?'',
       S ''Do you have existing branding (logo, colors, typography)?'',
       S ''What integrations are required (e.g., analytics, CRM, payment)?'',
       S ''What is the launch timeline and key milestones?'',
       S ''What budget or constraints should we consider?'']"

text \<open>Lines 685-701.\<close>

definition clarifyingQuestions_of :: "ImproveHints \<Rightarrow> jstring \<Rightarrow> jstring list" where
  "clarifyingQuestions_of hints lower =
     (let siteType = siteType_merged hints lower
      in pushEach
        [(requiresPaymentsFinal hints lower,
            S ''Which payment gateways do you prefer (Stripe, Paymob, Fawry, MADA, etc.) and which currency to charge?''),
         (S ''Arabic'' \<in> set (languages_merged hints lower),
            S ''Do you require Arabic RTL support and translation for all pages?''),
         (siteType = Ecommerce,
            S ''What is the product catalog size, categories, variants, shipping/returns policy?''),
         (siteType = Saas,
            S ''What is the pricing model (free, freemium, trial), onboarding flow, and docs scope?''),
         (siteType = Booking,
            S ''What services, durations, availability rules, and rescheduling/cancellation policies apply?''),
         (siteType = Event,
            S ''What ticket types, seating, speakers, and content schedule are expected?''),
         (length (compliance_merged hints lower) \<noteq> 0,
            S ''Do you need legal pages (Privacy, Terms, Cookies) and data retention policies aligned with compliance?'')]
        clarifyingQuestionsBase)"

section \<open>The project blueprint (lines 703-734)\<close>

definition bullets :: "jstring list \<Rightarrow> jstring" where
  "bullets xs = join nl (map (\<lambda>s. S ''- '' @ s) xs)"

definition projectBlueprint_of :: "ImproveHints \<Rightarrow> jstring \<Rightarrow> jstring" where
  "projectBlueprint_of hints lower =
     (let l = lang hints;
          industries = industries_merged hints lower;
          regions = regions_merged hints lower;
          languages = languages_merged hints lower;
          currency = currency_merged hints lower;
          sitemap = sitemap_of (pages_merged hints lower)
      in join nl
        [H l (S ''Project blueprint''),
         H l (S ''Scope''),
         (if l = Ar then S ''- '' @ [0x627, 0x644, 0x635, 0x646, 0x627, 0x639, 0x629] @ S '': ''
           @ join (S '', '') industries
          else S ''- Industry: '' @ join (S '', '') industries),
         (if l = Ar then S ''- '' @ [0x627, 0x644, 0x645, 0x646, 0x627, 0x637, 0x642] @ S '': ''
           @ join (S '', '') regions
          else S ''- Regions: '' @ join (S '', '') regions),
         (if l = Ar then S ''- '' @ [0x627, 0x644, 0x644, 0x63A, 0x627, 0x62A] @ S '': ''
           @ join (S '', '') languages
          else S ''- Languages: '' @ join (S '', '') languages),
         (if l = Ar then S ''- '' @ [0x627, 0x644, 0x639, 0x645, 0x644, 0x629] @ S '': ''
           @ currency
          else S ''- Currency: '' @ currency),
         [],
         H l (S ''Pages & sitemap''),
         join nl (map (\<lambda>p. S ''- '' @ name p @ S '' ('' @ path p @ S '')'') sitemap),
         [],
         H l (S ''User stories''),
         bullets (userStories_merged hints lower),
         [],
         H l (S ''Non-functional requirements''),
         bullets (nonFunctional_of lower),
         [],
         H l (S ''KPIs''),
         bullets (kpis_merged hints lower),
         [],
         H l (S ''Tech stack suggestions''),
         bullets (techSuggestions_merged hints lower),
         [],
         H l (S ''Content checklist''),
         bullets (contentChecklist_merged hints),
         [],
         H l (S ''Milestones''),
         bullets (milestones_merged hints),
         [],
         H l (S ''Questions to clarify''),
         bullets (clarifyingQuestions_of hints lower)])"

section \<open>The engine (lines 77-81, 738-773)\<close>

record Details =
  audience :: "jstring list"
  siteType :: SiteType
  siteTypeLabel :: jstring
  tone :: "jstring list"
  suggestedSections :: "jstring list"
  defaultFeatures :: "jstring list"
  detectedFeatures :: "jstring list"
  selectedFeatures :: "jstring list"
  ideaLength :: nat
  wordCount :: nat
  statedGoal :: jstring
  projectMode :: bool
  industries :: "jstring list"
  regions :: "jstring list"
  languages :: "jstring list"
  currency :: jstring
  requiresPayments :: bool
  compliance :: "jstring list"
  pages :: "jstring list"
  sitemap :: "SitemapEntry list"
  userStories :: "jstring list"
  techSuggestions :: "jstring list"
  nonFunctional :: "jstring list"
  kpis :: "jstring list"
  contentChecklist :: "jstring list"
  milestones :: "jstring list"
  personas :: "jstring list"
  clarifyingQuestions :: "jstring list"
  blueprint :: "jstring option"
  outputLang :: Lang

definition details_of :: "ImproveHints \<Rightarrow> jstring \<Rightarrow> jstring \<Rightarrow> Details" where
  "details_of hints idea lower =
     \<lparr>audience = audience_merged hints lower,
      siteType = siteType_merged hints lower,
      siteTypeLabel = typeLabel (siteType_merged hints lower),
      tone = toneWords_merged hints lower,
      suggestedSections = sectionsByType (siteType_merged hints lower),
      defaultFeatures = defaultFeaturesByType (siteType_merged hints lower),
      detectedFeatures = features_merged hints lower,
      selectedFeatures = selectedFeatures_of hints lower,
      ideaLength = length idea,
      wordCount = (if length idea \<noteq> 0 then length (splitSpaces [] idea) else 0),
      statedGoal = statedGoal_of idea,
      projectMode = projectMode_merged hints lower,
      industries = industries_merged hints lower,
      regions = regions_merged hints lower,
      languages = languages_merged hints lower,
      currency = currency_merged hints lower,
      requiresPayments = requiresPaymentsFinal hints lower,
      compliance = compliance_merged hints lower,
      pages = pages_merged hints lower,
      sitemap = sitemap_of (pages_merged hints lower),
      userStories = userStories_merged hints lower,
      techSuggestions = techSuggestions_merged hints lower,
      nonFunctional = nonFunctional_of lower,
      kpis = kpis_merged hints lower,
      contentChecklist = contentChecklist_merged hints,
      milestones = milestones_merged hints,
      personas = personas_merged hints,
      clarifyingQuestions = clarifyingQuestions_of hints lower,
      blueprint = (if projectMode_merged hints lower then Some (projectBlueprint_of hints lower)
                   else None),
      outputLang = lang hints\<rparr>"

text \<open>
  What \<open>improveIdea\<close> returns (line 772). The two calls of \<open>Date.now()\<close> (lines 78 and
  771) read the clock of the machine; their results \<open>startedAt\<close> and \<open>endedAt\<close> are
  arguments of the model, in milliseconds.
\<close>

record Output =
  improved :: jstring
  processingMs :: int
  details :: Details

definition improveIdea :: "int \<Rightarrow> int \<Rightarrow> jstring \<Rightarrow> ImproveHints option \<Rightarrow> Output" where
  "improveIdea startedAt endedAt raw ho =
     (let hints = hintsOf ho;
          idea = trim raw;
          lower = toLowerCase idea
      in \<lparr>improved = improved_of hints idea lower,
          processingMs = endedAt - startedAt,
          details = details_of hints idea lower\<rparr>)"

section \<open>The engine on a store of arrays\<close>

text \<open>
  A JavaScript array is an object: a variable holds a reference to it, and \<open>push\<close>
  changes the array that every reference reaches. The functions above give every array
  of the engine by its value. This section gives the engine as the program is written,
  statement by statement, on a store. The arrays that the hints hold, and every array
  that the engine pushes onto, are cells of the store and are reached by reference; an
  array that is only read once it is built (a row of a table that no statement pushes
  onto, a result of \<open>map\<close>, \<open>filter\<close> or \<open>Array.from\<close> that stays as it is) remains
  a value. The world of an invocation is the store, the next free reference, and the
  clock of the machine: \<open>ticks\<close> are the readings of the clock, \<open>tick\<close> counts the
  readings taken so far.
\<close>

type_synonym ref = nat

record world =
  cells :: "ref \<Rightarrow> jstring list"
  nextRef :: ref
  ticks :: "nat \<Rightarrow> int"
  tick :: nat

text \<open>\<open>Date.now()\<close>.\<close>

definition dateNow :: "world \<Rightarrow> int \<times> world" where
  "dateNow w = (ticks w (tick w), w\<lparr>tick := Suc (tick w)\<rparr>)"

text \<open>
  An array literal, \<open>Array.from\<close>, or a row of a table literal: a new array, at a reference
  that nothing else holds.
\<close>

definition newArray :: "jstring list \<Rightarrow> world \<Rightarrow> ref \<times> world" where
  "newArray xs w =
     (nextRef w, w\<lparr>cells := (cells w)(nextRef w := xs), nextRef := Suc (nextRef w)\<rparr>)"

text \<open>\<open>arr.push(x)\<close>, \<open>arr.push(x, y, z)\<close>, \<open>if (c) arr.push(x)\<close> and
  \<open>if (!arr.includes(x)) arr.push(x)\<close>.\<close>

definition pushAll :: "ref \<Rightarrow> jstring list \<Rightarrow> world \<Rightarrow> world" where
  "pushAll r xs w = w\<lparr>cells := (cells w)(r := cells w r @ xs)\<rparr>"

definition push :: "ref \<Rightarrow> jstring \<Rightarrow> world \<Rightarrow> world" where
  "push r x w = pushAll r [x] w"

definition pushWhen :: "bool \<Rightarrow> ref \<Rightarrow> jstring \<Rightarrow> world \<Rightarrow> world" where
  "pushWhen c r x w = (if c then push r x w else w)"

definition pushNewAt :: "jstring \<Rightarrow> ref \<Rightarrow> world \<Rightarrow> world" where
  "pushNewAt x r w = pushWhen (x \<notin> set (cells w r)) r x w"

text \<open>
  A run of statements \<open>if (c) arr.push(x);\<close>, or a loop over a table with that body,
  whose tests read the text or a scalar and no array: one pair per statement, in the order
  of the source.
\<close>

fun pushEachAt :: "(bool \<times> jstring) list \<Rightarrow> ref \<Rightarrow> world \<Rightarrow> world" where
  "pushEachAt [] r w = w"
| "pushEachAt ((c, x) # rest) r w = pushEachAt rest r (pushWhen c r x w)"

text \<open>
  The hint loop (lines 142-146 and its siblings), on the store:
  \<^verbatim>\<open>for (const a of src) { if (a && !arr.includes(a)) arr.push(a); }\<close>
  The iterator of \<open>for ... of\<close> reads the array \<open>src\<close> as it is at every step: it
  stops when its index reaches the length the array has then. The loop ends even when
  \<open>arr\<close> and \<open>src\<close> are the same array, since an entry of an array is never pushed
  onto that array.
\<close>

function hintLoopFrom :: "ref \<Rightarrow> ref \<Rightarrow> nat \<Rightarrow> world \<Rightarrow> world" where
  "hintLoopFrom arr src i w =
     (if i < length (cells w src)
      then hintLoopFrom arr src (Suc i)
             (pushWhen (cells w src ! i \<noteq> [] \<and> cells w src ! i \<notin> set (cells w arr)) arr
                (cells w src ! i) w)
      else w)"
  by pat_completeness auto
termination
  by (relation "measure (\<lambda>(arr, src, i, w). length (cells w src) - i)")
    (auto simp add: pushWhen_def push_def pushAll_def)

declare hintLoopFrom.simps [simp del]

text \<open>\<open>if (hints?.field?.length) { for (const a of hints.field) ... }\<close>\<close>

definition hintLoop :: "ref \<Rightarrow> ref option \<Rightarrow> world \<Rightarrow> world" where
  "hintLoop arr h w =
     (case h of
        None \<Rightarrow> w
      | Some src \<Rightarrow> if length (cells w src) \<noteq> 0 then hintLoopFrom arr src 0 w else w)"

text \<open>
  The hints as the engine receives them: an object whose array-valued fields are
  references to arrays of the caller.
\<close>

record RefHints =
  r_audience :: "ref option"
  r_siteType :: "jstring option"
  r_tone :: "ref option"
  r_features :: "ref option"
  r_industries :: "ref option"
  r_regions :: "ref option"
  r_languages :: "ref option"
  r_currency :: "jstring option"
  r_pages :: "ref option"
  r_requiresPayments :: "bool option"
  r_compliance :: "ref option"
  r_kpis :: "ref option"
  r_userStories :: "ref option"
  r_tech :: "ref option"
  r_contentChecklist :: "ref option"
  r_milestones :: "ref option"
  r_personas :: "ref option"
  r_projectMode :: "bool option"
  r_outputLang :: "jstring option"

definition noRefHints :: RefHints where
  "noRefHints = \<lparr>r_audience = None, r_siteType = None, r_tone = None, r_features = None,
     r_industries = None, r_regions = None, r_languages = None, r_currency = None,
     r_pages = None, r_requiresPayments = None, r_compliance = None, r_kpis = None,
     r_userStories = None, r_tech = None, r_contentChecklist = None, r_milestones = None,
     r_personas = None, r_projectMode = None, r_outputLang = None\<rparr>"

definition refHintsOf :: "RefHints option \<Rightarrow> RefHints" where
  "refHintsOf ho = (case ho of None \<Rightarrow> noRefHints | Some h \<Rightarrow> h)"

text \<open>The fields of the hints that are not arrays, for the functions that read only those.\<close>

definition scalars :: "RefHints \<Rightarrow> ImproveHints" where
  "scalars hints = noHints\<lparr>h_siteType := r_siteType hints, h_currency := r_currency hints,
     h_requiresPayments := r_requiresPayments hints, h_projectMode := r_projectMode hints,
     h_outputLang := r_outputLang hints\<rparr>"

text \<open>The hints by value: what their arrays hold in a given world.\<close>

definition hintsAt :: "world \<Rightarrow> RefHints \<Rightarrow> ImproveHints" where
  "hintsAt w hints =
     \<lparr>h_audience = map_option (cells w) (r_audience hints),
      h_siteType = r_siteType hints,
      h_tone = map_option (cells w) (r_tone hints),
      h_features = map_option (cells w) (r_features hints),
      h_industries = map_option (cells w) (r_industries hints),
      h_regions = map_option (cells w) (r_regions hints),
      h_languages = map_option (cells w) (r_languages hints),
      h_currency = r_currency hints,
      h_pages = map_option (cells w) (r_pages hints),
      h_requiresPayments = r_requiresPayments hints,
      h_compliance = map_option (cells w) (r_compliance hints),
      h_kpis = map_option (cells w) (r_kpis hints),
      h_userStories = map_option (cells w) (r_userStories hints),
      h_tech = map_option (cells w) (r_tech hints),
      h_contentChecklist = map_option (cells w) (r_contentChecklist hints),
      h_milestones = map_option (cells w) (r_milestones hints),
      h_personas = map_option (cells w) (r_personas hints),
      h_projectMode = r_projectMode hints,
      h_outputLang = r_outputLang hints\<rparr>"

text \<open>The references the hints hold, and that all of them are arrays of a world.\<close>

definition hintArrays :: "RefHints \<Rightarrow> ref option list" where
  "hintArrays hints =
     [r_audience hints, r_tone hints, r_features hints, r_industries hints, r_regions hints,
      r_languages hints, r_pages hints, r_compliance hints, r_kpis hints, r_userStories hints,
      r_tech hints, r_contentChecklist hints, r_milestones hints, r_personas hints]"

definition hintsIn :: "RefHints \<Rightarrow> world \<Rightarrow> bool" where
  "hintsIn hints w \<longleftrightarrow>
     list_all (\<lambda>h. case h of None \<Rightarrow> True | Some r \<Rightarrow> r < nextRef w) (hintArrays hints)"

subsection \<open>The arrays of the engine, one by one\<close>

text \<open>Lines 88-146.\<close>

definition audience_st :: "jstring \<Rightarrow> RefHints \<Rightarrow> world \<Rightarrow> ref \<times> world" where
  "audience_st lower hints w =
     (let (audience, w) = newArray [] w;
          w = pushEachAt (map (\<lambda>(k, v). (contains lower (Str k), v)) audienceHints) audience w;
          (audience, w) = (if length (cells w audience) = 0
                           then newArray [S ''Prospective customers and early adopters''] w
                           else (audience, w));
          (audience, w) = newArray (fromSet (cells w audience)) w
      in (audience, hintLoop audience (r_audience hints) w))"

text \<open>Lines 179-192.\<close>

definition toneWords_st :: "jstring \<Rightarrow> RefHints \<Rightarrow> world \<Rightarrow> ref \<times> world" where
  "toneWords_st lower hints w =
     (let (toneWords, w) = newArray [] w;
          w = pushEachAt
                [(contains lower (Re playfulRe), S ''playful''),
                 (contains lower (Re minimalRe), S ''minimal''),
                 (contains lower (Re premiumRe), S ''premium''),
                 (contains lower (Re boldRe), S ''bold''),
                 (contains lower (Re friendlyRe), S ''friendly''),
                 (contains lower (Re confidentRe), S ''confident''),
                 (contains lower (Re conciseRe), S ''concise'')] toneWords w;
          w = (if length (cells w toneWords) = 0
               then pushAll toneWords [S ''friendly'', S ''confident'', S ''concise''] w
               else w)
      in (toneWords, hintLoop toneWords (r_tone hints) w))"

text \<open>Lines 208-219.\<close>

definition features_st :: "jstring \<Rightarrow> RefHints \<Rightarrow> world \<Rightarrow> ref \<times> world" where
  "features_st lower hints w =
     (let (features, w) =
            newArray (fromSet (map snd (filter (\<lambda>(k, v). contains lower (Re k)) featureMap))) w
      in (features, hintLoop features (r_features hints) w))"

text \<open>Lines 498-504.\<close>

definition industries_st :: "jstring \<Rightarrow> RefHints \<Rightarrow> world \<Rightarrow> ref \<times> world" where
  "industries_st lower hints w =
     (let (industries, w) =
            newArray (fromSet (map snd (filter (\<lambda>(k, v). contains lower (Re k)) industryMap))) w;
          w = pushWhen (length (cells w industries) = 0) industries (S ''General'') w
      in (industries, hintLoop industries (r_industries hints) w))"

text \<open>Lines 507-512.\<close>

definition languages_st :: "jstring \<Rightarrow> RefHints \<Rightarrow> world \<Rightarrow> ref \<times> world" where
  "languages_st lower hints w =
     (let (languages, w) =
            newArray (fromSet (if usesArabic lower
                               then [S ''Arabic'', S ''English'']
                               else [S ''English''])) w
      in (languages, hintLoop languages (r_languages hints) w))"

text \<open>Lines 528-534.\<close>

definition regions_st :: "jstring \<Rightarrow> RefHints \<Rightarrow> world \<Rightarrow> ref \<times> world" where
  "regions_st lower hints w =
     (let (regions, w) =
            newArray (fromSet (map snd (filter (\<lambda>(k, v). contains lower (Re k)) regionMap))) w;
          w = pushWhen (length (cells w regions) = 0) regions (S ''Global'') w
      in (regions, hintLoop regions (r_regions hints) w))"

text \<open>Lines 558-567.\<close>

definition compliance_st :: "jstring \<Rightarrow> RefHints \<Rightarrow> world \<Rightarrow> ref \<times> world" where
  "compliance_st lower hints w =
     (let (compliance, w) = newArray [] w;
          w = pushEachAt
                [(contains lower (Re gdprRe), S ''GDPR''),
                 (contains lower (Re hipaaRe), S ''HIPAA''),
                 (contains lower (Re pciRe), S ''PCI DSS''),
                 (contains lower (Re soc2Re), S ''SOC 2'')] compliance w
      in (compliance, hintLoop compliance (r_compliance hints) w))"

text \<open>
  Lines 579-588. \<open>features\<close> is the array of lines 208-219, read here by its reference.
\<close>

definition pages_st :: "SiteType \<Rightarrow> ref \<Rightarrow> bool \<Rightarrow> RefHints \<Rightarrow> world \<Rightarrow> ref \<times> world" where
  "pages_st stype features payments hints w =
     (let (pages, w) = newArray (fromSet (pagesByType stype)) w;
          w = pushWhen (S ''Blog'' \<in> set (cells w features) \<and> S ''Blog'' \<notin> set (cells w pages))
                pages (S ''Blog'') w;
          w = hintLoop pages (r_pages hints) w;
          w = (if payments
               then pushNewAt (S ''Checkout'') pages (pushNewAt (S ''Billing'') pages w)
               else w)
      in (pages, w))"

text \<open>Lines 607-612.\<close>

definition userStories_st :: "SiteType \<Rightarrow> RefHints \<Rightarrow> world \<Rightarrow> ref \<times> world" where
  "userStories_st stype hints w =
     (let (userStories, w) = newArray (fromSet (userStoriesBase @ userStoriesByType stype)) w
      in (userStories, hintLoop userStories (r_userStories hints) w))"

text \<open>Lines 614-623.\<close>

definition techSuggestions_st ::
  "jstring \<Rightarrow> ref \<Rightarrow> bool \<Rightarrow> RefHints \<Rightarrow> world \<Rightarrow> ref \<times> world" where
  "techSuggestions_st lower features payments hints w =
     (let (techSuggestions, w) = newArray techBase w;
          w = pushWhen payments techSuggestions
                (S ''Stripe (or regional: Paymob/Fawry/MADA)'') w;
          w = pushWhen (usesArabic lower) techSuggestions
                (S ''i18n with Arabic + RTL support'') w;
          w = pushWhen (S ''Blog'' \<in> set (cells w features)) techSuggestions
                (S ''MDX or headless CMS (e.g., Sanity)'') w;
          (techSuggestions, w) = newArray (fromSet (cells w techSuggestions)) w
      in (techSuggestions, hintLoop techSuggestions (r_tech hints) w))"

text \<open>
  Lines 634-649. \<open>kpis\<close> is the row of the table \<open>kpisByType\<close> itself, and the hint loop
  pushes onto it. The table is a literal in the body of the engine, so each invocation
  builds its rows anew; the row of the site type is the one the invocation reaches.
\<close>

definition kpis_st :: "SiteType \<Rightarrow> RefHints \<Rightarrow> world \<Rightarrow> ref \<times> world" where
  "kpis_st stype hints w =
     (let (kpis, w) = newArray (kpisByType stype) w
      in (kpis, hintLoop kpis (r_kpis hints) w))"

text \<open>Lines 651-663, 665-676 and 678-683.\<close>

definition contentChecklist_st :: "RefHints \<Rightarrow> world \<Rightarrow> ref \<times> world" where
  "contentChecklist_st hints w =
     (let (contentChecklist, w) = newArray contentChecklistBase w
      in (contentChecklist, hintLoop contentChecklist (r_contentChecklist hints) w))"

definition milestones_st :: "RefHints \<Rightarrow> world \<Rightarrow> ref \<times> world" where
  "milestones_st hints w =
     (let (milestones, w) = newArray milestonesBase w
      in (milestones, hintLoop milestones (r_milestones hints) w))"

definition personas_st :: "RefHints \<Rightarrow> world \<Rightarrow> ref \<times> world" where
  "personas_st hints w =
     (let (personas, w) = newArray personasBase w
      in (personas, hintLoop personas (r_personas hints) w))"

text \<open>
  Lines 685-701. \<open>languages\<close> and \<open>compliance\<close> are the arrays of lines 507-512 and
  558-567, read here by their references.
\<close>

definition clarifyingQuestions_st ::
  "SiteType \<Rightarrow> ref \<Rightarrow> ref \<Rightarrow> bool \<Rightarrow> world \<Rightarrow> ref \<times> world" where
  "clarifyingQuestions_st stype langs compl payments w =
     (let (clarifyingQuestions, w) = newArray clarifyingQuestionsBase w;
          w = pushWhen payments clarifyingQuestions
                (S ''Which payment gateways do you prefer (Stripe, Paymob, Fawry, MADA, etc.) and which currency to charge?'') w;
          w = pushWhen (S ''Arabic'' \<in> set (cells w langs)) clarifyingQuestions
                (S ''Do you require Arabic RTL support and translation for all pages?'') w;
          w = pushEachAt
                [(stype = Ecommerce,
                    S ''What is the product catalog size, categories, variants, shipping/returns policy?''),
                 (stype = Saas,
                    S ''What is the pricing model (free, freemium, trial), onboarding flow, and docs scope?''),
                 (stype = Booking,
                    S ''What services, durations, availability rules, and rescheduling/cancellation policies apply?''),
                 (stype = Event,
                    S ''What ticket types, seating, speakers, and content schedule are expected?'')] clarifyingQuestions w;
          w = pushWhen (length (cells w compl) \<noteq> 0) clarifyingQuestions
                (S ''Do you need legal pages (Privacy, Terms, Cookies) and data retention policies aligned with compliance?'') w
      in (clarifyingQuestions, w))"

subsection \<open>The texts, from the arrays as they are when the texts are built\<close>

text \<open>Lines 449-483, from the values of \<open>audience\<close>, \<open>toneWords\<close> and \<open>selectedFeatures\<close>.\<close>

definition improved_from ::
  "Lang \<Rightarrow> SiteType \<Rightarrow> jstring list \<Rightarrow> jstring list \<Rightarrow> jstring list \<Rightarrow> jstring \<Rightarrow> jstring" where
  "improved_from l stype aud toneWords selected goal =
     (let audienceOut = mapAudienceOut l aud;
          toneOut = mapToneOut l toneWords;
          typeLabelOut = (if l = Ar then typeLabelAr stype else typeLabel stype);
          sectionsOut = join nl (map (\<lambda>s. S ''- ''
            @ mapSection l s) (sectionsByType stype))
      in join nl (filterBoolean
         [Some (H l (S ''Project overview'')),
          Some (overviewLine l typeLabelOut audienceOut),
          Some [],
          Some (H l (S ''Target audience'')),
          Some (S ''- '' @ join (nl @ S ''- '') audienceOut),
          Some [],
          Some (H l (S ''Primary goals'')),
          Some (primaryGoalsBullets l),
          Some [],
          Some (H l (S ''Tone & voice'')),
          Some (S ''- '' @ join (S '', '') toneOut),
          Some [],
          Some (H l (S ''Suggested site structure'')),
          Some sectionsOut,
          Some [],
          Some (H l (S ''Key features'')),
          Some (join nl (map (\<lambda>f. S ''- '' @ f) selected)),
          Some [],
          Some (H l (S ''Content & CTAs'')),
          Some (contentCtasBullets l),
          Some [],
          Some (H l (S ''Visual style'')),
          Some (visualStyleBullets l),
          Some [],
          (if goal \<noteq> [] then Some (H l (S ''Notes from the original idea'')) else None),
          (if goal \<noteq> [] then Some (S ''- '' @ goal) else None)]))"

text \<open>Lines 703-734, from the values of the arrays it joins.\<close>

definition projectBlueprint_from ::
  "Lang \<Rightarrow> jstring list \<Rightarrow> jstring list \<Rightarrow> jstring list \<Rightarrow> jstring \<Rightarrow> SitemapEntry list \<Rightarrow>
   jstring list \<Rightarrow> jstring list \<Rightarrow> jstring list \<Rightarrow> jstring list \<Rightarrow> jstring list \<Rightarrow>
   jstring list \<Rightarrow> jstring list \<Rightarrow> jstring" where
  "projectBlueprint_from l inds regs langs ccy smap stories nonFun kps tech checklist
     miles questions =
     join nl
        [H l (S ''Project blueprint''),
         H l (S ''Scope''),
         (if l = Ar then S ''- '' @ [0x627, 0x644, 0x635, 0x646, 0x627, 0x639, 0x629] @ S '': ''
           @ join (S '', '') inds
          else S ''- Industry: '' @ join (S '', '') inds),
         (if l = Ar then S ''- '' @ [0x627, 0x644, 0x645, 0x646, 0x627, 0x637, 0x642] @ S '': ''
           @ join (S '', '') regs
          else S ''- Regions: '' @ join (S '', '') regs),
         (if l = Ar then S ''- '' @ [0x627, 0x644, 0x644, 0x63A, 0x627, 0x62A] @ S '': ''
           @ join (S '', '') langs
          else S ''- Languages: '' @ join (S '', '') langs),
         (if l = Ar then S ''- '' @ [0x627, 0x644, 0x639, 0x645, 0x644, 0x629] @ S '': '' @ ccy
          else S ''- Currency: '' @ ccy),
         [],
         H l (S ''Pages & sitemap''),
         join nl (map (\<lambda>p. S ''- '' @ name p @ S '' ('' @ path p @ S '')'') smap),
         [],
         H l (S ''User stories''),
         bullets stories,
         [],
         H l (S ''Non-functional requirements''),
         bullets nonFun,
         [],
         H l (S ''KPIs''),
         bullets kps,
         [],
         H l (S ''Tech stack suggestions''),
         bullets tech,
         [],
         H l (S ''Content checklist''),
         bullets checklist,
         [],
         H l (S ''Milestones''),
         bullets miles,
         [],
         H l (S ''Questions to clarify''),
         bullets questions]"

subsection \<open>The invocation\<close>

text \<open>
  The detail object of lines 738-769: its fields that are arrays of the store hold their
  references.
\<close>

record RefDetails =
  d_audience :: ref
  d_siteType :: SiteType
  d_siteTypeLabel :: jstring
  d_tone :: ref
  d_suggestedSections :: "jstring list"
  d_defaultFeatures :: "jstring list"
  d_detectedFeatures :: ref
  d_selectedFeatures :: "jstring list"
  d_ideaLength :: nat
  d_wordCount :: nat
  d_statedGoal :: jstring
  d_projectMode :: bool
  d_industries :: ref
  d_regions :: ref
  d_languages :: ref
  d_currency :: jstring
  d_requiresPayments :: bool
  d_compliance :: ref
  d_pages :: ref
  d_sitemap :: "SitemapEntry list"
  d_userStories :: ref
  d_techSuggestions :: ref
  d_nonFunctional :: "jstring list"
  d_kpis :: ref
  d_contentChecklist :: ref
  d_milestones :: ref
  d_personas :: ref
  d_clarifyingQuestions :: ref
  d_blueprint :: "jstring option"
  d_outputLang :: Lang

record RefOutput =
  o_improved :: jstring
  o_processingMs :: int
  o_details :: RefDetails

text \<open>
  \<open>improveIdea\<close>, lines 77-773, in the order of its statements. Every \<open>w\<close> is the world
  after the statement that yields it.
\<close>

definition improveIdea_st :: "jstring \<Rightarrow> RefHints option \<Rightarrow> world \<Rightarrow> RefOutput \<times> world" where
  "improveIdea_st raw ho w =
     (let hints = refHintsOf ho;
          (startedAt, w) = dateNow w;
          idea = trim raw;
          lower = toLowerCase idea;
          l = lang (scalars hints);
          (audience, w) = audience_st lower hints w;
          siteType = siteType_merged (scalars hints) lower;
          projectMode = projectMode_merged (scalars hints) lower;
          (toneWords, w) = toneWords_st lower hints w;
          (features, w) = features_st lower hints w;
          statedGoal = statedGoal_of idea;
          selectedFeatures = fromSet (defaultFeaturesByType siteType @ cells w features);
          improved = improved_from l siteType (cells w audience) (cells w toneWords)
                       selectedFeatures statedGoal;
          (industries, w) = industries_st lower hints w;
          (languages, w) = languages_st lower hints w;
          (regions, w) = regions_st lower hints w;
          currency = currency_merged (scalars hints) lower;
          requiresPayments = (S ''E-commerce checkout'' \<in> set (cells w features)
                              \<or> contains lower (Re paymentRe));
          requiresPaymentsFinal = (case r_requiresPayments hints of
                                     None \<Rightarrow> requiresPayments
                                   | Some b \<Rightarrow> b);
          (compliance, w) = compliance_st lower hints w;
          (pages, w) = pages_st siteType features requiresPaymentsFinal hints w;
          sitemap = sitemap_of (cells w pages);
          (userStories, w) = userStories_st siteType hints w;
          (techSuggestions, w) = techSuggestions_st lower features requiresPaymentsFinal hints w;
          nonFunctional = nonFunctional_of lower;
          (kpis, w) = kpis_st siteType hints w;
          (contentChecklist, w) = contentChecklist_st hints w;
          (milestones, w) = milestones_st hints w;
          (personas, w) = personas_st hints w;
          (clarifyingQuestions, w) =
             clarifyingQuestions_st siteType languages compliance requiresPaymentsFinal w;
          projectBlueprint =
             projectBlueprint_from l (cells w industries) (cells w regions) (cells w languages)
               currency sitemap (cells w userStories) nonFunctional (cells w kpis)
               (cells w techSuggestions) (cells w contentChecklist) (cells w milestones)
               (cells w clarifyingQuestions);
          details =
            \<lparr>d_audience = audience,
             d_siteType = siteType,
             d_siteTypeLabel = typeLabel siteType,
             d_tone = toneWords,
             d_suggestedSections = sectionsByType siteType,
             d_defaultFeatures = defaultFeaturesByType siteType,
             d_detectedFeatures = features,
             d_selectedFeatures = selectedFeatures,
             d_ideaLength = length idea,
             d_wordCount = (if length idea \<noteq> 0 then length (splitSpaces [] idea) else 0),
             d_statedGoal = statedGoal,
             d_projectMode = projectMode,
             d_industries = industries,
             d_regions = regions,
             d_languages = languages,
             d_currency = currency,
             d_requiresPayments = requiresPaymentsFinal,
             d_compliance = compliance,
             d_pages = pages,
             d_sitemap = sitemap,
             d_userStories = userStories,
             d_techSuggestions = techSuggestions,
             d_nonFunctional = nonFunctional,
             d_kpis = kpis,
             d_contentChecklist = contentChecklist,
             d_milestones = milestones,
             d_personas = personas,
             d_clarifyingQuestions = clarifyingQuestions,
             d_blueprint = (if projectMode then Some projectBlueprint else None),
             d_outputLang = l\<rparr>;
          (endedAt, w) = dateNow w
      in (\<lparr>o_improved = improved, o_processingMs = endedAt - startedAt, o_details = details\<rparr>,
          w))"

text \<open>
  What the output says when it is read (serialised) in a world: every array by its
  content there.
\<close>

definition detailsAt :: "world \<Rightarrow> RefDetails \<Rightarrow> Details" where
  "detailsAt w d =
     \<lparr>audience = cells w (d_audience d),
      siteType = d_siteType d,
      siteTypeLabel = d_siteTypeLabel d,
      tone = cells w (d_tone d),
      suggestedSections = d_suggestedSections d,
      defaultFeatures = d_defaultFeatures d,
      detectedFeatures = cells w (d_detectedFeatures d),
      selectedFeatures = d_selectedFeatures d,
      ideaLength = d_ideaLength d,
      wordCount = d_wordCount d,
      statedGoal = d_statedGoal d,
      projectMode = d_projectMode d,
      industries = cells w (d_industries d),
      regions = cells w (d_regions d),
      languages = cells w (d_languages d),
      currency = d_currency d,
      requiresPayments = d_requiresPayments d,
      compliance = cells w (d_compliance d),
      pages = cells w (d_pages d),
      sitemap = d_sitemap d,
      userStories = cells w (d_userStories d),
      techSuggestions = cells w (d_techSuggestions d),
      nonFunctional = d_nonFunctional d,
      kpis = cells w (d_kpis d),
      contentChecklist = cells w (d_contentChecklist d),
      milestones = cells w (d_milestones d),
      personas = cells w (d_personas d),
      clarifyingQuestions = cells w (d_clarifyingQuestions d),
      blueprint = d_blueprint d,
      outputLang = d_outputLang d\<rparr>"

definition outputAt :: "world \<Rightarrow> RefOutput \<Rightarrow> Output" where
  "outputAt w out =
     \<lparr>improved = o_improved out, processingMs = o_processingMs out,
      details = detailsAt w (o_details out)\<rparr>"

text \<open>The references an output holds.\<close>

definition detailRefs :: "RefDetails \<Rightarrow> ref list" where
  "detailRefs d =
     [d_audience d, d_tone d, d_detectedFeatures d, d_industries d, d_regions d, d_languages d,
      d_compliance d, d_pages d, d_userStories d, d_techSuggestions d, d_kpis d,
      d_contentChecklist d, d_milestones d, d_personas d, d_clarifyingQuestions d]"

text \<open>
  Two worlds of one run of the program: the later one has every array of the earlier one,
  with the same content, and the same clock.
\<close>

definition extends :: "world \<Rightarrow> world \<Rightarrow> bool" where
  "extends w w' \<longleftrightarrow>
     nextRef w \<le> nextRef w' \<and> (\<forall>q < nextRef w. cells w' q = cells w q)
     \<and> ticks w' = ticks w \<and> tick w' = tick w"

text \<open>
  A statement sequence that builds one array: the reference it yields is new, the array
  holds \<open>xs\<close>, and nothing that was there before has changed.
\<close>

definition builds :: "world \<Rightarrow> ref \<times> world \<Rightarrow> jstring list \<Rightarrow> bool" where
  "builds w rw xs \<longleftrightarrow>
     nextRef w \<le> fst rw \<and> fst rw < nextRef (snd rw) \<and> cells (snd rw) (fst rw) = xs
     \<and> extends w (snd rw)"

text \<open>
  What holds while an invocation that started in the world \<open>w0\<close> runs: the hints
  are arrays of \<open>w0\<close>, the world extends \<open>w0\<close>, and each array built so far is new
  and holds what it held when it was built.
\<close>

definition during :: "world \<Rightarrow> RefHints \<Rightarrow> (ref \<times> jstring list) list \<Rightarrow> world \<Rightarrow> bool" where
  "during w0 hints built w \<longleftrightarrow>
     hintsIn hints w0 \<and> extends w0 w
     \<and> list_all (\<lambda>(r, xs). nextRef w0 \<le> r \<and> r < nextRef w \<and> cells w r = xs) built"

text \<open>
  The example below: a world with one array, which the hints hold twice (as \<open>audience\<close>
  and as \<open>pages\<close>), and a clock that reads 0, 0, 0 and then 5; and two invocations on
  the text \<open>hello\<close> with these hints, the second in the world the first leaves.
\<close>

definition worldA :: world where
  "worldA = \<lparr>cells = (\<lambda>r. if r = 0 then [[], S ''Kids'',
    S ''Kids''] else []), nextRef = 1,
     ticks = (\<lambda>n. if n = 3 then 5 else 0), tick = 0\<rparr>"

definition refHintsA :: RefHints where
  "refHintsA = noRefHints\<lparr>r_audience := Some 0, r_pages := Some 0\<rparr>"

definition firstRun :: "RefOutput \<times> world" where
  "firstRun = improveIdea_st (S ''hello'') (Some refHintsA) worldA"

definition secondRun :: "RefOutput \<times> world" where
  "secondRun = improveIdea_st (S ''hello'') (Some refHintsA) (snd firstRun)"

section \<open>Notions used to state the properties\<close>

text \<open>The entries a hint array contributes: the hint loop skips the empty string.\<close>

definition hinted :: "jstring list option \<Rightarrow> jstring list" where
  "hinted h = (case h of None \<Rightarrow> [] | Some hs \<Rightarrow> filter (\<lambda>a. a \<noteq> []) hs)"

text \<open>A set-valued field in good shape: no entry twice, and no empty string.\<close>

definition okSet :: "jstring list \<Rightarrow> bool" where
  "okSet xs \<longleftrightarrow> distinct xs \<and> [] \<notin> set xs"

text \<open>
  A merged field as the union of a base list and a hint: the base comes first and
  unchanged, the entries are those of the base and the non-empty ones of the hint, and no
  entry occurs twice.
\<close>

definition hintUnion :: "jstring list \<Rightarrow> jstring list option \<Rightarrow> jstring list \<Rightarrow> bool" where
  "hintUnion base h merged \<longleftrightarrow>
     prefix base merged \<and> set merged = set base \<union> set (hinted h) \<and> distinct merged"

text \<open>
  The category tests of the site-type detection, in the order the specification gives
  them, and the first test that matches.
\<close>

definition categoryTests :: "(SiteType \<times> regex) list" where
  "categoryTests =
     [(Saas, saasRe), (Ecommerce, ecommerceRe), (Portfolio, portfolioRe),
      (Restaurant, restaurantRe), (Blog, blogRe), (Event, eventRe), (Booking, bookingRe)]"

definition firstCategory :: "jstring \<Rightarrow> SiteType" where
  "firstCategory lower =
     (case find (\<lambda>(t, r). test r lower) categoryTests of
        None \<Rightarrow> Generic
      | Some (t, r) \<Rightarrow> t)"



text \<open>Hints of the examples below.\<close>

definition hintsA :: ImproveHints where
  "hintsA = noHints\<lparr>h_siteType := Some (S ''blog''), h_currency := Some (S ''EGP''),
     h_requiresPayments := Some False, h_projectMode := Some True,
     h_outputLang := Some (S ''ar'')\<rparr>"

definition hintsB :: ImproveHints where
  "hintsB = noHints\<lparr>h_projectMode := Some False, h_outputLang := Some (S ''en'')\<rparr>"

definition hintsC :: ImproveHints where
  "hintsC = noHints\<lparr>h_audience := Some [[], S ''Kids'', S ''Kids''],
     h_currency := Some [], h_pages := Some [S ''Zed'', [], S ''Home'']\<rparr>"

text \<open>
  The Arabic scenario of the specification: the idea text (an online fashion store in
  Egypt, with cart, purchase and payment) and the single hint \<open>outputLang = "ar"\<close>.
\<close>

definition ideaAr :: jstring where
  "ideaAr =
     [0x645, 0x62A, 0x62C, 0x631, 0x20, 0x625, 0x644, 0x643, 0x62A, 0x631, 0x648, 0x646, 0x64A,
       0x20, 0x644, 0x644, 0x623, 0x632, 0x64A, 0x627, 0x621, 0x20, 0x641, 0x64A, 0x20, 0x645,
       0x635, 0x631, 0x20, 0x645, 0x639, 0x20, 0x633, 0x644, 0x629, 0x20, 0x648, 0x634, 0x631,
       0x627, 0x621, 0x20, 0x648, 0x62F, 0x641, 0x639]"

definition hintsAr :: ImproveHints where
  "hintsAr = noHints\<lparr>h_outputLang := Some (S ''ar'')\<rparr>"

definition scenarioAr :: Output where
  "scenarioAr = improveIdea 0 0 ideaAr (Some hintsAr)"

section \<open>Facts about the runtime functions\<close>

lemma S_eq_Nil [simp]: "S s = [] \<longleftrightarrow> s = []"
  by (simp add: S_def)

lemma Nil_eq_S [simp]: "[] = S s \<longleftrightarrow> s = []"
  by (auto simp: S_def)

lemma S_inject [simp]: "S a = S b \<longleftrightarrow> a = b"
  unfolding S_def by (rule inj_map_eq_map) (rule inj_of_char)

lemma setInsertAll_set: "set (setInsertAll acc xs) = set acc \<union> set xs"
  by (induction xs arbitrary: acc) auto

lemma setInsertAll_distinct: "distinct acc \<Longrightarrow> distinct (setInsertAll acc xs)"
  by (induction xs arbitrary: acc) auto

lemma setInsertAll_extends: "\<exists>ys. setInsertAll acc xs = acc @ ys"
proof (induction xs arbitrary: acc)
  case Nil
  show ?case by simp
next
  case (Cons x xs)
  obtain ys where "setInsertAll (if x \<in> set acc then acc else acc @ [x]) xs
      = (if x \<in> set acc then acc else acc @ [x]) @ ys"
    using Cons.IH by blast
  then show ?case by (cases "x \<in> set acc") auto
qed

lemma setInsertAll_prefix: "prefix acc (setInsertAll acc xs)"
  using setInsertAll_extends [of acc xs] by (auto simp: prefix_def)

lemma setInsertAll_append:
  "setInsertAll acc (xs @ ys) = setInsertAll (setInsertAll acc xs) ys"
  by (induction xs arbitrary: acc) auto

lemma setInsertAll_idem: "setInsertAll acc (setInsertAll b xs) = setInsertAll acc (b @ xs)"
proof (induction xs arbitrary: b)
  case Nil
  show ?case by simp
next
  case (Cons x xs)
  show ?case
  proof (cases "x \<in> set b")
    case True
    then have "x \<in> set (setInsertAll acc b)" by (simp add: setInsertAll_set)
    then have "setInsertAll acc (b @ x # xs) = setInsertAll acc (b @ xs)"
      by (simp add: setInsertAll_append)
    with True Cons.IH [of b] show ?thesis by simp
  next
    case False
    with Cons.IH [of "b @ [x]"] show ?thesis by simp
  qed
qed

lemma fromSet_set [simp]: "set (fromSet xs) = set xs"
  by (simp add: fromSet_def setInsertAll_set)

lemma fromSet_distinct [simp]: "distinct (fromSet xs)"
  by (simp add: fromSet_def setInsertAll_distinct)

lemma fromSet_Nil_iff [simp]: "fromSet xs = [] \<longleftrightarrow> xs = []"
  using fromSet_set [of xs] by (metis set_empty)

lemma pushEach_eq: "pushEach ps arr = arr @ map snd (filter fst ps)"
  by (induction ps arr rule: pushEach.induct) (auto simp: pushIf_def)

lemma distinct_pushEach:
  "distinct (arr @ map snd ps) \<Longrightarrow> distinct (pushEach ps arr)"
  by (auto simp: pushEach_eq distinct_map_filter)

lemma set_pushEach_subset: "set (pushEach ps arr) \<subseteq> set arr \<union> snd ` set ps"
  by (auto simp: pushEach_eq)

lemma pushHints_eq: "pushHints arr hs = setInsertAll arr (filter (\<lambda>a. a \<noteq> []) hs)"
  by (induction hs arbitrary: arr) (auto simp: pushIf_def)

lemma mergeHint_eq: "mergeHint arr h = setInsertAll arr (hinted h)"
  by (simp add: mergeHint_def hinted_def pushHints_eq split: option.splits)

lemma set_mergeHint: "set (mergeHint arr h) = set arr \<union> set (hinted h)"
  by (simp add: mergeHint_eq setInsertAll_set)

lemma distinct_mergeHint: "distinct arr \<Longrightarrow> distinct (mergeHint arr h)"
  by (simp add: mergeHint_eq setInsertAll_distinct)

lemma prefix_mergeHint: "prefix arr (mergeHint arr h)"
  by (simp add: mergeHint_eq setInsertAll_prefix)

lemma mergeHint_nonempty: "arr \<noteq> [] \<Longrightarrow> mergeHint arr h \<noteq> []"
  using prefix_mergeHint [of arr h] by auto

lemma Nil_notin_hinted [simp]: "[] \<notin> set (hinted h)"
  by (simp add: hinted_def split: option.splits)

lemma Nil_notin_mergeHint: "[] \<notin> set arr \<Longrightarrow> [] \<notin> set (mergeHint arr h)"
  by (simp add: set_mergeHint)

section \<open>Evaluation on concrete texts\<close>

lemmas regex_eval =
  test_def S_def toLowerCase_def toLowerUnit_def trim_def isWhiteSpace_def isWordChar_def
  wordBefore_def wordAfter_def
section \<open>The store: what the statements of the engine do to it\<close>

lemma pushAll_eq: "pushAll r xs w = w\<lparr>cells := (cells w)(r := cells w r @ xs)\<rparr>"
  by (simp add: pushAll_def)

lemma pushWhen_eq: "pushWhen c r x w = w\<lparr>cells := (cells w)(r := pushIf c x (cells w r))\<rparr>"
  by (simp add: pushWhen_def push_def pushAll_def pushIf_def)

lemma pushNewAt_eq: "pushNewAt x r w = w\<lparr>cells := (cells w)(r := pushNew x (cells w r))\<rparr>"
  by (simp add: pushNewAt_def pushWhen_eq pushNew_def)

lemma pushEachAt_eq: "pushEachAt cs r w = w\<lparr>cells := (cells w)(r := pushEach cs (cells w r))\<rparr>"
  by (induction cs r w rule: pushEachAt.induct)
    (simp_all add: pushWhen_eq fun_upd_same del: fun_upd_apply)

text \<open>
  The hint loop, run on an array other than the one it reads, pushes what \<open>pushHints\<close>
  says: the array it reads stays as it is while the loop runs.
\<close>

lemma hintLoopFrom_eq:
  "arr \<noteq> src \<Longrightarrow>
   hintLoopFrom arr src i w
     = w\<lparr>cells := (cells w)(arr := pushHints (cells w arr) (drop i (cells w src)))\<rparr>"
proof (induction arr src i w rule: hintLoopFrom.induct)
  case (1 arr src i w)
  show ?case
  proof (cases "i < length (cells w src)")
    case True
    then have d: "drop i (cells w src) = cells w src ! i # drop (Suc i) (cells w src)"
      by (simp add: Cons_nth_drop_Suc)
    show ?thesis
      using True 1
      by (subst hintLoopFrom.simps)
        (simp add: d pushWhen_eq fun_upd_same fun_upd_other del: fun_upd_apply)
  next
    case False
    then show ?thesis
      by (subst hintLoopFrom.simps) simp
  qed
qed

lemma hintLoop_None: "hintLoop arr None w = w"
  by (simp add: hintLoop_def)

lemma hintLoop_Some:
  "arr \<noteq> src \<Longrightarrow>
   hintLoop arr (Some src) w
     = w\<lparr>cells := (cells w)(arr := mergeHint (cells w arr) (Some (cells w src)))\<rparr>"
  by (simp add: hintLoop_def hintLoopFrom_eq mergeHint_def)

lemma pushEach_table:
  "pushEach (map (\<lambda>p. (P (fst p), snd p)) tbl) xs = xs
    @ map snd (filter (\<lambda>p. P (fst p)) tbl)"
  by (induction tbl arbitrary: xs) (auto simp add: pushIf_def)

lemmas store_eval =
  Let_def split_def newArray_def pushAll_eq pushWhen_eq pushNewAt_eq pushEachAt_eq hintLoop_None
  hintLoop_Some builds_def extends_def hintsAt_def mergeHint_def

subsection \<open>Each array of the engine is new and holds what the functions above say\<close>

lemma audience_st_builds:
  assumes "hintsIn hints w"
  shows "builds w (audience_st lower hints w) (audience_merged (hintsAt w hints) lower)"
proof -
  have "case r_audience hints of None \<Rightarrow> True | Some src \<Rightarrow> src < nextRef w"
    using assms by (simp add: hintsIn_def hintArrays_def)
  then show ?thesis
    by (simp add: audience_st_def store_eval audience_merged_def audience_classified_def
        pushEach_table split: option.splits)
qed

lemma toneWords_st_builds:
  assumes "hintsIn hints w"
  shows "builds w (toneWords_st lower hints w) (toneWords_merged (hintsAt w hints) lower)"
proof -
  have "case r_tone hints of None \<Rightarrow> True | Some src \<Rightarrow> src < nextRef w"
    using assms by (simp add: hintsIn_def hintArrays_def)
  then show ?thesis
    by (simp add: toneWords_st_def store_eval toneWords_merged_def toneWords_classified_def
        split: option.splits)
qed

lemma features_st_builds:
  assumes "hintsIn hints w"
  shows "builds w (features_st lower hints w) (features_merged (hintsAt w hints) lower)"
proof -
  have "case r_features hints of None \<Rightarrow> True | Some src \<Rightarrow> src < nextRef w"
    using assms by (simp add: hintsIn_def hintArrays_def)
  then show ?thesis
    by (simp add: features_st_def store_eval features_merged_def features_classified_def
        split: option.splits)
qed

lemma industries_st_builds:
  assumes "hintsIn hints w"
  shows "builds w (industries_st lower hints w) (industries_merged (hintsAt w hints) lower)"
proof -
  have "case r_industries hints of None \<Rightarrow> True | Some src \<Rightarrow> src < nextRef w"
    using assms by (simp add: hintsIn_def hintArrays_def)
  then show ?thesis
    by (simp add: industries_st_def store_eval industries_merged_def industries_classified_def
        split: option.splits)
qed

lemma languages_st_builds:
  assumes "hintsIn hints w"
  shows "builds w (languages_st lower hints w) (languages_merged (hintsAt w hints) lower)"
proof -
  have "case r_languages hints of None \<Rightarrow> True | Some src \<Rightarrow> src < nextRef w"
    using assms by (simp add: hintsIn_def hintArrays_def)
  then show ?thesis
    by (simp add: languages_st_def store_eval languages_merged_def languages_classified_def
        split: option.splits)
qed

lemma regions_st_builds:
  assumes "hintsIn hints w"
  shows "builds w (regions_st lower hints w) (regions_merged (hintsAt w hints) lower)"
proof -
  have "case r_regions hints of None \<Rightarrow> True | Some src \<Rightarrow> src < nextRef w"
    using assms by (simp add: hintsIn_def hintArrays_def)
  then show ?thesis
    by (simp add: regions_st_def store_eval regions_merged_def regions_classified_def
        split: option.splits)
qed

lemma compliance_st_builds:
  assumes "hintsIn hints w"
  shows "builds w (compliance_st lower hints w) (compliance_merged (hintsAt w hints) lower)"
proof -
  have "case r_compliance hints of None \<Rightarrow> True | Some src \<Rightarrow> src < nextRef w"
    using assms by (simp add: hintsIn_def hintArrays_def)
  then show ?thesis
    by (simp add: compliance_st_def store_eval compliance_merged_def compliance_classified_def
        split: option.splits)
qed

lemma pages_st_builds:
  assumes "hintsIn hints w" and "f < nextRef w"
    and "cells w f = features_merged (hintsAt w hints) lower"
    and "st = siteType_merged (hintsAt w hints) lower"
    and "rp = requiresPaymentsFinal (hintsAt w hints) lower"
  shows "builds w (pages_st st f rp hints w) (pages_merged (hintsAt w hints) lower)"
proof -
  have "case r_pages hints of None \<Rightarrow> True | Some src \<Rightarrow> src < nextRef w"
    using assms(1) by (simp add: hintsIn_def hintArrays_def)
  then show ?thesis
    using assms(2) assms(3) [symmetric] assms(4) [symmetric] assms(5) [symmetric]
    by (simp add: pages_st_def store_eval pages_merged_def pages_classified_def
        split: option.splits)
qed

lemma userStories_st_builds:
  assumes "hintsIn hints w" and "st = siteType_merged (hintsAt w hints) lower"
  shows "builds w (userStories_st st hints w) (userStories_merged (hintsAt w hints) lower)"
proof -
  have "case r_userStories hints of None \<Rightarrow> True | Some src \<Rightarrow> src < nextRef w"
    using assms(1) by (simp add: hintsIn_def hintArrays_def)
  then show ?thesis
    using assms(2) [symmetric]
    by (simp add: userStories_st_def store_eval userStories_merged_def
        userStories_classified_def split: option.splits)
qed

lemma techSuggestions_st_builds:
  assumes "hintsIn hints w" and "f < nextRef w"
    and "cells w f = features_merged (hintsAt w hints) lower"
    and "rp = requiresPaymentsFinal (hintsAt w hints) lower"
  shows "builds w (techSuggestions_st lower f rp hints w)
           (techSuggestions_merged (hintsAt w hints) lower)"
proof -
  have "case r_tech hints of None \<Rightarrow> True | Some src \<Rightarrow> src < nextRef w"
    using assms(1) by (simp add: hintsIn_def hintArrays_def)
  then show ?thesis
    using assms(2) assms(3) [symmetric] assms(4) [symmetric]
    by (simp add: techSuggestions_st_def store_eval techSuggestions_merged_def
        techSuggestions_classified_def split: option.splits)
qed

lemma kpis_st_builds:
  assumes "hintsIn hints w" and "st = siteType_merged (hintsAt w hints) lower"
  shows "builds w (kpis_st st hints w) (kpis_merged (hintsAt w hints) lower)"
proof -
  have "case r_kpis hints of None \<Rightarrow> True | Some src \<Rightarrow> src < nextRef w"
    using assms(1) by (simp add: hintsIn_def hintArrays_def)
  then show ?thesis
    using assms(2) [symmetric]
    by (simp add: kpis_st_def store_eval kpis_merged_def split: option.splits)
qed

lemma contentChecklist_st_builds:
  assumes "hintsIn hints w"
  shows "builds w (contentChecklist_st hints w) (contentChecklist_merged (hintsAt w hints))"
proof -
  have "case r_contentChecklist hints of None \<Rightarrow> True | Some src \<Rightarrow> src < nextRef w"
    using assms by (simp add: hintsIn_def hintArrays_def)
  then show ?thesis
    by (simp add: contentChecklist_st_def store_eval contentChecklist_merged_def
        split: option.splits)
qed

lemma milestones_st_builds:
  assumes "hintsIn hints w"
  shows "builds w (milestones_st hints w) (milestones_merged (hintsAt w hints))"
proof -
  have "case r_milestones hints of None \<Rightarrow> True | Some src \<Rightarrow> src < nextRef w"
    using assms by (simp add: hintsIn_def hintArrays_def)
  then show ?thesis
    by (simp add: milestones_st_def store_eval milestones_merged_def split: option.splits)
qed

lemma personas_st_builds:
  assumes "hintsIn hints w"
  shows "builds w (personas_st hints w) (personas_merged (hintsAt w hints))"
proof -
  have "case r_personas hints of None \<Rightarrow> True | Some src \<Rightarrow> src < nextRef w"
    using assms by (simp add: hintsIn_def hintArrays_def)
  then show ?thesis
    by (simp add: personas_st_def store_eval personas_merged_def split: option.splits)
qed

lemma clarifyingQuestions_st_builds:
  assumes "ls < nextRef w" and "cs < nextRef w"
    and "cells w ls = languages_merged hv lower"
    and "cells w cs = compliance_merged hv lower"
    and "st = siteType_merged hv lower"
    and "rp = requiresPaymentsFinal hv lower"
  shows "builds w (clarifyingQuestions_st st ls cs rp w) (clarifyingQuestions_of hv lower)"
  using assms(1,2) assms(3) [symmetric] assms(4) [symmetric] assms(5) [symmetric]
    assms(6) [symmetric]
  by (simp add: clarifyingQuestions_st_def store_eval clarifyingQuestions_of_def)

subsection \<open>The invocation returns what the engine by value does\<close>

lemma extends_refl: "extends w w"
  by (simp add: extends_def)

lemma extends_trans: "extends w w' \<Longrightarrow> extends w' w'' \<Longrightarrow> extends w w''"
  by (simp add: extends_def)

lemma hintsIn_mono: "hintsIn hints w \<Longrightarrow> nextRef w \<le> nextRef w' \<Longrightarrow> hintsIn hints w'"
  unfolding hintsIn_def list_all_iff by (auto split: option.splits)

lemma hintsIn_extends: "hintsIn hints w \<Longrightarrow> extends w w' \<Longrightarrow> hintsIn hints w'"
  using hintsIn_mono [of hints w w'] by (simp add: extends_def)

lemma hintsAt_agree:
  assumes "hintsIn hints w" and "\<forall>q < nextRef w. cells w' q = cells w q"
  shows "hintsAt w' hints = hintsAt w hints"
proof -
  have "map_option (cells w') h = map_option (cells w) h" if "h \<in> set (hintArrays hints)" for h
    using assms that unfolding hintsIn_def list_all_iff by (cases h) auto
  then show ?thesis
    unfolding hintsAt_def by (simp add: hintArrays_def)
qed

lemma hintsAt_extends: "hintsIn hints w \<Longrightarrow> extends w w' \<Longrightarrow> hintsAt w' hints = hintsAt w hints"
  by (rule hintsAt_agree) (simp_all add: extends_def)

lemma during_hintsIn: "during w0 hints built w \<Longrightarrow> hintsIn hints w"
  by (auto simp add: during_def intro: hintsIn_extends)

lemma during_hintsAt: "during w0 hints built w \<Longrightarrow> hintsAt w hints = hintsAt w0 hints"
  by (auto simp add: during_def intro: hintsAt_extends)

lemma during_step:
  assumes "during w0 hints built w" and "builds w rw xs"
  shows "during w0 hints ((fst rw, xs) # built) (snd rw)"
proof -
  have e: "extends w (snd rw)" and n: "nextRef w \<le> fst rw" "fst rw < nextRef (snd rw)"
    and c: "cells (snd rw) (fst rw) = xs"
    using assms(2) by (simp_all add: builds_def)
  have "extends w0 (snd rw)"
    using assms(1) e by (auto simp add: during_def intro: extends_trans)
  moreover have "nextRef w0 \<le> fst rw"
    using assms(1) n by (simp add: during_def extends_def)
  moreover have
    "list_all (\<lambda>(r, xs). nextRef w0 \<le> r \<and> r < nextRef (snd rw) \<and> cells (snd rw) r = xs) built"
    using assms(1) e by (auto simp add: during_def extends_def list_all_iff)
  ultimately show ?thesis
    using assms(1) n c by (simp add: during_def)
qed

lemma scalars_siteType:
  "siteType_merged (scalars hints) lower = siteType_merged (hintsAt w hints) lower"
  by (simp add: siteType_merged_def scalars_def hintsAt_def noHints_def)

lemma scalars_projectMode:
  "projectMode_merged (scalars hints) lower = projectMode_merged (hintsAt w hints) lower"
  by (simp add: projectMode_merged_def scalars_def hintsAt_def noHints_def)

lemma scalars_currency:
  "currency_merged (scalars hints) lower = currency_merged (hintsAt w hints) lower"
  by (simp add: currency_merged_def scalars_def hintsAt_def noHints_def)

lemma scalars_lang: "lang (scalars hints) = lang (hintsAt w hints)"
  by (simp add: lang_def scalars_def hintsAt_def noHints_def)

lemma improved_of_from:
  "improved_of h idea lower
     = improved_from (lang h) (siteType_merged h lower) (audience_merged h lower)
         (toneWords_merged h lower) (selectedFeatures_of h lower) (statedGoal_of idea)"
  by (simp add: improved_of_def improvedParts_def improved_from_def Let_def)

lemma projectBlueprint_of_from:
  "projectBlueprint_of h lower
     = projectBlueprint_from (lang h) (industries_merged h lower) (regions_merged h lower)
         (languages_merged h lower) (currency_merged h lower) (sitemap_of (pages_merged h lower))
         (userStories_merged h lower) (nonFunctional_of lower) (kpis_merged h lower)
         (techSuggestions_merged h lower) (contentChecklist_merged h) (milestones_merged h)
         (clarifyingQuestions_of h lower)"
  by (simp add: projectBlueprint_of_def projectBlueprint_from_def Let_def)

text \<open>
  An invocation in a world that holds the arrays of the hints returns an output whose
  content, read in the world the invocation leaves, is what \<open>improveIdea\<close> gives for the
  content of the hints and the two readings of the clock. Every array of the output is
  new, and the arrays that were there before hold what they held.
\<close>

lemma improveIdea_st_refines:
  assumes "hintsIn (refHintsOf ho) w"
  obtains out w' where
    "improveIdea_st raw ho w = (out, w')"
    "outputAt w' out
       = improveIdea (ticks w (tick w)) (ticks w (Suc (tick w))) raw
           (Some (hintsAt w (refHintsOf ho)))"
    "nextRef w \<le> nextRef w'"
    "\<forall>q < nextRef w. cells w' q = cells w q"
    "ticks w' = ticks w"
    "tick w' = Suc (Suc (tick w))"
    "list_all (\<lambda>r. nextRef w \<le> r \<and> r < nextRef w') (detailRefs (o_details out))"
proof -
  let ?hints = "refHintsOf ho"
  let ?idea = "trim raw"
  let ?lower = "toLowerCase (trim raw)"
  let ?H = "hintsAt w ?hints"
  let ?st = "siteType_merged ?H ?lower"
  let ?rp = "requiresPaymentsFinal ?H ?lower"
  obtain t0 wa where E0: "dateNow w = (t0, wa)"
    by (cases "dateNow w")
  have W0: "cells wa = cells w" "nextRef wa = nextRef w" "ticks wa = ticks w"
    "tick wa = Suc (tick w)" "t0 = ticks w (tick w)"
    using E0 by (auto simp add: dateNow_def)
  have HA: "hintsAt wa ?hints = ?H"
    by (simp add: hintsAt_def W0)
  have HR: "h_requiresPayments ?H = r_requiresPayments ?hints"
    by (simp add: hintsAt_def)
  have J0: "during wa ?hints [] wa"
    using hintsIn_mono [OF assms, of wa] by (simp add: during_def extends_refl W0)
  obtain a w1 where E1: "audience_st ?lower ?hints wa = (a, w1)"
    by (cases "audience_st ?lower ?hints wa")
  have B1: "builds wa (a, w1) (audience_merged ?H ?lower)"
    using audience_st_builds [where lower = "?lower", OF during_hintsIn [OF J0]]
    by (simp add: E1 HA)
  let ?L1 = "(a, audience_merged ?H ?lower) # []"
  have J1: "during wa ?hints ?L1 w1"
    using during_step [OF J0 B1] by simp
  obtain tn w2 where E2: "toneWords_st ?lower ?hints w1 = (tn, w2)"
    by (cases "toneWords_st ?lower ?hints w1")
  have B2: "builds w1 (tn, w2) (toneWords_merged ?H ?lower)"
    using toneWords_st_builds [where lower = "?lower", OF during_hintsIn [OF J1]]
    by (simp add: E2 during_hintsAt [OF J1] HA)
  let ?L2 = "(tn, toneWords_merged ?H ?lower) # ?L1"
  have J2: "during wa ?hints ?L2 w2"
    using during_step [OF J1 B2] by simp
  obtain f w3 where E3: "features_st ?lower ?hints w2 = (f, w3)"
    by (cases "features_st ?lower ?hints w2")
  have B3: "builds w2 (f, w3) (features_merged ?H ?lower)"
    using features_st_builds [where lower = "?lower", OF during_hintsIn [OF J2]]
    by (simp add: E3 during_hintsAt [OF J2] HA)
  let ?L3 = "(f, features_merged ?H ?lower) # ?L2"
  have J3: "during wa ?hints ?L3 w3"
    using during_step [OF J2 B3] by simp
  obtain ind w4 where E4: "industries_st ?lower ?hints w3 = (ind, w4)"
    by (cases "industries_st ?lower ?hints w3")
  have B4: "builds w3 (ind, w4) (industries_merged ?H ?lower)"
    using industries_st_builds [where lower = "?lower", OF during_hintsIn [OF J3]]
    by (simp add: E4 during_hintsAt [OF J3] HA)
  let ?L4 = "(ind, industries_merged ?H ?lower) # ?L3"
  have J4: "during wa ?hints ?L4 w4"
    using during_step [OF J3 B4] by simp
  obtain lg w5 where E5: "languages_st ?lower ?hints w4 = (lg, w5)"
    by (cases "languages_st ?lower ?hints w4")
  have B5: "builds w4 (lg, w5) (languages_merged ?H ?lower)"
    using languages_st_builds [where lower = "?lower", OF during_hintsIn [OF J4]]
    by (simp add: E5 during_hintsAt [OF J4] HA)
  let ?L5 = "(lg, languages_merged ?H ?lower) # ?L4"
  have J5: "during wa ?hints ?L5 w5"
    using during_step [OF J4 B5] by simp
  obtain rg w6 where E6: "regions_st ?lower ?hints w5 = (rg, w6)"
    by (cases "regions_st ?lower ?hints w5")
  have B6: "builds w5 (rg, w6) (regions_merged ?H ?lower)"
    using regions_st_builds [where lower = "?lower", OF during_hintsIn [OF J5]]
    by (simp add: E6 during_hintsAt [OF J5] HA)
  let ?L6 = "(rg, regions_merged ?H ?lower) # ?L5"
  have J6: "during wa ?hints ?L6 w6"
    using during_step [OF J5 B6] by simp
  have RP: "(case r_requiresPayments ?hints of
               None \<Rightarrow> S ''E-commerce checkout'' \<in> set (cells w6 f) \<or> contains ?lower (Re paymentRe)
             | Some b \<Rightarrow> b) = ?rp"
    using J6
    by (simp add: during_def requiresPaymentsFinal_def requiresPayments_of_def HR
        split: option.splits)
  obtain cm w7 where E7: "compliance_st ?lower ?hints w6 = (cm, w7)"
    by (cases "compliance_st ?lower ?hints w6")
  have B7: "builds w6 (cm, w7) (compliance_merged ?H ?lower)"
    using compliance_st_builds [where lower = "?lower", OF during_hintsIn [OF J6]]
    by (simp add: E7 during_hintsAt [OF J6] HA)
  let ?L7 = "(cm, compliance_merged ?H ?lower) # ?L6"
  have J7: "during wa ?hints ?L7 w7"
    using during_step [OF J6 B7] by simp
  obtain pg w8 where E8: "pages_st ?st f ?rp ?hints w7 = (pg, w8)"
    by (cases "pages_st ?st f ?rp ?hints w7")
  have B8: "builds w7 (pg, w8) (pages_merged ?H ?lower)"
    using pages_st_builds [OF during_hintsIn [OF J7], of f ?lower ?st ?rp] J7
    by (simp add: E8 during_hintsAt [OF J7] HA during_def)
  let ?L8 = "(pg, pages_merged ?H ?lower) # ?L7"
  have J8: "during wa ?hints ?L8 w8"
    using during_step [OF J7 B8] by simp
  obtain us w9 where E9: "userStories_st ?st ?hints w8 = (us, w9)"
    by (cases "userStories_st ?st ?hints w8")
  have B9: "builds w8 (us, w9) (userStories_merged ?H ?lower)"
    using userStories_st_builds [OF during_hintsIn [OF J8], of ?st ?lower]
    by (simp add: E9 during_hintsAt [OF J8] HA)
  let ?L9 = "(us, userStories_merged ?H ?lower) # ?L8"
  have J9: "during wa ?hints ?L9 w9"
    using during_step [OF J8 B9] by simp
  obtain tc w10 where E10: "techSuggestions_st ?lower f ?rp ?hints w9 = (tc, w10)"
    by (cases "techSuggestions_st ?lower f ?rp ?hints w9")
  have B10: "builds w9 (tc, w10) (techSuggestions_merged ?H ?lower)"
    using techSuggestions_st_builds [OF during_hintsIn [OF J9], of f ?lower ?rp] J9
    by (simp add: E10 during_hintsAt [OF J9] HA during_def)
  let ?L10 = "(tc, techSuggestions_merged ?H ?lower) # ?L9"
  have J10: "during wa ?hints ?L10 w10"
    using during_step [OF J9 B10] by simp
  obtain kp w11 where E11: "kpis_st ?st ?hints w10 = (kp, w11)"
    by (cases "kpis_st ?st ?hints w10")
  have B11: "builds w10 (kp, w11) (kpis_merged ?H ?lower)"
    using kpis_st_builds [OF during_hintsIn [OF J10], of ?st ?lower]
    by (simp add: E11 during_hintsAt [OF J10] HA)
  let ?L11 = "(kp, kpis_merged ?H ?lower) # ?L10"
  have J11: "during wa ?hints ?L11 w11"
    using during_step [OF J10 B11] by simp
  obtain cc w12 where E12: "contentChecklist_st ?hints w11 = (cc, w12)"
    by (cases "contentChecklist_st ?hints w11")
  have B12: "builds w11 (cc, w12) (contentChecklist_merged ?H)"
    using contentChecklist_st_builds [OF during_hintsIn [OF J11]]
    by (simp add: E12 during_hintsAt [OF J11] HA)
  let ?L12 = "(cc, contentChecklist_merged ?H) # ?L11"
  have J12: "during wa ?hints ?L12 w12"
    using during_step [OF J11 B12] by simp
  obtain ms w13 where E13: "milestones_st ?hints w12 = (ms, w13)"
    by (cases "milestones_st ?hints w12")
  have B13: "builds w12 (ms, w13) (milestones_merged ?H)"
    using milestones_st_builds [OF during_hintsIn [OF J12]]
    by (simp add: E13 during_hintsAt [OF J12] HA)
  let ?L13 = "(ms, milestones_merged ?H) # ?L12"
  have J13: "during wa ?hints ?L13 w13"
    using during_step [OF J12 B13] by simp
  obtain ps w14 where E14: "personas_st ?hints w13 = (ps, w14)"
    by (cases "personas_st ?hints w13")
  have B14: "builds w13 (ps, w14) (personas_merged ?H)"
    using personas_st_builds [OF during_hintsIn [OF J13]]
    by (simp add: E14 during_hintsAt [OF J13] HA)
  let ?L14 = "(ps, personas_merged ?H) # ?L13"
  have J14: "during wa ?hints ?L14 w14"
    using during_step [OF J13 B14] by simp
  obtain cq w15 where E15: "clarifyingQuestions_st ?st lg cm ?rp w14 = (cq, w15)"
    by (cases "clarifyingQuestions_st ?st lg cm ?rp w14")
  have B15: "builds w14 (cq, w15) (clarifyingQuestions_of ?H ?lower)"
    using clarifyingQuestions_st_builds [of lg w14 cm ?H ?lower ?st ?rp] J14
    by (simp add: E15 during_def)
  let ?L15 = "(cq, clarifyingQuestions_of ?H ?lower) # ?L14"
  have J15: "during wa ?hints ?L15 w15"
    using during_step [OF J14 B15] by simp
  obtain t1 wz where E16: "dateNow w15 = (t1, wz)"
    by (cases "dateNow w15")
  have X: "extends wa w15"
    using J15 by (simp add: during_def)
  have WZ: "cells wz = cells w15" "nextRef wz = nextRef w15" "ticks wz = ticks w"
    "tick wz = Suc (Suc (tick w))" "t1 = ticks w (Suc (tick w))"
    using E16 X by (auto simp add: dateNow_def extends_def W0)
  let ?imp = "improved_from (lang ?H) ?st (cells w3 a) (cells w3 tn)
      (fromSet (defaultFeaturesByType ?st @ cells w3 f)) (statedGoal_of ?idea)"
  let ?bp = "projectBlueprint_from (lang ?H) (cells w15 ind) (cells w15 rg) (cells w15 lg)
      (currency_merged ?H ?lower) (sitemap_of (cells w8 pg)) (cells w15 us)
      (nonFunctional_of ?lower) (cells w15 kp) (cells w15 tc) (cells w15 cc) (cells w15 ms)
      (cells w15 cq)"
  let ?det = "\<lparr>d_audience = a,
      d_siteType = ?st,
      d_siteTypeLabel = typeLabel ?st,
      d_tone = tn,
      d_suggestedSections = sectionsByType ?st,
      d_defaultFeatures = defaultFeaturesByType ?st,
      d_detectedFeatures = f,
      d_selectedFeatures = fromSet (defaultFeaturesByType ?st @ cells w3 f),
      d_ideaLength = length ?idea,
      d_wordCount = (if length ?idea \<noteq> 0 then length (splitSpaces [] ?idea) else 0),
      d_statedGoal = statedGoal_of ?idea,
      d_projectMode = projectMode_merged ?H ?lower,
      d_industries = ind,
      d_regions = rg,
      d_languages = lg,
      d_currency = currency_merged ?H ?lower,
      d_requiresPayments = ?rp,
      d_compliance = cm,
      d_pages = pg,
      d_sitemap = sitemap_of (cells w8 pg),
      d_userStories = us,
      d_techSuggestions = tc,
      d_nonFunctional = nonFunctional_of ?lower,
      d_kpis = kp,
      d_contentChecklist = cc,
      d_milestones = ms,
      d_personas = ps,
      d_clarifyingQuestions = cq,
      d_blueprint = (if projectMode_merged ?H ?lower then Some ?bp else None),
      d_outputLang = lang ?H\<rparr>"
  let ?out = "\<lparr>o_improved = ?imp, o_processingMs = t1 - t0, o_details = ?det\<rparr>"
  have R1: "improveIdea_st raw ho w = (?out, wz)"
    by (simp only: improveIdea_st_def Let_def prod.case E0 E1 E2 E3 E4 E5 E6 E7 E8 E9 E10 E11
        E12 E13 E14 E15 E16 RP scalars_siteType [of ?hints ?lower w]
        scalars_projectMode [of ?hints ?lower w] scalars_currency [of ?hints ?lower w]
        scalars_lang [of ?hints w])
  have C3: "cells w3 a = audience_merged ?H ?lower" "cells w3 tn = toneWords_merged ?H ?lower"
    "cells w3 f = features_merged ?H ?lower"
    using J3 by (simp_all add: during_def)
  have C8: "cells w8 pg = pages_merged ?H ?lower"
    using J8 by (simp add: during_def)
  have C15: "list_all (\<lambda>(r, xs). nextRef wa \<le> r \<and> r < nextRef w15 \<and> cells w15 r = xs) ?L15"
    using J15 by (simp add: during_def)
  have R2: "outputAt wz ?out
      = improveIdea (ticks w (tick w)) (ticks w (Suc (tick w))) raw (Some ?H)"
    using C15
    by (simp add: outputAt_def detailsAt_def improveIdea_def hintsOf_def details_of_def Let_def
        WZ W0 C3 C8 improved_of_from projectBlueprint_of_from selectedFeatures_of_def)
  have R3: "nextRef w \<le> nextRef wz"
    using X by (simp add: extends_def WZ W0)
  have R4: "\<forall>q < nextRef w. cells wz q = cells w q"
    using X by (simp add: extends_def WZ W0)
  have R7: "list_all (\<lambda>r. nextRef w \<le> r \<and> r < nextRef wz) (detailRefs (o_details ?out))"
    using C15 by (simp add: detailRefs_def WZ W0)
  show thesis
    using that [OF R1 R2 R3 R4 WZ(3) WZ(4) R7] .
qed

section \<open>C8: determinism\<close>

lemma improveIdea_readings:
  "improved (improveIdea t0 t1 raw ho) = improved (improveIdea t0' t1' raw ho)
   \<and> details (improveIdea t0 t1 raw ho) = details (improveIdea t0' t1' raw ho)
   \<and> processingMs (improveIdea t0 t1 raw ho) = t1 - t0"
  by (simp add: improveIdea_def Let_def)

lemma detailsAt_agree:
  assumes "list_all (\<lambda>r. r < n) (detailRefs d)" and "\<forall>q < n. cells w' q = cells w q"
  shows "detailsAt w' d = detailsAt w d"
  using assms by (simp add: detailsAt_def detailRefs_def)

text \<open>
  C8 (as amended). Take two invocations of the engine, one after the other, on the same
  text and the same hints object, starting in any world that holds the arrays of the
  hints. The improved prompt of the second is that of the first. The detail objects,
  each read when its invocation has returned, are equal, and so is the blueprint they
  hold when project mode is on. The second invocation leaves the arrays of the first
  output as they are, and neither invocation changes an array that was there before, the
  arrays of the hints among them: the engine pushes onto arrays of its own only, so that
  nothing of one invocation reaches the next. Each output, read by content, is what
  \<open>improveIdea\<close> gives for the content of the hints and for the two clock readings of
  that invocation. The processing time is the difference of those two readings; it is the
  one part of the output that the two invocations need not share.
\<close>

theorem C8_two_invocations:
  assumes "hintsIn (refHintsOf ho) w"
  shows
    "case improveIdea_st raw ho w of (out1, w1) \<Rightarrow>
     case improveIdea_st raw ho w1 of (out2, w2) \<Rightarrow>
       o_improved out2 = o_improved out1
       \<and> detailsAt w2 (o_details out2) = detailsAt w1 (o_details out1)
       \<and> d_blueprint (o_details out2) = d_blueprint (o_details out1)
       \<and> detailsAt w2 (o_details out1) = detailsAt w1 (o_details out1)
       \<and> (\<forall>q < nextRef w. cells w2 q = cells w q)
       \<and> outputAt w1 out1
           = improveIdea (ticks w (tick w)) (ticks w (tick w + 1)) raw
               (Some (hintsAt w (refHintsOf ho)))
       \<and> outputAt w2 out2
           = improveIdea (ticks w (tick w + 2)) (ticks w (tick w + 3)) raw
               (Some (hintsAt w (refHintsOf ho)))
       \<and> o_processingMs out1 = ticks w (tick w + 1) - ticks w (tick w)
       \<and> o_processingMs out2 = ticks w (tick w + 3) - ticks w (tick w + 2)"
proof -
  let ?H = "hintsAt w (refHintsOf ho)"
  obtain out1 w1 where r1: "improveIdea_st raw ho w = (out1, w1)"
    and o1: "outputAt w1 out1 = improveIdea (ticks w (tick w)) (ticks w (Suc (tick w))) raw (Some ?H)"
    and n1: "nextRef w \<le> nextRef w1" and f1: "\<forall>q < nextRef w. cells w1 q = cells w q"
    and c1: "ticks w1 = ticks w" "tick w1 = Suc (Suc (tick w))"
    and d1: "list_all (\<lambda>r. nextRef w \<le> r \<and> r < nextRef w1) (detailRefs (o_details out1))"
    using improveIdea_st_refines [OF assms, of raw] by blast
  have h1: "hintsIn (refHintsOf ho) w1"
    using hintsIn_mono [OF assms n1] .
  have a1: "hintsAt w1 (refHintsOf ho) = ?H"
    using hintsAt_agree [OF assms f1] .
  obtain out2 w2 where r2: "improveIdea_st raw ho w1 = (out2, w2)"
    and o2: "outputAt w2 out2
        = improveIdea (ticks w1 (tick w1)) (ticks w1 (Suc (tick w1))) raw
            (Some (hintsAt w1 (refHintsOf ho)))"
    and f2: "\<forall>q < nextRef w1. cells w2 q = cells w1 q"
    using improveIdea_st_refines [OF h1, of raw] by blast
  have o2': "outputAt w2 out2
      = improveIdea (ticks w (tick w + 2)) (ticks w (tick w + 3)) raw (Some ?H)"
    using o2 by (simp add: c1 a1 numeral_3_eq_3)
  have i: "o_improved out2 = o_improved out1"
  proof -
    have "improved (outputAt w2 out2) = improved (outputAt w1 out1)"
      unfolding o1 o2' using improveIdea_readings by blast
    then show ?thesis
      by (simp add: outputAt_def)
  qed
  have d: "detailsAt w2 (o_details out2) = detailsAt w1 (o_details out1)"
  proof -
    have "details (outputAt w2 out2) = details (outputAt w1 out1)"
      unfolding o1 o2' using improveIdea_readings by blast
    then show ?thesis
      by (simp add: outputAt_def)
  qed
  have b: "d_blueprint (o_details out2) = d_blueprint (o_details out1)"
  proof -
    have "blueprint (detailsAt w2 (o_details out2)) = blueprint (detailsAt w1 (o_details out1))"
      using d by simp
    then show ?thesis
      by (simp add: detailsAt_def)
  qed
  have k: "detailsAt w2 (o_details out1) = detailsAt w1 (o_details out1)"
  proof (rule detailsAt_agree [OF _ f2])
    show "list_all (\<lambda>r. r < nextRef w1) (detailRefs (o_details out1))"
      using d1 by (simp add: list_all_iff)
  qed
  have f: "\<forall>q < nextRef w. cells w2 q = cells w q"
    using f1 f2 n1 by auto
  have p1: "o_processingMs out1 = ticks w (tick w + 1) - ticks w (tick w)"
  proof -
    have "processingMs (outputAt w1 out1) = ticks w (Suc (tick w)) - ticks w (tick w)"
      unfolding o1 using improveIdea_readings by blast
    then show ?thesis
      by (simp add: outputAt_def)
  qed
  have p2: "o_processingMs out2 = ticks w (tick w + 3) - ticks w (tick w + 2)"
  proof -
    have "processingMs (outputAt w2 out2) = ticks w (tick w + 3) - ticks w (tick w + 2)"
      unfolding o2' using improveIdea_readings by blast
    then show ?thesis
      by (simp add: outputAt_def)
  qed
  show ?thesis
    using i d b k f o1 o2' p1 p2 by (simp add: r1 r2)
qed

lemma hello_audience:
  "audience (details (improveIdea t0 t1 (S ''hello'') (Some (hintsAt worldA refHintsA))))
     = [S ''Prospective customers and early adopters'', S ''Kids'']"
  by (simp add: improveIdea_def Let_def details_of_def hintsOf_def hintsAt_def worldA_def
      refHintsA_def noRefHints_def audience_merged_def audience_classified_def audienceHints_def
      mergeHint_def pushIf_def fromSet_def regex_eval)

theorem C8_witness:
  "hintsIn (refHintsOf (Some refHintsA)) worldA
   \<and> o_improved (fst secondRun) = o_improved (fst firstRun)
   \<and> detailsAt (snd secondRun) (o_details (fst secondRun))
       = detailsAt (snd firstRun) (o_details (fst firstRun))
   \<and> audience (detailsAt (snd firstRun) (o_details (fst firstRun)))
       = [S ''Prospective customers and early adopters'', S ''Kids'']
   \<and> cells (snd secondRun) 0 = [[], S ''Kids'', S ''Kids'']
   \<and> o_processingMs (fst firstRun) = 0
   \<and> o_processingMs (fst secondRun) = 5"
proof -
  have h: "hintsIn (refHintsOf (Some refHintsA)) worldA"
    by (simp add: hintsIn_def hintArrays_def refHintsOf_def refHintsA_def noRefHints_def
        worldA_def)
  have a: "refHintsOf (Some refHintsA) = refHintsA"
    by (simp add: refHintsOf_def)
  have "audience (details (outputAt (snd firstRun) (fst firstRun)))
      = [S ''Prospective customers and early adopters'', S ''Kids'']"
    using C8_two_invocations [OF h, of "S ''hello''"] hello_audience
    by (simp add: split_def firstRun_def secondRun_def a)
  then have "audience (detailsAt (snd firstRun) (o_details (fst firstRun)))
      = [S ''Prospective customers and early adopters'', S ''Kids'']"
    by (simp add: outputAt_def)
  moreover have "cells (snd secondRun) 0 = cells worldA 0"
    using C8_two_invocations [OF h, of "S ''hello''"]
    by (simp add: split_def firstRun_def secondRun_def worldA_def)
  ultimately show ?thesis
    using h C8_two_invocations [OF h, of "S ''hello''"]
    by (simp add: split_def firstRun_def secondRun_def worldA_def)
qed

text \<open>
  C8 as stated fails: the two invocations of the example, on the same text and the same
  hints, report different processing times (0 and 5 milliseconds), because the clock
  moves between the two readings of the second and not between those of the first.
\<close>

theorem C8_counterexample:
  "o_processingMs (fst firstRun) = 0 \<and> o_processingMs (fst secondRun) = 5
   \<and> o_processingMs (fst firstRun) \<noteq> o_processingMs (fst secondRun)"
proof -
  have h: "hintsIn (refHintsOf (Some refHintsA)) worldA"
    by (simp add: hintsIn_def hintArrays_def refHintsOf_def refHintsA_def noRefHints_def
        worldA_def)
  obtain out1 w1 where r1: "improveIdea_st (S ''hello'') (Some refHintsA) worldA = (out1, w1)"
    and o1: "outputAt w1 out1
        = improveIdea (ticks worldA (tick worldA)) (ticks worldA (Suc (tick worldA)))
            (S ''hello'') (Some (hintsAt worldA (refHintsOf (Some refHintsA))))"
    and n1: "nextRef worldA \<le> nextRef w1"
    and c1: "ticks w1 = ticks worldA" "tick w1 = Suc (Suc (tick worldA))"
    using improveIdea_st_refines [OF h, of "S ''hello''"] by blast
  obtain out2 w2 where r2: "improveIdea_st (S ''hello'') (Some refHintsA) w1 = (out2, w2)"
    and o2: "outputAt w2 out2
        = improveIdea (ticks w1 (tick w1)) (ticks w1 (Suc (tick w1)))
            (S ''hello'') (Some (hintsAt w1 (refHintsOf (Some refHintsA))))"
    using improveIdea_st_refines [OF hintsIn_mono [OF h n1], of "S ''hello''"] by blast
  have "processingMs (outputAt w1 out1) = 0"
    unfolding o1 by (simp add: improveIdea_def Let_def worldA_def)
  moreover have "processingMs (outputAt w2 out2) = 5"
    unfolding o2 by (simp add: improveIdea_def Let_def c1 worldA_def)
  ultimately show ?thesis
    by (simp add: firstRun_def secondRun_def r1 r2 outputAt_def)
qed
section \<open>C1: hints on scalar fields\<close>

lemma toLowerCase_siteTypeName: "toLowerCase (siteTypeName t) = siteTypeName t"
  by (cases t) (simp_all add: toLowerCase_def toLowerUnit_def S_def)

lemma siteTypeName_allowed: "siteTypeName t \<in> set allowed"
  by (cases t) (simp_all add: allowed_def)

lemma siteTypeOfName_siteTypeName: "siteTypeOfName (siteTypeName t) = Some t"
  by (cases t) (simp_all add: siteTypeOfName_def)

lemma siteTypeName_nonempty: "siteTypeName t \<noteq> []"
  by (cases t) simp_all

lemma siteType_hint_wins:
  "h_siteType h = Some (siteTypeName t) \<Longrightarrow> siteType_merged h lower = t"
  by (simp add: siteType_merged_def Let_def toLowerCase_siteTypeName siteTypeName_allowed
      siteTypeOfName_siteTypeName siteTypeName_nonempty)

text \<open>
  C1 (as amended). A hint replaces the classified value of \<open>siteType\<close> (a name of the
  enumeration), of \<open>currency\<close> (a non-empty string), of \<open>requiresPayments\<close> (either
  boolean) and of \<open>outputLang\<close> (\<open>en\<close> or \<open>ar\<close>). A \<open>projectMode\<close> hint of true forces
  project mode; a \<open>projectMode\<close> hint of false changes nothing: the result is what the
  engine gives without that hint, so project keywords in the text still switch it on.
\<close>

theorem C1_scalar_hints:
  "(h_siteType h = Some (siteTypeName t)
      \<longrightarrow> siteType (details (improveIdea t0 t1 raw (Some h))) = t)
   \<and> (h_currency h = Some c \<and> c \<noteq> []
      \<longrightarrow> currency (details (improveIdea t0 t1 raw (Some h))) = c)
   \<and> (h_requiresPayments h = Some b
      \<longrightarrow> requiresPayments (details (improveIdea t0 t1 raw (Some h))) = b)
   \<and> (h_outputLang h = Some (S ''ar'')
      \<longrightarrow> outputLang (details (improveIdea t0 t1 raw (Some h))) = Ar)
   \<and> (h_outputLang h = Some (S ''en'')
      \<longrightarrow> outputLang (details (improveIdea t0 t1 raw (Some h))) = En)
   \<and> (h_projectMode h = Some True
      \<longrightarrow> projectMode (details (improveIdea t0 t1 raw (Some h))))
   \<and> (h_projectMode h = Some False
      \<longrightarrow> projectMode (details (improveIdea t0 t1 raw (Some h)))
          = projectMode (details (improveIdea t0 t1 raw (Some (h\<lparr>h_projectMode := None\<rparr>)))))"
  by (simp add: improveIdea_def Let_def details_of_def hintsOf_def siteType_hint_wins
      currency_merged_def requiresPaymentsFinal_def lang_def projectMode_merged_def)

theorem C1_witness:
  "siteType (details (improveIdea 0 0 (S ''A SaaS shop, pay in USD'') (Some hintsA))) = Blog
   \<and> currency (details (improveIdea 0 0 (S ''A SaaS shop, pay in USD'') (Some hintsA))) = S ''EGP''
   \<and> requiresPayments (details (improveIdea 0 0 (S ''A SaaS shop, pay in USD'') (Some hintsA)))
       = False
   \<and> outputLang (details (improveIdea 0 0 (S ''A SaaS shop, pay in USD'') (Some hintsA))) = Ar
   \<and> projectMode (details (improveIdea 0 0 (S ''A SaaS shop, pay in USD'') (Some hintsA)))
   \<and> outputLang (details (improveIdea 0 0 (S ''A SaaS shop, pay in USD'') (Some hintsB))) = En
   \<and> projectMode (details (improveIdea 0 0 (S ''A SaaS shop, pay in USD'') (Some hintsB)))
       = projectMode (details (improveIdea 0 0 (S ''A SaaS shop, pay in USD'')
           (Some (hintsB\<lparr>h_projectMode := None\<rparr>))))"
  using C1_scalar_hints [of hintsA Blog 0 0 "S ''A SaaS shop, pay in USD''" "S ''EGP''" False]
    C1_scalar_hints [of hintsB Blog 0 0 "S ''A SaaS shop, pay in USD''" "S ''EGP''" False]
  by (simp add: hintsA_def hintsB_def noHints_def)

text \<open>
  C1 as stated fails on \<open>projectMode\<close>: the text \<open>project\<close> with the hint
  \<open>projectMode = false\<close> still gives project mode.
\<close>

lemma project_matches: "test projectRe (toLowerCase (trim (S ''project'')))"
  by (simp add: regex_eval projectRe_def)

theorem C1_counterexample:
  "projectMode (details (improveIdea 0 0 (S ''project'')
     (Some (noHints\<lparr>h_projectMode := Some False\<rparr>)))) \<noteq> False"
  using project_matches
  by (simp add: improveIdea_def Let_def details_of_def hintsOf_def projectMode_merged_def
      projectMode_classified_def noHints_def)

section \<open>C2: when payments are required\<close>

lemma checkout_not_default: "S ''E-commerce checkout'' \<notin> set (defaultFeaturesByType st)"
  by (cases st) simp_all

lemma checkout_selected_iff:
  "S ''E-commerce checkout'' \<in> set (selectedFeatures_of h lower)
     \<longleftrightarrow> S ''E-commerce checkout'' \<in> set (features_merged h lower)"
  by (simp add: selectedFeatures_of_def checkout_not_default)

text \<open>
  C2 (as amended). When the hints set \<open>requiresPayments\<close>, the merged value is the
  hinted boolean, true or false. When they do not, it is true if and only if the
  e-commerce-checkout label is among the selected features or the payment pattern matches
  the lower-cased text.
\<close>

theorem C2_requiresPayments:
  "requiresPayments (details (improveIdea t0 t1 raw ho))
     = (case h_requiresPayments (hintsOf ho) of
          Some b \<Rightarrow> b
        | None \<Rightarrow>
            S ''E-commerce checkout'' \<in> set (selectedFeatures (details (improveIdea t0 t1 raw ho)))
            \<or> test paymentRe (toLowerCase (trim raw)))"
  by (simp add: improveIdea_def Let_def details_of_def requiresPaymentsFinal_def
      requiresPayments_of_def checkout_selected_iff split: option.splits)

lemma checkout_text_pays: "test paymentRe (toLowerCase (trim (S ''checkout'')))"
  by (simp add: regex_eval paymentRe_def)

theorem C2_witness:
  "requiresPayments (details (improveIdea 0 0 (S ''checkout'') None))
   \<and> \<not> requiresPayments (details (improveIdea 0 0 (S ''checkout'')
         (Some (noHints\<lparr>h_requiresPayments := Some False\<rparr>))))"
  using C2_requiresPayments [of 0 0 "S ''checkout''" None]
    C2_requiresPayments [of 0 0 "S ''checkout''"
      "Some (noHints\<lparr>h_requiresPayments := Some False\<rparr>)"]
    checkout_text_pays
  by (simp add: hintsOf_def noHints_def)

text \<open>
  C2 as stated fails: on the text \<open>checkout\<close> with the hint \<open>requiresPayments = false\<close>
  the payment pattern matches, yet the merged value is false.
\<close>

theorem C2_counterexample:
  "test paymentRe (toLowerCase (trim (S ''checkout'')))
   \<and> \<not> requiresPayments (details (improveIdea 0 0 (S ''checkout'')
         (Some (noHints\<lparr>h_requiresPayments := Some False\<rparr>))))"
  using checkout_text_pays
  by (simp add: improveIdea_def Let_def details_of_def hintsOf_def requiresPaymentsFinal_def
      noHints_def)

section \<open>C3: site-type detection\<close>

lemma siteType_classified_firstCategory: "siteType_classified lower = firstCategory lower"
  by (simp add: siteType_classified_def firstCategory_def categoryTests_def)

text \<open>
  C3 (as amended). The classifier's site type (what the engine reports when no site-type
  hint is given) is the category of the first test, in the order saas, ecommerce,
  portfolio, restaurant, blog, event, booking, whose pattern matches the lower-cased text,
  and generic when none matches. Its name is one of the eight names of the enumeration.
  A text that matches the ecommerce and the blog pattern is never a blog: it is ecommerce
  when the saas pattern, which is tested first, does not match, and saas when it does.
\<close>

theorem C3_siteType_first_match:
  "siteType (details (improveIdea t0 t1 raw None)) = firstCategory (toLowerCase (trim raw))
   \<and> siteType_classified lower = firstCategory lower
   \<and> siteTypeName (siteType_classified lower) \<in> set allowed
   \<and> distinct allowed \<and> length allowed = 8
   \<and> (test ecommerceRe lower \<and> test blogRe lower \<and> \<not> test saasRe lower
        \<longrightarrow> siteType_classified lower = Ecommerce)
   \<and> (test ecommerceRe lower \<and> test blogRe lower \<and> test saasRe lower
        \<longrightarrow> siteType_classified lower = Saas)
   \<and> (list_all (\<lambda>(t, r). \<not> test r lower) categoryTests
        \<longrightarrow> siteType_classified lower = Generic)"
proof -
  have "siteType (details (improveIdea t0 t1 raw None)) = firstCategory (toLowerCase (trim raw))"
    by (simp add: improveIdea_def Let_def details_of_def hintsOf_def noHints_def
        siteType_merged_def siteType_classified_firstCategory)
  moreover have "distinct allowed \<and> length allowed = 8"
    by (simp add: allowed_def)
  moreover have "list_all (\<lambda>(t, r). \<not> test r lower) categoryTests
      \<longrightarrow> siteType_classified lower = Generic"
    by (simp add: siteType_classified_def categoryTests_def)
  ultimately show ?thesis
    by (simp add: siteType_classified_firstCategory [symmetric] siteTypeName_allowed)
      (simp add: siteType_classified_def)
qed

lemma shop_blog_tests:
  "test ecommerceRe (S ''shop blog'') \<and> test blogRe (S ''shop blog'')
   \<and> \<not> test saasRe (S ''shop blog'')"
  by (simp add: regex_eval ecommerceRe_def blogRe_def saasRe_def)

lemma saas_shop_blog_tests:
  "test ecommerceRe (S ''saas shop blog'') \<and> test blogRe (S ''saas shop blog'')
   \<and> test saasRe (S ''saas shop blog'')"
  by (simp add: regex_eval ecommerceRe_def blogRe_def saasRe_def)

lemma empty_text_tests: "list_all (\<lambda>(t, r). \<not> test r []) categoryTests"
  by (simp add: regex_eval categoryTests_def saasRe_def ecommerceRe_def portfolioRe_def
      restaurantRe_def blogRe_def eventRe_def bookingRe_def)

theorem C3_witness:
  "siteType_classified (S ''shop blog'') = Ecommerce
   \<and> siteType_classified (S ''saas shop blog'') = Saas
   \<and> siteType_classified [] = Generic"
proof -
  have "siteType_classified (S ''shop blog'') = Ecommerce"
    using C3_siteType_first_match [of 0 0 "[]" "S ''shop blog''"] shop_blog_tests by blast
  moreover have "siteType_classified (S ''saas shop blog'') = Saas"
    using C3_siteType_first_match [of 0 0 "[]" "S ''saas shop blog''"] saas_shop_blog_tests
    by blast
  moreover have "siteType_classified [] = Generic"
    using C3_siteType_first_match [of 0 0 "[]" "[]"] empty_text_tests by blast
  ultimately show ?thesis by blast
qed

text \<open>
  C3 as stated fails: the text \<open>saas shop blog\<close> matches both the ecommerce and the
  blog pattern, and the engine classifies it as saas, not as ecommerce.
\<close>

theorem C3_counterexample:
  "test ecommerceRe (toLowerCase (trim (S ''saas shop blog'')))
   \<and> test blogRe (toLowerCase (trim (S ''saas shop blog'')))
   \<and> siteType (details (improveIdea 0 0 (S ''saas shop blog'') None)) = Saas
   \<and> siteType (details (improveIdea 0 0 (S ''saas shop blog'') None)) \<noteq> Ecommerce"
proof -
  have l: "toLowerCase (trim (S ''saas shop blog'')) = S ''saas shop blog''"
    by (simp add: regex_eval)
  have "siteType (details (improveIdea 0 0 (S ''saas shop blog'') None)) = Saas"
    using saas_shop_blog_tests
    by (simp add: improveIdea_def Let_def details_of_def hintsOf_def noHints_def
        siteType_merged_def siteType_classified_def l)
  then show ?thesis
    using saas_shop_blog_tests by (simp add: l)
qed
section \<open>C6: the sitemap and its slugs\<close>




lemma join_Cons: "join sep (x # xs) = (if xs = [] then x else x @ sep @ join sep xs)"
  by (cases xs) simp_all











section \<open>The set-valued fields: no duplicates, no empty strings, fallbacks\<close>

lemma okSet_distinct: "okSet xs \<Longrightarrow> distinct xs"
  by (simp add: okSet_def)

lemma okSet_no_Nil: "okSet xs \<Longrightarrow> [] \<notin> set xs"
  by (simp add: okSet_def)

lemma okSet_fromSet: "[] \<notin> set xs \<Longrightarrow> okSet (fromSet xs)"
  by (simp add: okSet_def)

lemma okSet_mergeHint: "okSet arr \<Longrightarrow> okSet (mergeHint arr h)"
  by (simp add: okSet_def distinct_mergeHint Nil_notin_mergeHint)

lemma okSet_pushEach: "okSet (arr @ map snd ps) \<Longrightarrow> okSet (pushEach ps arr)"
  unfolding okSet_def using distinct_pushEach [of arr ps] set_pushEach_subset [of ps arr]
  by auto

lemma okSet_pushIf: "okSet arr \<Longrightarrow> x \<noteq> [] \<Longrightarrow> (c \<Longrightarrow> x \<notin> set arr) \<Longrightarrow> okSet (pushIf c x arr)"
  by (auto simp: okSet_def pushIf_def)

lemma okSet_pushNew: "okSet arr \<Longrightarrow> x \<noteq> [] \<Longrightarrow> okSet (pushNew x arr)"
  by (simp add: pushNew_def okSet_pushIf)

lemma okSet_fallback: "okSet arr \<Longrightarrow> x \<noteq> [] \<Longrightarrow> okSet (pushIf (length arr = 0) x arr)"
  by (rule okSet_pushIf) auto

lemma fallback_nonempty: "pushIf (length arr = 0) x arr \<noteq> []"
  by (simp add: pushIf_def)

lemma Nil_notin_labels: "[] \<notin> snd ` set table \<Longrightarrow> [] \<notin> set (map snd (filter P table))"
  by force

lemma audienceHints_labels: "[] \<notin> snd ` set audienceHints"
  by (simp add: audienceHints_def)

lemma featureMap_labels: "[] \<notin> snd ` set featureMap"
  by (simp add: featureMap_def)

lemma industryMap_labels: "[] \<notin> snd ` set industryMap"
  by (simp add: industryMap_def)

lemma regionMap_labels: "[] \<notin> snd ` set regionMap"
  by (simp add: regionMap_def)

lemma audience_classified_ok: "okSet (audience_classified lower)"
  by (simp add: audience_classified_def Let_def okSet_fromSet Nil_notin_labels
      audienceHints_labels del: set_map set_filter)

lemma audience_classified_nonempty: "audience_classified lower \<noteq> []"
  by (simp add: audience_classified_def Let_def)

lemma audience_ok: "okSet (audience_merged h lower)"
  by (simp add: audience_merged_def okSet_mergeHint audience_classified_ok)

lemma audience_nonempty: "audience_merged h lower \<noteq> []"
  by (simp add: audience_merged_def mergeHint_nonempty audience_classified_nonempty)

lemma toneWords_classified_ok: "okSet (toneWords_classified lower)"
proof -
  have "okSet (pushEach
      [(contains lower (Re playfulRe), S ''playful''), (contains lower (Re minimalRe),
        S ''minimal''),
       (contains lower (Re premiumRe), S ''premium''), (contains lower (Re boldRe), S ''bold''),
       (contains lower (Re friendlyRe), S ''friendly''),
       (contains lower (Re confidentRe), S ''confident''),
       (contains lower (Re conciseRe), S ''concise'')] [])"
    by (rule okSet_pushEach) (simp add: okSet_def)
  moreover have "okSet [S ''friendly'', S ''confident'', S ''concise'']"
    by (simp add: okSet_def)
  ultimately show ?thesis
    by (simp add: toneWords_classified_def Let_def)
qed

lemma toneWords_classified_nonempty: "toneWords_classified lower \<noteq> []"
  by (simp add: toneWords_classified_def Let_def)

lemma toneWords_ok: "okSet (toneWords_merged h lower)"
  by (simp add: toneWords_merged_def okSet_mergeHint toneWords_classified_ok)

lemma toneWords_nonempty: "toneWords_merged h lower \<noteq> []"
  by (simp add: toneWords_merged_def mergeHint_nonempty toneWords_classified_nonempty)

lemma features_classified_ok: "okSet (features_classified lower)"
  by (simp add: features_classified_def okSet_fromSet Nil_notin_labels featureMap_labels
      del: set_map set_filter)

lemma features_ok: "okSet (features_merged h lower)"
  by (simp add: features_merged_def okSet_mergeHint features_classified_ok)

lemma defaultFeatures_ok: "okSet (defaultFeaturesByType st) \<and> defaultFeaturesByType st \<noteq> []"
  by (cases st) (simp_all add: okSet_def)

lemma sections_ok: "okSet (sectionsByType st) \<and> sectionsByType st \<noteq> []"
  by (cases st) (simp_all add: okSet_def)

lemma selectedFeatures_ok: "okSet (selectedFeatures_of h lower)"
  using defaultFeatures_ok [of "siteType_merged h lower"] features_ok [of h lower]
  by (simp add: selectedFeatures_of_def okSet_def)

lemma selectedFeatures_nonempty: "selectedFeatures_of h lower \<noteq> []"
  using defaultFeatures_ok [of "siteType_merged h lower"]
  by (simp add: selectedFeatures_of_def)

lemma industries_classified_ok: "okSet (industries_classified lower)"
  unfolding industries_classified_def Let_def
  by (rule okSet_fallback)
    (simp_all add: okSet_fromSet Nil_notin_labels industryMap_labels del: set_map set_filter)

lemma industries_ok: "okSet (industries_merged h lower)"
  by (simp add: industries_merged_def okSet_mergeHint industries_classified_ok)

lemma industries_nonempty: "industries_merged h lower \<noteq> []"
  unfolding industries_merged_def industries_classified_def Let_def
  by (intro mergeHint_nonempty fallback_nonempty)

lemma regions_classified_ok: "okSet (regions_classified lower)"
  unfolding regions_classified_def Let_def
  by (rule okSet_fallback)
    (simp_all add: okSet_fromSet Nil_notin_labels regionMap_labels del: set_map set_filter)

lemma regions_ok: "okSet (regions_merged h lower)"
  by (simp add: regions_merged_def okSet_mergeHint regions_classified_ok)

lemma regions_nonempty: "regions_merged h lower \<noteq> []"
  unfolding regions_merged_def regions_classified_def Let_def
  by (intro mergeHint_nonempty fallback_nonempty)

lemma languages_classified_ok: "okSet (languages_classified lower)"
  by (simp add: languages_classified_def okSet_fromSet)

lemma languages_ok: "okSet (languages_merged h lower)"
  by (simp add: languages_merged_def okSet_mergeHint languages_classified_ok)

lemma languages_nonempty: "languages_merged h lower \<noteq> []"
  by (simp add: languages_merged_def languages_classified_def mergeHint_nonempty)

lemma compliance_classified_ok: "okSet (compliance_classified lower)"
  unfolding compliance_classified_def by (rule okSet_pushEach) (simp add: okSet_def)

lemma compliance_ok: "okSet (compliance_merged h lower)"
  by (simp add: compliance_merged_def okSet_mergeHint compliance_classified_ok)

lemma pagesByType_ok: "okSet (pagesByType st) \<and> pagesByType st \<noteq> []"
  by (cases st) (simp_all add: okSet_def)

lemma pages_classified_ok: "okSet (pages_classified h lower)"
  unfolding pages_classified_def Let_def
proof (rule okSet_pushIf)
  show "okSet (fromSet (pagesByType (siteType_merged h lower)))"
    using pagesByType_ok [of "siteType_merged h lower"] by (simp add: okSet_def)
qed simp_all

lemma pages_classified_nonempty: "pages_classified h lower \<noteq> []"
  using pagesByType_ok [of "siteType_merged h lower"]
  by (simp add: pages_classified_def Let_def pushIf_def)

lemma pages_ok: "okSet (pages_merged h lower)"
  by (simp add: pages_merged_def Let_def okSet_pushNew okSet_mergeHint pages_classified_ok)

lemma pages_nonempty: "pages_merged h lower \<noteq> []"
  by (simp add: pages_merged_def Let_def pushNew_def pushIf_def mergeHint_nonempty
      pages_classified_nonempty)

lemma sitemap_distinct: "distinct ps \<Longrightarrow> distinct (sitemap_of ps)"
  by (simp add: sitemap_of_def distinct_map inj_on_def)

lemma userStoriesByType_ok: "[] \<notin> set (userStoriesByType st)"
  by (cases st) simp_all

lemma userStories_classified_ok: "okSet (userStories_classified h lower)"
  by (simp add: userStories_classified_def okSet_fromSet userStoriesByType_ok userStoriesBase_def)

lemma userStories_ok: "okSet (userStories_merged h lower)"
  by (simp add: userStories_merged_def okSet_mergeHint userStories_classified_ok)

lemma userStories_nonempty: "userStories_merged h lower \<noteq> []"
  by (simp add: userStories_merged_def userStories_classified_def mergeHint_nonempty
      userStoriesBase_def)

lemma Nil_notin_pushEach:
  "[] \<notin> set arr \<Longrightarrow> [] \<notin> snd ` set ps \<Longrightarrow> [] \<notin> set (pushEach ps arr)"
  by (auto simp: pushEach_eq)

lemma techSuggestions_classified_ok: "okSet (techSuggestions_classified h lower)"
  unfolding techSuggestions_classified_def
proof (rule okSet_fromSet, rule Nil_notin_pushEach)
  show "[] \<notin> set techBase" by (simp add: techBase_def)
qed simp

lemma techSuggestions_ok: "okSet (techSuggestions_merged h lower)"
  by (simp add: techSuggestions_merged_def okSet_mergeHint techSuggestions_classified_ok)

lemma techSuggestions_nonempty: "techSuggestions_merged h lower \<noteq> []"
  by (simp add: techSuggestions_merged_def techSuggestions_classified_def mergeHint_nonempty
      pushEach_eq techBase_def del: pushEach.simps)

lemma nonFunctional_ok: "okSet (nonFunctional_of lower) \<and> nonFunctional_of lower \<noteq> []"
  by (simp add: nonFunctional_of_def okSet_def)

lemma kpisByType_ok: "okSet (kpisByType st) \<and> kpisByType st \<noteq> []"
  by (cases st) (simp_all add: okSet_def)

lemma kpis_ok: "okSet (kpis_merged h lower)"
  by (simp add: kpis_merged_def okSet_mergeHint kpisByType_ok)

lemma kpis_nonempty: "kpis_merged h lower \<noteq> []"
  by (simp add: kpis_merged_def mergeHint_nonempty kpisByType_ok)

lemma contentChecklistBase_ok: "okSet contentChecklistBase"
  by (simp add: contentChecklistBase_def okSet_def)

lemma contentChecklist_ok: "okSet (contentChecklist_merged h)"
  by (simp add: contentChecklist_merged_def okSet_mergeHint contentChecklistBase_ok)

lemma contentChecklist_nonempty: "contentChecklist_merged h \<noteq> []"
  by (simp add: contentChecklist_merged_def mergeHint_nonempty contentChecklistBase_def)

lemma milestonesBase_ok: "okSet milestonesBase"
  by (simp add: milestonesBase_def okSet_def)

lemma milestones_ok: "okSet (milestones_merged h)"
  by (simp add: milestones_merged_def okSet_mergeHint milestonesBase_ok)

lemma milestones_nonempty: "milestones_merged h \<noteq> []"
  by (simp add: milestones_merged_def mergeHint_nonempty milestonesBase_def)

lemma personasBase_ok: "okSet personasBase"
  by (simp add: personasBase_def okSet_def)

lemma personas_ok: "okSet (personas_merged h)"
  by (simp add: personas_merged_def okSet_mergeHint personasBase_ok)

lemma personas_nonempty: "personas_merged h \<noteq> []"
  by (simp add: personas_merged_def mergeHint_nonempty personasBase_def)

lemma clarifyingQuestions_ok: "okSet (clarifyingQuestions_of h lower)"
  unfolding clarifyingQuestions_of_def Let_def
  by (rule okSet_pushEach) (simp add: okSet_def clarifyingQuestionsBase_def)

lemma clarifyingQuestions_nonempty: "clarifyingQuestions_of h lower \<noteq> []"
  by (simp add: clarifyingQuestions_of_def Let_def pushEach_eq clarifyingQuestionsBase_def
      del: pushEach.simps)

section \<open>C5: non-empty and deduplicated fields\<close>

lemma no_feature_in_hello: "features_classified (toLowerCase (trim (S ''hello''))) = []"
  by (simp add: features_classified_def featureMap_def regex_eval fromSet_def)

lemma no_compliance_in_hello: "compliance_classified (toLowerCase (trim (S ''hello''))) = []"
  by (simp add: compliance_classified_def gdprRe_def hipaaRe_def pciRe_def soc2Re_def regex_eval
      pushIf_def)

text \<open>
  C5 (as amended). For every text and any hints, the merged \<open>audience\<close>, \<open>tone\<close>,
  \<open>industries\<close>, \<open>regions\<close>, \<open>languages\<close>, \<open>pages\<close> and \<open>sitemap\<close> are non-empty, and
  so is every other list of the feature vector except \<open>compliance\<close> and
  \<open>detectedFeatures\<close>; every list of the feature vector is free of duplicates. The two
  exceptions do occur: the text \<open>hello\<close> without hints leaves both lists empty.
\<close>

theorem C5_nonempty_and_distinct:
  "audience (details (improveIdea t0 t1 raw ho)) \<noteq> []
   \<and> tone (details (improveIdea t0 t1 raw ho)) \<noteq> []
   \<and> industries (details (improveIdea t0 t1 raw ho)) \<noteq> []
   \<and> regions (details (improveIdea t0 t1 raw ho)) \<noteq> []
   \<and> languages (details (improveIdea t0 t1 raw ho)) \<noteq> []
   \<and> pages (details (improveIdea t0 t1 raw ho)) \<noteq> []
   \<and> sitemap (details (improveIdea t0 t1 raw ho)) \<noteq> []
   \<and> suggestedSections (details (improveIdea t0 t1 raw ho)) \<noteq> []
   \<and> defaultFeatures (details (improveIdea t0 t1 raw ho)) \<noteq> []
   \<and> selectedFeatures (details (improveIdea t0 t1 raw ho)) \<noteq> []
   \<and> userStories (details (improveIdea t0 t1 raw ho)) \<noteq> []
   \<and> techSuggestions (details (improveIdea t0 t1 raw ho)) \<noteq> []
   \<and> nonFunctional (details (improveIdea t0 t1 raw ho)) \<noteq> []
   \<and> kpis (details (improveIdea t0 t1 raw ho)) \<noteq> []
   \<and> contentChecklist (details (improveIdea t0 t1 raw ho)) \<noteq> []
   \<and> milestones (details (improveIdea t0 t1 raw ho)) \<noteq> []
   \<and> personas (details (improveIdea t0 t1 raw ho)) \<noteq> []
   \<and> clarifyingQuestions (details (improveIdea t0 t1 raw ho)) \<noteq> []
   \<and> distinct (audience (details (improveIdea t0 t1 raw ho)))
   \<and> distinct (tone (details (improveIdea t0 t1 raw ho)))
   \<and> distinct (industries (details (improveIdea t0 t1 raw ho)))
   \<and> distinct (regions (details (improveIdea t0 t1 raw ho)))
   \<and> distinct (languages (details (improveIdea t0 t1 raw ho)))
   \<and> distinct (pages (details (improveIdea t0 t1 raw ho)))
   \<and> distinct (sitemap (details (improveIdea t0 t1 raw ho)))
   \<and> distinct (compliance (details (improveIdea t0 t1 raw ho)))
   \<and> distinct (detectedFeatures (details (improveIdea t0 t1 raw ho)))
   \<and> distinct (suggestedSections (details (improveIdea t0 t1 raw ho)))
   \<and> distinct (defaultFeatures (details (improveIdea t0 t1 raw ho)))
   \<and> distinct (selectedFeatures (details (improveIdea t0 t1 raw ho)))
   \<and> distinct (userStories (details (improveIdea t0 t1 raw ho)))
   \<and> distinct (techSuggestions (details (improveIdea t0 t1 raw ho)))
   \<and> distinct (nonFunctional (details (improveIdea t0 t1 raw ho)))
   \<and> distinct (kpis (details (improveIdea t0 t1 raw ho)))
   \<and> distinct (contentChecklist (details (improveIdea t0 t1 raw ho)))
   \<and> distinct (milestones (details (improveIdea t0 t1 raw ho)))
   \<and> distinct (personas (details (improveIdea t0 t1 raw ho)))
   \<and> distinct (clarifyingQuestions (details (improveIdea t0 t1 raw ho)))
   \<and> compliance (details (improveIdea t0 t1 (S ''hello'') None)) = []
   \<and> detectedFeatures (details (improveIdea t0 t1 (S ''hello'') None)) = []"
proof -
  have "sitemap_of (pages_merged h lower) \<noteq> []" for h lower
    using pages_nonempty [of h lower] by (simp add: sitemap_of_def)
  moreover have "compliance_merged (hintsOf None) (toLowerCase (trim (S ''hello''))) = []"
    by (simp add: compliance_merged_def hintsOf_def noHints_def mergeHint_def
        no_compliance_in_hello)
  moreover have "features_merged (hintsOf None) (toLowerCase (trim (S ''hello''))) = []"
    by (simp add: features_merged_def hintsOf_def noHints_def mergeHint_def no_feature_in_hello)
  ultimately show ?thesis
    unfolding improveIdea_def Let_def details_of_def
    by (simp add: audience_nonempty toneWords_nonempty industries_nonempty regions_nonempty
        languages_nonempty pages_nonempty sections_ok defaultFeatures_ok
        selectedFeatures_nonempty userStories_nonempty techSuggestions_nonempty
        nonFunctional_ok kpis_nonempty contentChecklist_nonempty milestones_nonempty
        personas_nonempty clarifyingQuestions_nonempty sitemap_distinct
        okSet_distinct [OF audience_ok] okSet_distinct [OF toneWords_ok]
        okSet_distinct [OF industries_ok] okSet_distinct [OF regions_ok]
        okSet_distinct [OF languages_ok] okSet_distinct [OF pages_ok]
        okSet_distinct [OF compliance_ok] okSet_distinct [OF features_ok]
        okSet_distinct [OF conjunct1 [OF sections_ok]]
        okSet_distinct [OF conjunct1 [OF defaultFeatures_ok]]
        okSet_distinct [OF selectedFeatures_ok] okSet_distinct [OF userStories_ok]
        okSet_distinct [OF techSuggestions_ok]
        okSet_distinct [OF conjunct1 [OF nonFunctional_ok]]
        okSet_distinct [OF kpis_ok] okSet_distinct [OF contentChecklist_ok]
        okSet_distinct [OF milestones_ok] okSet_distinct [OF personas_ok]
        okSet_distinct [OF clarifyingQuestions_ok])
qed

theorem C5_witness:
  "audience (details (improveIdea 0 0 [] None)) \<noteq> []
   \<and> pages (details (improveIdea 0 0 [] None)) \<noteq> []
   \<and> sitemap (details (improveIdea 0 0 [] None)) \<noteq> []
   \<and> distinct (pages (details (improveIdea 0 0 [] None)))
   \<and> distinct (audience (details (improveIdea 0 0 (S ''hello'') (Some hintsC))))"
  using C5_nonempty_and_distinct [of 0 0 "[]" None]
    C5_nonempty_and_distinct [of 0 0 "S ''hello''" "Some hintsC"]
  by simp

text \<open>
  C5 as stated fails on its last part: \<open>compliance\<close> is not the only list that may be
  empty. The text \<open>hello\<close> without hints has no detected feature.
\<close>

theorem C5_counterexample:
  "detectedFeatures (details (improveIdea 0 0 (S ''hello'') None)) = []"
  using no_feature_in_hello
  by (simp add: improveIdea_def Let_def details_of_def hintsOf_def noHints_def
      features_merged_def mergeHint_def)

section \<open>C7: hints on set-valued fields\<close>

lemma mergeHint_None [simp]: "mergeHint arr None = arr"
  by (simp add: mergeHint_def)

lemma hintUnion_setInsertAll: "distinct base \<Longrightarrow> hintUnion base h (setInsertAll base (hinted h))"
  by (simp add: hintUnion_def setInsertAll_prefix setInsertAll_set setInsertAll_distinct)

lemma hintUnion_split: "merged = mergeHint base hf \<Longrightarrow> okSet base \<Longrightarrow> hintUnion base hf merged"
  by (simp add: mergeHint_eq hintUnion_setInsertAll okSet_distinct)

lemma audience_union:
  "hintUnion (audience_merged (h\<lparr>h_audience := None\<rparr>) lower) (h_audience h)
     (audience_merged h lower)"
  by (rule hintUnion_split) (simp_all add: audience_merged_def audience_classified_ok)

lemma toneWords_union:
  "hintUnion (toneWords_merged (h\<lparr>h_tone := None\<rparr>) lower) (h_tone h) (toneWords_merged h lower)"
  by (rule hintUnion_split) (simp_all add: toneWords_merged_def toneWords_classified_ok)

lemma features_union:
  "hintUnion (features_merged (h\<lparr>h_features := None\<rparr>) lower) (h_features h)
     (features_merged h lower)"
  by (rule hintUnion_split) (simp_all add: features_merged_def features_classified_ok)

lemma industries_union:
  "hintUnion (industries_merged (h\<lparr>h_industries := None\<rparr>) lower) (h_industries h)
     (industries_merged h lower)"
  by (rule hintUnion_split) (simp_all add: industries_merged_def industries_classified_ok)

lemma regions_union:
  "hintUnion (regions_merged (h\<lparr>h_regions := None\<rparr>) lower) (h_regions h)
     (regions_merged h lower)"
  by (rule hintUnion_split) (simp_all add: regions_merged_def regions_classified_ok)

lemma languages_union:
  "hintUnion (languages_merged (h\<lparr>h_languages := None\<rparr>) lower) (h_languages h)
     (languages_merged h lower)"
  by (rule hintUnion_split) (simp_all add: languages_merged_def languages_classified_ok)

lemma compliance_union:
  "hintUnion (compliance_merged (h\<lparr>h_compliance := None\<rparr>) lower) (h_compliance h)
     (compliance_merged h lower)"
  by (rule hintUnion_split) (simp_all add: compliance_merged_def compliance_classified_ok)

lemma siteType_merged_cong:
  "h_siteType h' = h_siteType h \<Longrightarrow> siteType_merged h' lower = siteType_merged h lower"
  by (simp add: siteType_merged_def)

lemma features_merged_cong:
  "h_features h' = h_features h \<Longrightarrow> features_merged h' lower = features_merged h lower"
  by (simp add: features_merged_def)

lemma requiresPaymentsFinal_cong:
  "h_features h' = h_features h \<Longrightarrow> h_requiresPayments h' = h_requiresPayments h
     \<Longrightarrow> requiresPaymentsFinal h' lower = requiresPaymentsFinal h lower"
  by (simp add: requiresPaymentsFinal_def requiresPayments_of_def features_merged_def
      split: option.splits)

lemma userStories_union:
  "hintUnion (userStories_merged (h\<lparr>h_userStories := None\<rparr>) lower) (h_userStories h)
     (userStories_merged h lower)"
proof (rule hintUnion_split)
  have "siteType_merged (h\<lparr>h_userStories := None\<rparr>) lower = siteType_merged h lower"
    by (rule siteType_merged_cong) simp
  then show "userStories_merged h lower
      = mergeHint (userStories_merged (h\<lparr>h_userStories := None\<rparr>) lower) (h_userStories h)"
    by (simp add: userStories_merged_def userStories_classified_def)
qed (rule userStories_ok)

lemma techSuggestions_union:
  "hintUnion (techSuggestions_merged (h\<lparr>h_tech := None\<rparr>) lower) (h_tech h)
     (techSuggestions_merged h lower)"
proof (rule hintUnion_split)
  have "requiresPaymentsFinal (h\<lparr>h_tech := None\<rparr>) lower = requiresPaymentsFinal h lower"
    by (rule requiresPaymentsFinal_cong) simp_all
  moreover have "features_merged (h\<lparr>h_tech := None\<rparr>) lower = features_merged h lower"
    by (rule features_merged_cong) simp
  ultimately show "techSuggestions_merged h lower
      = mergeHint (techSuggestions_merged (h\<lparr>h_tech := None\<rparr>) lower) (h_tech h)"
    by (simp add: techSuggestions_merged_def techSuggestions_classified_def)
qed (rule techSuggestions_ok)

lemma kpis_union:
  "hintUnion (kpis_merged (h\<lparr>h_kpis := None\<rparr>) lower) (h_kpis h) (kpis_merged h lower)"
proof (rule hintUnion_split)
  have "siteType_merged (h\<lparr>h_kpis := None\<rparr>) lower = siteType_merged h lower"
    by (rule siteType_merged_cong) simp
  then show "kpis_merged h lower = mergeHint (kpis_merged (h\<lparr>h_kpis := None\<rparr>) lower) (h_kpis h)"
    by (simp add: kpis_merged_def)
qed (rule kpis_ok)

lemma contentChecklist_union:
  "hintUnion (contentChecklist_merged (h\<lparr>h_contentChecklist := None\<rparr>)) (h_contentChecklist h)
     (contentChecklist_merged h)"
  by (rule hintUnion_split) (simp_all add: contentChecklist_merged_def contentChecklistBase_ok)

lemma milestones_union:
  "hintUnion (milestones_merged (h\<lparr>h_milestones := None\<rparr>)) (h_milestones h)
     (milestones_merged h)"
  by (rule hintUnion_split) (simp_all add: milestones_merged_def milestonesBase_ok)

lemma personas_union:
  "hintUnion (personas_merged (h\<lparr>h_personas := None\<rparr>)) (h_personas h) (personas_merged h)"
  by (rule hintUnion_split) (simp_all add: personas_merged_def personasBase_ok)

lemma fromSet_append_merge:
  "fromSet (ds @ mergeHint fs hf) = setInsertAll (fromSet (ds @ fs)) (hinted hf)"
  by (simp add: fromSet_def mergeHint_eq setInsertAll_append setInsertAll_idem)

lemma selectedFeatures_union:
  "hintUnion (selectedFeatures_of (h\<lparr>h_features := None\<rparr>) lower) (h_features h)
     (selectedFeatures_of h lower)"
proof -
  have st: "siteType_merged (h\<lparr>h_features := None\<rparr>) lower = siteType_merged h lower"
    by (rule siteType_merged_cong) simp
  have "selectedFeatures_of h lower
      = setInsertAll (selectedFeatures_of (h\<lparr>h_features := None\<rparr>) lower) (hinted (h_features h))"
    by (simp add: selectedFeatures_of_def st features_merged_def fromSet_append_merge)
  then show ?thesis
    using hintUnion_setInsertAll [OF okSet_distinct [OF selectedFeatures_ok]] by simp
qed

lemma pages_union:
  "set (pages_merged h lower)
     = set (pages_merged (h\<lparr>h_pages := None\<rparr>) lower) \<union> set (hinted (h_pages h))
   \<and> distinct (pages_merged h lower)"
proof -
  have "siteType_merged (h\<lparr>h_pages := None\<rparr>) lower = siteType_merged h lower"
    by (rule siteType_merged_cong) simp
  moreover have "features_merged (h\<lparr>h_pages := None\<rparr>) lower = features_merged h lower"
    by (rule features_merged_cong) simp
  ultimately have "pages_classified (h\<lparr>h_pages := None\<rparr>) lower = pages_classified h lower"
    by (simp add: pages_classified_def)
  moreover have "requiresPaymentsFinal (h\<lparr>h_pages := None\<rparr>) lower = requiresPaymentsFinal h lower"
    by (rule requiresPaymentsFinal_cong) simp_all
  ultimately have "set (pages_merged h lower)
      = set (pages_merged (h\<lparr>h_pages := None\<rparr>) lower) \<union> set (hinted (h_pages h))"
    by (auto simp: pages_merged_def Let_def pushNew_def pushIf_def set_mergeHint)
  then show ?thesis
    using okSet_distinct [OF pages_ok] by simp
qed

lemma pages_without_payments:
  "pages_merged (h\<lparr>h_requiresPayments := Some False\<rparr>) lower
     = mergeHint (pages_classified h lower) (h_pages h)"
proof -
  have "siteType_merged (h\<lparr>h_requiresPayments := Some False\<rparr>) lower = siteType_merged h lower"
    by (rule siteType_merged_cong) simp
  moreover have "features_merged (h\<lparr>h_requiresPayments := Some False\<rparr>) lower
      = features_merged h lower"
    by (rule features_merged_cong) simp
  ultimately have "pages_classified (h\<lparr>h_requiresPayments := Some False\<rparr>) lower
      = pages_classified h lower"
    by (simp add: pages_classified_def)
  then show ?thesis
    by (simp add: pages_merged_def requiresPaymentsFinal_def)
qed

lemma pages_hints_then_payments:
  "hintUnion (pages_merged (h\<lparr>h_pages := None, h_requiresPayments := Some False\<rparr>) lower)
     (h_pages h) (pages_merged (h\<lparr>h_requiresPayments := Some False\<rparr>) lower)
   \<and> prefix (pages_merged (h\<lparr>h_requiresPayments := Some False\<rparr>) lower)
       (pages_merged h lower)
   \<and> set (pages_merged h lower)
       \<subseteq> set (pages_merged (h\<lparr>h_requiresPayments := Some False\<rparr>) lower)
         \<union> {S ''Billing'', S ''Checkout''}"
proof -
  have "siteType_merged (h\<lparr>h_pages := None\<rparr>) lower = siteType_merged h lower"
    by (rule siteType_merged_cong) simp
  moreover have "features_merged (h\<lparr>h_pages := None\<rparr>) lower = features_merged h lower"
    by (rule features_merged_cong) simp
  ultimately have c: "pages_classified (h\<lparr>h_pages := None\<rparr>) lower = pages_classified h lower"
    by (simp add: pages_classified_def)
  have "hintUnion (pages_classified h lower) (h_pages h)
      (mergeHint (pages_classified h lower) (h_pages h))"
    by (rule hintUnion_split) (simp_all add: pages_classified_ok)
  then have one: "hintUnion
      (pages_merged (h\<lparr>h_pages := None, h_requiresPayments := Some False\<rparr>) lower)
      (h_pages h) (pages_merged (h\<lparr>h_requiresPayments := Some False\<rparr>) lower)"
    using pages_without_payments [of "h\<lparr>h_pages := None\<rparr>" lower] c
    by (simp add: pages_without_payments)
  have two: "prefix (pages_merged (h\<lparr>h_requiresPayments := Some False\<rparr>) lower)
      (pages_merged h lower)"
    unfolding pages_without_payments
    by (simp add: pages_merged_def Let_def pushNew_def pushIf_def)
  have three: "set (pages_merged h lower)
      \<subseteq> set (pages_merged (h\<lparr>h_requiresPayments := Some False\<rparr>) lower)
        \<union> {S ''Billing'', S ''Checkout''}"
    unfolding pages_without_payments
    by (auto simp: pages_merged_def Let_def pushNew_def pushIf_def)
  from one two three show ?thesis by blast
qed

text \<open>
  C7 (as amended). For each set-valued hint, compare the merged field with the field
  the engine produces when that one hint is left out (its other hints unchanged). For
  \<open>audience\<close>, \<open>tone\<close>, \<open>features\<close> (in \<open>detectedFeatures\<close> and in \<open>selectedFeatures\<close>),
  \<open>industries\<close>, \<open>regions\<close>, \<open>languages\<close>, \<open>compliance\<close>, \<open>userStories\<close>, \<open>tech\<close>,
  \<open>contentChecklist\<close>, \<open>milestones\<close>, \<open>personas\<close> and \<open>kpis\<close>, the merged list starts
  with that list, holds exactly its entries and the non-empty entries of the hint, and
  holds no entry twice. For \<open>pages\<close> the entries are again those of the list without
  the hint and the non-empty entries of the hint, none twice; the same union holds, with
  the hinted pages last, for the pages the engine lists when payments are hinted off, and
  the pages of the engine are those, followed by the payment pages \<open>Billing\<close> and
  \<open>Checkout\<close> it adds.
\<close>

theorem C7_hint_union:
  "hintUnion (audience (details (improveIdea t0 t1 raw (Some (h\<lparr>h_audience := None\<rparr>)))))
     (h_audience h) (audience (details (improveIdea t0 t1 raw (Some h))))
   \<and> hintUnion (tone (details (improveIdea t0 t1 raw (Some (h\<lparr>h_tone := None\<rparr>)))))
     (h_tone h) (tone (details (improveIdea t0 t1 raw (Some h))))
   \<and> hintUnion (detectedFeatures (details (improveIdea t0 t1 raw (Some (h\<lparr>h_features := None\<rparr>)))))
     (h_features h) (detectedFeatures (details (improveIdea t0 t1 raw (Some h))))
   \<and> hintUnion (selectedFeatures (details (improveIdea t0 t1 raw (Some (h\<lparr>h_features := None\<rparr>)))))
     (h_features h) (selectedFeatures (details (improveIdea t0 t1 raw (Some h))))
   \<and> hintUnion (industries (details (improveIdea t0 t1 raw (Some (h\<lparr>h_industries := None\<rparr>)))))
     (h_industries h) (industries (details (improveIdea t0 t1 raw (Some h))))
   \<and> hintUnion (regions (details (improveIdea t0 t1 raw (Some (h\<lparr>h_regions := None\<rparr>)))))
     (h_regions h) (regions (details (improveIdea t0 t1 raw (Some h))))
   \<and> hintUnion (languages (details (improveIdea t0 t1 raw (Some (h\<lparr>h_languages := None\<rparr>)))))
     (h_languages h) (languages (details (improveIdea t0 t1 raw (Some h))))
   \<and> hintUnion (compliance (details (improveIdea t0 t1 raw (Some (h\<lparr>h_compliance := None\<rparr>)))))
     (h_compliance h) (compliance (details (improveIdea t0 t1 raw (Some h))))
   \<and> hintUnion (userStories (details (improveIdea t0 t1 raw (Some (h\<lparr>h_userStories := None\<rparr>)))))
     (h_userStories h) (userStories (details (improveIdea t0 t1 raw (Some h))))
   \<and> hintUnion (techSuggestions (details (improveIdea t0 t1 raw (Some (h\<lparr>h_tech := None\<rparr>)))))
     (h_tech h) (techSuggestions (details (improveIdea t0 t1 raw (Some h))))
   \<and> hintUnion
     (contentChecklist (details (improveIdea t0 t1 raw (Some (h\<lparr>h_contentChecklist := None\<rparr>)))))
     (h_contentChecklist h) (contentChecklist (details (improveIdea t0 t1 raw (Some h))))
   \<and> hintUnion (milestones (details (improveIdea t0 t1 raw (Some (h\<lparr>h_milestones := None\<rparr>)))))
     (h_milestones h) (milestones (details (improveIdea t0 t1 raw (Some h))))
   \<and> hintUnion (personas (details (improveIdea t0 t1 raw (Some (h\<lparr>h_personas := None\<rparr>)))))
     (h_personas h) (personas (details (improveIdea t0 t1 raw (Some h))))
   \<and> hintUnion (kpis (details (improveIdea t0 t1 raw (Some (h\<lparr>h_kpis := None\<rparr>)))))
     (h_kpis h) (kpis (details (improveIdea t0 t1 raw (Some h))))
   \<and> set (pages (details (improveIdea t0 t1 raw (Some h))))
     = set (pages (details (improveIdea t0 t1 raw (Some (h\<lparr>h_pages := None\<rparr>)))))
       \<union> set (hinted (h_pages h))
   \<and> distinct (pages (details (improveIdea t0 t1 raw (Some h))))
   \<and> hintUnion
     (pages (details (improveIdea t0 t1 raw
        (Some (h\<lparr>h_pages := None, h_requiresPayments := Some False\<rparr>)))))
     (h_pages h)
     (pages (details (improveIdea t0 t1 raw (Some (h\<lparr>h_requiresPayments := Some False\<rparr>)))))
   \<and> prefix (pages (details (improveIdea t0 t1 raw (Some (h\<lparr>h_requiresPayments := Some False\<rparr>)))))
       (pages (details (improveIdea t0 t1 raw (Some h))))
   \<and> set (pages (details (improveIdea t0 t1 raw (Some h))))
       \<subseteq> set (pages (details (improveIdea t0 t1 raw
             (Some (h\<lparr>h_requiresPayments := Some False\<rparr>)))))
         \<union> {S ''Billing'', S ''Checkout''}"
  unfolding improveIdea_def Let_def details_of_def hintsOf_def
  using pages_union [of h "toLowerCase (trim raw)"]
    pages_hints_then_payments [of h "toLowerCase (trim raw)"]
  by (simp add: audience_union toneWords_union features_union selectedFeatures_union
      industries_union regions_union languages_union compliance_union userStories_union
      techSuggestions_union contentChecklist_union milestones_union personas_union kpis_union)

theorem C7_witness:
  "prefix (audience (details (improveIdea 0 0 (S ''hello'') (Some (hintsC\<lparr>h_audience := None\<rparr>)))))
     (audience (details (improveIdea 0 0 (S ''hello'') (Some hintsC))))
   \<and> S ''Kids'' \<in> set (audience (details (improveIdea 0 0 (S ''hello'') (Some hintsC))))
   \<and> distinct (audience (details (improveIdea 0 0 (S ''hello'') (Some hintsC))))
   \<and> S ''Zed'' \<in> set (pages (details (improveIdea 0 0 (S ''hello'') (Some hintsC))))"
  using C7_hint_union [of 0 0 "S ''hello''" hintsC]
  by (simp add: hintUnion_def hinted_def hintsC_def noHints_def)

lemma stripe_text:
  "siteType_classified (toLowerCase (trim (S ''stripe''))) = Generic
   \<and> features_classified (toLowerCase (trim (S ''stripe''))) = []
   \<and> test paymentRe (toLowerCase (trim (S ''stripe'')))"
  by (simp add: siteType_classified_def features_classified_def featureMap_def fromSet_def
      regex_eval saasRe_def ecommerceRe_def portfolioRe_def restaurantRe_def blogRe_def
      eventRe_def bookingRe_def paymentRe_def)

lemma stripe_pages:
  "pages (details (improveIdea 0 0 (S ''stripe'') (Some (noHints\<lparr>h_pages := Some [S ''Zed'']\<rparr>))))
     = [S ''Home'', S ''About'', S ''Features'', S ''Pricing'', S ''Contact'', S ''Blog'',
        S ''Zed'', S ''Billing'', S ''Checkout'']"
  using stripe_text
  by (simp add: improveIdea_def Let_def details_of_def hintsOf_def noHints_def pages_merged_def
      pages_classified_def siteType_merged_def features_merged_def requiresPaymentsFinal_def
      requiresPayments_of_def mergeHint_def pushNew_def pushIf_def fromSet_def)

text \<open>
  C7 as stated fails. The hint \<open>audience = ["", "Kids", "Kids"]\<close> has the empty
  string as an entry, and the merged audience does not contain it. And on the text
  \<open>stripe\<close>, whose payment pages come from the text alone, the hinted page \<open>Zed\<close> is not
  after them.
\<close>

theorem C7_counterexample:
  "\<not> set [[], S ''Kids'', S ''Kids'']
       \<subseteq> set (audience (details (improveIdea 0 0 (S ''hello'')
           (Some (noHints\<lparr>h_audience := Some [[], S ''Kids'', S ''Kids'']\<rparr>)))))
   \<and> pages (details (improveIdea 0 0 (S ''stripe'') (Some (noHints\<lparr>h_pages := Some [S ''Zed'']\<rparr>))))
     = [S ''Home'', S ''About'', S ''Features'', S ''Pricing'', S ''Contact'', S ''Blog'',
        S ''Zed'', S ''Billing'', S ''Checkout'']"
  using okSet_no_Nil [OF audience_ok] stripe_pages
  by (simp add: improveIdea_def Let_def details_of_def hintsOf_def)

section \<open>C9: detected and selected features\<close>

lemma features_classified_set:
  "set (features_classified lower) = {v. \<exists>k. (k, v) \<in> set featureMap \<and> test k lower}"
  by (force simp: features_classified_def)

text \<open>
  C9 (as amended). The classifier's features are exactly the labels of \<open>featureMap\<close>
  whose patterns match the lower-cased text, each once. \<open>detectedFeatures\<close> is that list
  followed by the non-empty hinted features that are not in it yet, so it is a function of
  the text alone only when no feature is hinted. \<open>selectedFeatures\<close> is the deduplicated,
  order-preserving union of the default features of the site type, the matched labels and
  the hinted features.
\<close>

theorem C9_detected_and_selected:
  "set (features_classified lower) = {v. \<exists>k. (k, v) \<in> set featureMap \<and> test k lower}
   \<and> distinct (features_classified lower)
   \<and> detectedFeatures (details (improveIdea t0 t1 raw None))
     = features_classified (toLowerCase (trim raw))
   \<and> hintUnion (features_classified (toLowerCase (trim raw))) (h_features h)
       (detectedFeatures (details (improveIdea t0 t1 raw (Some h))))
   \<and> selectedFeatures (details (improveIdea t0 t1 raw (Some h)))
     = fromSet (defaultFeaturesByType (siteType (details (improveIdea t0 t1 raw (Some h))))
         @ features_classified (toLowerCase (trim raw)) @ hinted (h_features h))
   \<and> selectedFeatures (details (improveIdea t0 t1 raw (Some h)))
     = fromSet (defaultFeatures (details (improveIdea t0 t1 raw (Some h)))
         @ detectedFeatures (details (improveIdea t0 t1 raw (Some h))))"
proof -
  have "hintUnion (features_classified lw) (h_features h) (features_merged h lw)" for lw
    by (rule hintUnion_split) (simp_all add: features_merged_def features_classified_ok)
  moreover have "fromSet (ds @ mergeHint fs hf) = fromSet (ds @ fs @ hinted hf)" for ds fs hf
    by (simp add: fromSet_def mergeHint_eq setInsertAll_append setInsertAll_idem)
  ultimately show ?thesis
    by (simp add: improveIdea_def Let_def details_of_def hintsOf_def noHints_def
        features_classified_set okSet_distinct [OF features_classified_ok]
        selectedFeatures_of_def features_merged_def)
qed

theorem C9_witness:
  "set (detectedFeatures (details (improveIdea 0 0 (S ''hello'')
       (Some (noHints\<lparr>h_features := Some [S ''Wishlist'', []]\<rparr>)))))
     = set (features_classified (toLowerCase (trim (S ''hello'')))) \<union> {S ''Wishlist''}
   \<and> detectedFeatures (details (improveIdea 0 0 (S ''hello'') None))
     = features_classified (toLowerCase (trim (S ''hello'')))"
  using C9_detected_and_selected [of "[]" 0 0 "S ''hello''"
      "noHints\<lparr>h_features := Some [S ''Wishlist'', []]\<rparr>"]
  by (simp add: hintUnion_def hinted_def noHints_def)

text \<open>
  C9 as stated fails: no feature pattern matches the text \<open>hello\<close>, and the hinted
  feature is reported among the detected ones.
\<close>

theorem C9_counterexample:
  "features_classified (toLowerCase (trim (S ''hello''))) = []
   \<and> detectedFeatures (details (improveIdea 0 0 (S ''hello'')
       (Some (noHints\<lparr>h_features := Some [S ''Wishlist'']\<rparr>)))) = [S ''Wishlist'']"
  using no_feature_in_hello
  by (simp add: improveIdea_def Let_def details_of_def hintsOf_def noHints_def
      features_merged_def mergeHint_def pushIf_def)

section \<open>C10: empty strings in hints\<close>

text \<open>
  C10. No set-valued field of the merged feature vector that takes hints holds the
  empty string, whatever the hint arrays contain; and an empty-string currency hint
  leaves the currency the engine gives without a currency hint.
\<close>

theorem C10_empty_strings_skipped:
  "[] \<notin> set (audience (details (improveIdea t0 t1 raw (Some h))))
   \<and> [] \<notin> set (tone (details (improveIdea t0 t1 raw (Some h))))
   \<and> [] \<notin> set (detectedFeatures (details (improveIdea t0 t1 raw (Some h))))
   \<and> [] \<notin> set (selectedFeatures (details (improveIdea t0 t1 raw (Some h))))
   \<and> [] \<notin> set (industries (details (improveIdea t0 t1 raw (Some h))))
   \<and> [] \<notin> set (regions (details (improveIdea t0 t1 raw (Some h))))
   \<and> [] \<notin> set (languages (details (improveIdea t0 t1 raw (Some h))))
   \<and> [] \<notin> set (compliance (details (improveIdea t0 t1 raw (Some h))))
   \<and> [] \<notin> set (pages (details (improveIdea t0 t1 raw (Some h))))
   \<and> [] \<notin> set (userStories (details (improveIdea t0 t1 raw (Some h))))
   \<and> [] \<notin> set (techSuggestions (details (improveIdea t0 t1 raw (Some h))))
   \<and> [] \<notin> set (kpis (details (improveIdea t0 t1 raw (Some h))))
   \<and> [] \<notin> set (contentChecklist (details (improveIdea t0 t1 raw (Some h))))
   \<and> [] \<notin> set (milestones (details (improveIdea t0 t1 raw (Some h))))
   \<and> [] \<notin> set (personas (details (improveIdea t0 t1 raw (Some h))))
   \<and> (h_currency h = Some []
        \<longrightarrow> currency (details (improveIdea t0 t1 raw (Some h)))
            = currency (details (improveIdea t0 t1 raw (Some (h\<lparr>h_currency := None\<rparr>)))))"
  unfolding improveIdea_def Let_def details_of_def hintsOf_def
  by (simp add: okSet_no_Nil [OF audience_ok] okSet_no_Nil [OF toneWords_ok]
      okSet_no_Nil [OF features_ok] okSet_no_Nil [OF selectedFeatures_ok]
      okSet_no_Nil [OF industries_ok] okSet_no_Nil [OF regions_ok]
      okSet_no_Nil [OF languages_ok] okSet_no_Nil [OF compliance_ok]
      okSet_no_Nil [OF pages_ok] okSet_no_Nil [OF userStories_ok]
      okSet_no_Nil [OF techSuggestions_ok] okSet_no_Nil [OF kpis_ok]
      okSet_no_Nil [OF contentChecklist_ok] okSet_no_Nil [OF milestones_ok]
      okSet_no_Nil [OF personas_ok] currency_merged_def)

theorem C10_witness:
  "[] \<notin> set (audience (details (improveIdea 0 0 (S ''hello'') (Some hintsC))))
   \<and> [] \<notin> set (pages (details (improveIdea 0 0 (S ''hello'') (Some hintsC))))
   \<and> currency (details (improveIdea 0 0 (S ''hello'') (Some hintsC)))
     = currency (details (improveIdea 0 0 (S ''hello'') (Some (hintsC\<lparr>h_currency := None\<rparr>))))"
  using C10_empty_strings_skipped [of 0 0 "S ''hello''" hintsC]
  by (simp add: hintsC_def noHints_def)

section \<open>C4: the Arabic scenario\<close>

lemma ar_trim: "trim ideaAr = ideaAr"
  by (simp add: ideaAr_def trim_def isWhiteSpace_def)

lemma ar_lower: "toLowerCase ideaAr = ideaAr"
  by (simp add: ideaAr_def toLowerCase_def toLowerUnit_def)

lemma ar_siteType: "siteType_classified ideaAr = Ecommerce"
  by (simp add: siteType_classified_def saasRe_def ecommerceRe_def ideaAr_def regex_eval)

lemma ar_no_region: "filter (\<lambda>(k, v). test k ideaAr) regionMap = []"
  by (simp add: filter_empty_conv regionMap_def) (simp add: ideaAr_def regex_eval)

lemma ar_regions: "regions_classified ideaAr = [S ''Global'']"
  by (simp add: regions_classified_def Let_def ar_no_region fromSet_def pushIf_def)

lemma ar_currency: "currency_classified ideaAr = S ''USD''"
  by (simp add: currency_classified_def currencyHints_def ideaAr_def regex_eval)

lemma ar_checkout: "S ''E-commerce checkout'' \<in> set (features_classified ideaAr)"
proof -
  have "test (Alt [Lit (S ''checkout''), Lit (S ''cart''), Lit (S ''buy''), Lit (S ''sell''),
    Lit (S ''product''), Lit [0x627, 0x644, 0x62F, 0x641, 0x639], Lit [0x633, 0x644, 0x629],
    Lit [0x634, 0x631, 0x627, 0x621], Lit [0x628, 0x64A, 0x639], Lit [0x645, 0x646, 0x62A,
    0x62C]]) ideaAr"
    by (simp add: ideaAr_def regex_eval)
  moreover have "(Alt [Lit (S ''checkout''), Lit (S ''cart''), Lit (S ''buy''), Lit (S ''sell''),
    Lit (S ''product''), Lit [0x627, 0x644, 0x62F, 0x641, 0x639], Lit [0x633, 0x644, 0x629],
    Lit [0x634, 0x631, 0x627, 0x621], Lit [0x628, 0x64A, 0x639], Lit [0x645, 0x646, 0x62A,
    0x62C]],
      S ''E-commerce checkout'') \<in> set featureMap"
    by (simp add: featureMap_def)
  ultimately show ?thesis
    unfolding features_classified_set by blast
qed

lemma ar_statedGoal: "statedGoal_of ideaAr \<noteq> []"
  by (simp add: statedGoal_of_def ideaAr_def replaceRuns_def isWhiteSpace_def)

lemma objectPrototype_nonempty: "map_of objectPrototype k = Some m \<Longrightarrow> m \<noteq> []"
  by (auto simp add: objectPrototype_def nativeFunction_def S_def split: if_splits)

lemma orKey_nonempty: "k \<noteq> [] \<Longrightarrow> orKey table k \<noteq> []"
  by (auto simp add: orKey_def objectPrototype_nonempty split: option.splits)

lemma H_nonempty: "k \<noteq> [] \<Longrightarrow> H l k \<noteq> []"
  by (simp add: H_def orKey_nonempty)

lemma join_nonempty: "xs \<noteq> [] \<Longrightarrow> hd xs \<noteq> [] \<Longrightarrow> join sep xs \<noteq> []"
  by (cases xs) (simp_all add: join_Cons)

lemma bullets_nonempty:
  "primaryGoalsBullets l \<noteq> [] \<and> contentCtasBullets l \<noteq> [] \<and> visualStyleBullets l \<noteq> []"
  by (simp add: primaryGoalsBullets_def contentCtasBullets_def visualStyleBullets_def)

lemma overviewLine_nonempty: "overviewLine l t a \<noteq> []"
  by (simp add: overviewLine_def)

lemma sectionsOut_nonempty:
  "join nl (map (\<lambda>s. S ''- '' @ mapSection l s) (sectionsByType st)) \<noteq> []"
  using sections_ok [of st] by (intro join_nonempty) (simp_all add: hd_map)

lemma featuresOut_nonempty:
  "join nl (map (\<lambda>f. S ''- '' @ f) (selectedFeatures_of h lower)) \<noteq> []"
  using selectedFeatures_nonempty [of h lower] by (intro join_nonempty) (simp_all add: hd_map)

text \<open>
  The improved prompt, for every input: the empty strings of the array are filtered
  out, so it is nine headings, each followed by its body (the last pair only for a
  non-empty idea), joined by line feeds.
\<close>

lemma improved_structure:
  "improved_of h idea lower =
     join nl
       ([H (lang h) (S ''Project overview''),
         overviewLine (lang h)
           (if lang h = Ar then typeLabelAr (siteType_merged h lower)
            else typeLabel (siteType_merged h lower))
           (mapAudienceOut (lang h) (audience_merged h lower)),
         H (lang h) (S ''Target audience''),
         S ''- '' @ join (nl @ S ''- '') (mapAudienceOut (lang h) (audience_merged h lower)),
         H (lang h) (S ''Primary goals''),
         primaryGoalsBullets (lang h),
         H (lang h) (S ''Tone & voice''),
         S ''- '' @ join (S '', '') (mapToneOut (lang h) (toneWords_merged h lower)),
         H (lang h) (S ''Suggested site structure''),
         join nl (map (\<lambda>s. S ''- '' @ mapSection (lang h) s)
           (sectionsByType (siteType_merged h lower))),
         H (lang h) (S ''Key features''),
         join nl (map (\<lambda>f. S ''- '' @ f) (selectedFeatures_of h lower)),
         H (lang h) (S ''Content & CTAs''),
         contentCtasBullets (lang h),
         H (lang h) (S ''Visual style''),
         visualStyleBullets (lang h)]
        @ (if statedGoal_of idea \<noteq> []
           then [H (lang h) (S ''Notes from the original idea''), S ''- '' @ statedGoal_of idea]
           else []))"
  by (simp add: improved_of_def improvedParts_def Let_def H_nonempty bullets_nonempty
      overviewLine_nonempty sectionsOut_nonempty featuresOut_nonempty)

lemma ar_headings:
  "H Ar (S ''Project overview'') = [0x646, 0x638, 0x631, 0x629, 0x20, 0x639, 0x627, 0x645, 0x629,
    0x20, 0x639, 0x644, 0x649, 0x20, 0x627, 0x644, 0x645, 0x634, 0x631, 0x648, 0x639]
   \<and> H Ar (S ''Target audience'') = [0x627, 0x644, 0x62C, 0x645, 0x647, 0x648, 0x631, 0x20,
     0x627, 0x644, 0x645, 0x633, 0x62A, 0x647, 0x62F, 0x641]
   \<and> H Ar (S ''Primary goals'') = [0x627, 0x644, 0x623, 0x647, 0x62F, 0x627, 0x641, 0x20,
     0x627, 0x644, 0x631, 0x626, 0x64A, 0x633, 0x64A, 0x629]
   \<and> H Ar (S ''Tone & voice'') = [0x627, 0x644, 0x646, 0x628, 0x631, 0x629, 0x20, 0x648,
     0x627, 0x644, 0x623, 0x633, 0x644, 0x648, 0x628]
   \<and> H Ar (S ''Suggested site structure'') = [0x647, 0x64A, 0x643, 0x644, 0x20, 0x627,
     0x644, 0x645, 0x648, 0x642, 0x639, 0x20, 0x627, 0x644, 0x645, 0x642, 0x62A, 0x631, 0x62D]
   \<and> H Ar (S ''Key features'') = [0x627, 0x644, 0x645, 0x64A, 0x632, 0x627, 0x62A, 0x20,
     0x627, 0x644, 0x623, 0x633, 0x627, 0x633, 0x64A, 0x629]
   \<and> H Ar (S ''Content & CTAs'') = [0x627, 0x644, 0x645, 0x62D, 0x62A, 0x648, 0x649, 0x20,
     0x648, 0x627, 0x644, 0x62F, 0x639, 0x648, 0x627, 0x62A, 0x20, 0x644, 0x644, 0x625, 0x62C,
     0x631, 0x627, 0x621]
   \<and> H Ar (S ''Visual style'') = [0x627, 0x644, 0x623, 0x633, 0x644, 0x648, 0x628, 0x20,
     0x627, 0x644, 0x628, 0x635, 0x631, 0x64A]
   \<and> H Ar (S ''Notes from the original idea'') = [0x645, 0x644, 0x627, 0x62D, 0x638, 0x627,
     0x62A, 0x20, 0x645, 0x646, 0x20, 0x627, 0x644, 0x641, 0x643, 0x631, 0x629, 0x20, 0x627,
     0x644, 0x623, 0x635, 0x644, 0x64A, 0x629]"
  by (simp add: H_def orKey_def headingsAr_def)

lemma ar_fields:
  "lang hintsAr = Ar \<and> siteType_merged hintsAr ideaAr = Ecommerce
   \<and> regions_merged hintsAr ideaAr = [S ''Global'']
   \<and> currency_merged hintsAr ideaAr = S ''USD''
   \<and> requiresPaymentsFinal hintsAr ideaAr"
  using ar_checkout
  by (simp add: hintsAr_def noHints_def lang_def siteType_merged_def ar_siteType
      regions_merged_def ar_regions currency_merged_def ar_currency requiresPaymentsFinal_def
      requiresPayments_of_def features_merged_def)

text \<open>
  C4 (as amended). On the Arabic idea text with the hint \<open>outputLang = "ar"\<close> the engine
  gives the site type ecommerce, requires payments, and renders the nine headings of the
  improved prompt in Arabic. The regions are only \<open>Global\<close> and the currency is \<open>USD\<close>:
  the region patterns and the country names of the currency patterns are English, and the
  text names Egypt in Arabic.
\<close>

theorem C4_arabic_scenario:
  "siteType (details scenarioAr) = Ecommerce
   \<and> regions (details scenarioAr) = [S ''Global'']
   \<and> currency (details scenarioAr) = S ''USD''
   \<and> requiresPayments (details scenarioAr)
   \<and> outputLang (details scenarioAr) = Ar
   \<and> improved scenarioAr =
       join nl
         [[0x646, 0x638, 0x631, 0x629, 0x20, 0x639, 0x627, 0x645, 0x629, 0x20, 0x639, 0x644,
           0x649, 0x20, 0x627, 0x644, 0x645, 0x634, 0x631, 0x648, 0x639],
          overviewLine Ar (typeLabelAr Ecommerce)
            (mapAudienceOut Ar (audience (details scenarioAr))),
          [0x627, 0x644, 0x62C, 0x645, 0x647, 0x648, 0x631, 0x20, 0x627, 0x644, 0x645, 0x633,
            0x62A, 0x647, 0x62F, 0x641],
          S ''- '' @ join (nl @ S ''- '') (mapAudienceOut Ar (audience (details scenarioAr))),
          [0x627, 0x644, 0x623, 0x647, 0x62F, 0x627, 0x641, 0x20, 0x627, 0x644, 0x631, 0x626,
            0x64A, 0x633, 0x64A, 0x629],
          primaryGoalsBullets Ar,
          [0x627, 0x644, 0x646, 0x628, 0x631, 0x629, 0x20, 0x648, 0x627, 0x644, 0x623, 0x633,
            0x644, 0x648, 0x628],
          S ''- '' @ join (S '', '') (mapToneOut Ar (tone (details scenarioAr))),
          [0x647, 0x64A, 0x643, 0x644, 0x20, 0x627, 0x644, 0x645, 0x648, 0x642, 0x639, 0x20,
            0x627, 0x644, 0x645, 0x642, 0x62A, 0x631, 0x62D],
          join nl (map (\<lambda>s. S ''- ''
            @ mapSection Ar s) (suggestedSections (details scenarioAr))),
          [0x627, 0x644, 0x645, 0x64A, 0x632, 0x627, 0x62A, 0x20, 0x627, 0x644, 0x623, 0x633,
            0x627, 0x633, 0x64A, 0x629],
          join nl (map (\<lambda>f. S ''- '' @ f) (selectedFeatures (details scenarioAr))),
          [0x627, 0x644, 0x645, 0x62D, 0x62A, 0x648, 0x649, 0x20, 0x648, 0x627, 0x644, 0x62F,
            0x639, 0x648, 0x627, 0x62A, 0x20, 0x644, 0x644, 0x625, 0x62C, 0x631, 0x627, 0x621],
          contentCtasBullets Ar,
          [0x627, 0x644, 0x623, 0x633, 0x644, 0x648, 0x628, 0x20, 0x627, 0x644, 0x628, 0x635,
            0x631, 0x64A],
          visualStyleBullets Ar,
          [0x645, 0x644, 0x627, 0x62D, 0x638, 0x627, 0x62A, 0x20, 0x645, 0x646, 0x20, 0x627,
            0x644, 0x641, 0x643, 0x631, 0x629, 0x20, 0x627, 0x644, 0x623, 0x635, 0x644, 0x64A,
            0x629],
          S ''- '' @ statedGoal (details scenarioAr)]"
proof -
  have d: "details scenarioAr = details_of hintsAr ideaAr ideaAr"
    and i: "improved scenarioAr = improved_of hintsAr ideaAr ideaAr"
    by (simp_all add: scenarioAr_def improveIdea_def Let_def hintsOf_def ar_lower ar_trim)
  have f: "siteType (details scenarioAr) = Ecommerce"
    "regions (details scenarioAr) = [S ''Global'']"
    "currency (details scenarioAr) = S ''USD''"
    "outputLang (details scenarioAr) = Ar"
    "audience (details scenarioAr) = audience_merged hintsAr ideaAr"
    "tone (details scenarioAr) = toneWords_merged hintsAr ideaAr"
    "suggestedSections (details scenarioAr) = sectionsByType Ecommerce"
    "selectedFeatures (details scenarioAr) = selectedFeatures_of hintsAr ideaAr"
    "statedGoal (details scenarioAr) = statedGoal_of ideaAr"
    by (simp_all add: d details_of_def ar_fields)
  have rp: "requiresPayments (details scenarioAr)"
    by (simp add: d details_of_def ar_fields)
  show ?thesis
    unfolding f i improved_structure
    by (simp only: rp ar_fields ar_headings ar_statedGoal HOL.simp_thms if_True append.simps)
qed

text \<open>
  C4 as stated fails on the region and the currency: the scenario does not list Egypt
  among the regions, and its currency is not EGP.
\<close>

theorem C4_counterexample:
  "S ''Egypt'' \<notin> set (regions (details scenarioAr))
   \<and> currency (details scenarioAr) \<noteq> S ''EGP''"
  unfolding scenarioAr_def improveIdea_def Let_def hintsOf_def
  by (simp add: details_of_def ar_lower ar_trim ar_fields)

section \<open>The other scenarios of the specification\<close>

text \<open>
  The engine on the three remaining scenarios of the specification: the SaaS landing
  page, the empty idea, and the project text with a site-type hint.
\<close>

lemma saas_scenario_lower:
  "toLowerCase (trim (S ''A SaaS landing page for time tracking. Pricing, FAQ, testimonials, blog.''))
     = S ''a saas landing page for time tracking. pricing, faq, testimonials, blog.''"
  by (simp add: toLowerCase_def toLowerUnit_def trim_def isWhiteSpace_def S_def)

lemma filter_by_flags: "filter P xs = map fst (filter snd (zip xs (map P xs)))"
  by (induction xs) auto

lemma saas_scenario_flags:
  "map (\<lambda>(k, v). test k
       (S ''a saas landing page for time tracking. pricing, faq, testimonials, blog.''))
     featureMap
   = [True, True, True, False, True, False, False, False, False, False, False]"
  by (simp add: featureMap_def) (simp add: regex_eval)

lemma saas_scenario_features:
  "features_classified (S ''a saas landing page for time tracking. pricing, faq, testimonials, blog.'')
     = [S ''Pricing with clear plan comparison'', S ''FAQ'', S ''Blog'', S ''Testimonials'']"
proof -
  have "features_classified
      (S ''a saas landing page for time tracking. pricing, faq, testimonials, blog.'')
    = fromSet (map snd (map fst (filter snd (zip featureMap
        [True, True, True, False, True, False, False, False, False, False, False]))))"
    unfolding features_classified_def contains.simps saas_scenario_flags [symmetric]
    by (simp only: filter_by_flags [symmetric])
  then show ?thesis
    by (simp add: featureMap_def fromSet_def)
qed

lemma saas_scenario_siteType:
  "siteType_classified (S ''a saas landing page for time tracking. pricing, faq, testimonials, blog.'')
     = Saas"
  by (simp add: siteType_classified_def saasRe_def regex_eval)

lemma saas_scenario:
  "siteType (details (improveIdea 0 0
      (S ''A SaaS landing page for time tracking. Pricing, FAQ, testimonials, blog.'') None)) = Saas
   \<and> selectedFeatures (details (improveIdea 0 0
      (S ''A SaaS landing page for time tracking. Pricing, FAQ, testimonials, blog.'') None))
     = [S ''Hero with value proposition and primary CTA'', S ''Feature highlights'',
        S ''Social proof and testimonials'', S ''Pricing plans'', S ''FAQ'',
        S ''Footer with legal links'', S ''Pricing with clear plan comparison'', S ''Blog'',
        S ''Testimonials'']"
  by (simp add: improveIdea_def Let_def details_of_def hintsOf_def noHints_def
      saas_scenario_lower siteType_merged_def saas_scenario_siteType selectedFeatures_of_def
      features_merged_def saas_scenario_features fromSet_def)

lemma empty_scenario:
  "siteType (details (improveIdea 0 0 [] None)) = Generic
   \<and> audience (details (improveIdea 0 0 [] None))
     = [S ''Prospective customers and early adopters'']
   \<and> statedGoal (details (improveIdea 0 0 [] None)) = []"
proof -
  have "filter (\<lambda>(k, v). str_includes [] k) audienceHints = []"
    by (simp add: filter_empty_conv audienceHints_def)
  then show ?thesis
    using empty_text_tests
    by (simp add: improveIdea_def Let_def details_of_def hintsOf_def noHints_def trim_def
        toLowerCase_def siteType_merged_def siteType_classified_def categoryTests_def
        audience_merged_def audience_classified_def fromSet_def statedGoal_of_def)
qed

lemma project_scenario:
  "projectMode (details (improveIdea 0 0 (S ''project, mvp, milestones'')
      (Some (noHints\<lparr>h_siteType := Some (S ''booking'')\<rparr>))))
   \<and> siteType (details (improveIdea 0 0 (S ''project, mvp, milestones'')
      (Some (noHints\<lparr>h_siteType := Some (S ''booking'')\<rparr>)))) = Booking
   \<and> blueprint (details (improveIdea 0 0 (S ''project, mvp, milestones'')
      (Some (noHints\<lparr>h_siteType := Some (S ''booking'')\<rparr>)))) \<noteq> None"
proof -
  have "test projectRe (toLowerCase (trim (S ''project, mvp, milestones'')))"
    by (simp add: regex_eval projectRe_def)
  moreover have "siteType_merged (noHints\<lparr>h_siteType := Some (S ''booking'')\<rparr>) lower = Booking"
    for lower
    using siteType_hint_wins [of "noHints\<lparr>h_siteType := Some (S ''booking'')\<rparr>" Booking lower]
    by simp
  ultimately show ?thesis
    by (simp add: improveIdea_def Let_def details_of_def hintsOf_def projectMode_merged_def
        projectMode_classified_def)
qed

text \<open>
  A hinted audience or tone that names a member of \<open>Object.prototype\<close> is rendered, in
  the Arabic prompt, as that member; any other word that the tables do not have is
  rendered as it is.
\<close>

lemma orKey_inherited:
  "orKey audienceAr (S ''constructor'') = S ''function Object() { [native code] }''
   \<and> orKey toneAr (S ''toString'') = S ''function toString() { [native code] }''
   \<and> orKey toneAr (S ''__proto__'') = S ''[object Object]''
   \<and> orKey audienceAr (S ''Kids'') = S ''Kids''"
  by (simp add: orKey_def audienceAr_def toneAr_def objectPrototype_def nativeFunction_def)
    (simp add: S_def)
end
